(* ===== verification/Prelude.thy ===== *)
theory Prelude
  imports Main "HOL-Library.Word"
begin

text \<open>
  Shared vocabulary of the development: the machine integer types of the Rust
  sources, the result type used for every fallible operation (an error on the
  left, as \<open>Err\<close> of Rust's \<open>Result\<close>), the named collections of rewrite rules the
  component theories fill, and generic lemmas on lists, options and maps that
  the component proofs share.
\<close>

type_synonym u32 = "32 word"
type_synonym i64 = int

text \<open>\<open>Result<T, E>\<close> of Rust, \<open>Err e\<close> is \<open>Inl e\<close> and \<open>Ok x\<close> is \<open>Inr x\<close>.\<close>

type_synonym ('e, 'a) result = "'e + 'a"

text \<open>
  The question-mark operator: \<open>x?\<close> returns the error of \<open>x\<close> from the enclosing
  function, converted by \<open>f\<close> (Rust's \<open>From\<close> conversion into the caller's error
  type), and otherwise continues with the value.
\<close>

definition try_res :: "('e1 \<Rightarrow> 'e2) \<Rightarrow> ('e1, 'a) result \<Rightarrow> ('a \<Rightarrow> ('e2, 'b) result) \<Rightarrow> ('e2, 'b) result" where
  "try_res f x k = (case x of Inl e \<Rightarrow> Inl (f e) | Inr a \<Rightarrow> k a)"

named_theorems ecs_simps "evaluation rules of the ECS world model"
named_theorems weapon_simps "evaluation rules of the weapon builder and spawning"
named_theorems rune_simps "evaluation rules of the script engine model"

lemma try_res_Inl [simp]: "try_res f (Inl e) k = Inl (f e)"
  by (simp add: try_res_def)

lemma try_res_Inr [simp]: "try_res f (Inr a) k = k a"
  by (simp add: try_res_def)

lemma try_res_eq_Inr:
  "try_res f x k = Inr b \<longleftrightarrow> (\<exists>a. x = Inr a \<and> k a = Inr b)"
  by (cases x) auto

lemma try_res_eq_Inl:
  "try_res f x k = Inl e \<longleftrightarrow> (\<exists>e'. x = Inl e' \<and> e = f e') \<or> (\<exists>a. x = Inr a \<and> k a = Inl e)"
  by (cases x) auto

subsection \<open>Fallible computations that may not return\<close>

text \<open>
  A computation of the script engine returns an error, a value, or, with the
  fuel it was given, nothing: \<open>('e, 'a) result option\<close>.  \<open>res_bind\<close>
  sequences two of them, passing an error and non-return through.
\<close>

definition res_bind :: "('e, 'a) result option \<Rightarrow> ('a \<Rightarrow> ('e, 'b) result option) \<Rightarrow> ('e, 'b) result option" where
  "res_bind r k = (case r of None \<Rightarrow> None | Some (Inl e) \<Rightarrow> Some (Inl e) | Some (Inr a) \<Rightarrow> k a)"

lemma res_bind_simps [simp]:
  "res_bind None k = None"
  "res_bind (Some (Inl e)) k = Some (Inl e)"
  "res_bind (Some (Inr a)) k = k a"
  by (simp_all add: res_bind_def)

lemma res_bind_cong [fundef_cong]:
  "r = r' \<Longrightarrow> (\<And>a. r' = Some (Inr a) \<Longrightarrow> k a = k' a) \<Longrightarrow> res_bind r k = res_bind r' k'"
  by (auto simp: res_bind_def split: option.splits sum.splits)

lemma res_bind_assoc:
  "res_bind (res_bind r k) k' = res_bind r (\<lambda>a. res_bind (k a) k')"
  by (auto simp: res_bind_def split: option.splits sum.splits)

lemma res_bind_eq_Some_Inr:
  "res_bind r k = Some (Inr b) \<longleftrightarrow> (\<exists>a. r = Some (Inr a) \<and> k a = Some (Inr b))"
  by (auto simp: res_bind_def split: option.splits sum.splits)

lemma res_bind_eq_None:
  "res_bind r k = None \<longleftrightarrow> r = None \<or> (\<exists>a. r = Some (Inr a) \<and> k a = None)"
  by (auto simp: res_bind_def split: option.splits sum.splits)

lemma res_bind_push:
  "res_bind (res_bind r (\<lambda>(vs, h'). Some (Inr (f vs, h')))) (\<lambda>(st', h'). k st' h') =
   res_bind r (\<lambda>(vs, h'). k (f vs) h')"
  by (auto simp: res_bind_def split: option.splits sum.splits)

lemma res_bind_cont:
  assumes "\<And>vs h'. r = Some (Inr (vs, h')) \<Longrightarrow> k1 vs h' = res_bind (k2 vs h') k3"
  shows "res_bind r (\<lambda>(vs, h'). k1 vs h') = res_bind (res_bind r (\<lambda>(vs, h'). k2 vs h')) k3"
  using assms by (auto simp: res_bind_def split: option.splits sum.splits)

subsection \<open>Lists of optional values\<close>

lemma those_map_Some [simp]: "those (map Some xs) = Some xs"
  by (induction xs) auto

lemma those_eq_Some_iff:
  "those xs = Some ys \<longleftrightarrow> xs = map Some ys"
proof (induction xs arbitrary: ys)
  case Nil
  then show ?case by auto
next
  case (Cons x xs)
  then show ?case by (cases x) (auto split: option.splits)
qed

lemma those_eq_None_iff: "those xs = None \<longleftrightarrow> None \<in> set xs"
proof (induction xs)
  case Nil
  then show ?case by simp
next
  case (Cons x xs)
  then show ?case by (cases x) auto
qed

lemma map_filter_append [simp]:
  "List.map_filter f (xs @ ys) = List.map_filter f xs @ List.map_filter f ys"
  by (simp add: map_filter_def)

lemma set_map_filter:
  "set (List.map_filter f xs) = {y. \<exists>x \<in> set xs. f x = Some y}"
  by (induction xs) (auto split: option.splits)

text \<open>Tagging each element with an optional datum keeps the elements that have one, in order.\<close>

lemma map_fst_map_filter_Pair:
  "map fst (List.map_filter (\<lambda>x. map_option (Pair x) (g x)) xs) = filter (\<lambda>x. g x \<noteq> None) xs"
  by (induction xs) (auto split: option.splits)

lemma distinct_map_filter_Pair:
  "distinct xs \<Longrightarrow> distinct (map fst (List.map_filter (\<lambda>x. map_option (Pair x) (g x)) xs))"
  by (simp add: map_fst_map_filter_Pair)

subsection \<open>Options as lists\<close>

text \<open>The zero or one elements of an option, in list form.\<close>

definition opt_list :: "'a option \<Rightarrow> 'a list" where
  "opt_list x = (case x of None \<Rightarrow> [] | Some a \<Rightarrow> [a])"

lemma opt_list_simps [simp]: "opt_list None = []" "opt_list (Some a) = [a]"
  by (simp_all add: opt_list_def)

subsection \<open>Counting the set fields of a record\<close>

text \<open>How many of a list of flags hold: used for the variant markers.\<close>

definition count_true :: "bool list \<Rightarrow> nat" where
  "count_true bs = length (filter (\<lambda>b. b) bs)"

lemma count_true_simps [simp]:
  "count_true [] = 0"
  "count_true (True # bs) = Suc (count_true bs)"
  "count_true (False # bs) = count_true bs"
  by (simp_all add: count_true_def)

lemma count_true_3_eq_1:
  "count_true [a, b, c] = 1 \<longleftrightarrow> (a \<and> \<not> b \<and> \<not> c) \<or> (\<not> a \<and> b \<and> \<not> c) \<or> (\<not> a \<and> \<not> b \<and> c)"
  by (cases a; cases b; cases c) simp_all

end
