(* ===== verification/RuneValue.thy ===== *)
theory RuneValue
  imports Prelude
begin

text \<open>
  Script values of the Rune runtime, as far as the program exchanges them with
  the script: integers (Rune's are 64-bit signed), the unit value, vectors, and
  references to native \<open>Any\<close> objects.  Native objects live in a heap of shared
  slots; passing an object to a native function that takes it by value (the
  setters' \<open>mut self\<close>, the final \<open>from_value::<Vec<Weapon>>\<close>) takes it out of
  its slot, and any later access through another reference fails with a
  \<open>moved\<close> access error.  The heap is generic in the native type \<open>'a\<close>; the
  program instantiates it with \<open>Weapon\<close>.  Rune is a library the sources only
  call: this theory follows its documented value semantics.
\<close>

datatype 'a rvalue = VUnit | VInteger int | VVec "'a rvalue list" | VAny nat

datatype 'a slot = Live 'a | Taken

record 'a heap =
  objects :: "nat \<rightharpoonup> 'a slot"
  next_obj :: nat

definition heap_empty :: "'a heap" where
  "heap_empty = \<lparr>objects = Map.empty, next_obj = 0\<rparr>"

datatype vm_error =
    MissingFunction "string list"
  | MissingInstanceFunction string
  | BadArgumentCount nat nat
  | ExpectedType string
  | IntegerOverflow
  | AccessMoved
  | MissingLocal string
  | StackUnderflow

definition alloc_any :: "'a heap \<Rightarrow> 'a \<Rightarrow> 'a rvalue \<times> 'a heap" where
  "alloc_any h x = (VAny (next_obj h), h\<lparr>objects := (objects h)(next_obj h \<mapsto> Live x), next_obj := Suc (next_obj h)\<rparr>)"

text \<open>\<open>FromValue\<close> for an \<open>Any\<close> type taken by value: the object is moved out of its slot.\<close>

definition take_any :: "string \<Rightarrow> 'a heap \<Rightarrow> 'a rvalue \<Rightarrow> (vm_error, 'a \<times> 'a heap) result" where
  "take_any tyname h v =
     (case v of
        VAny r \<Rightarrow>
          (case objects h r of
             Some (Live x) \<Rightarrow> Inr (x, h\<lparr>objects := (objects h)(r \<mapsto> Taken)\<rparr>)
           | _ \<Rightarrow> Inl AccessMoved)
      | _ \<Rightarrow> Inl (ExpectedType tyname))"

text \<open>\<open>FromValue for u32\<close>: an integer in range, otherwise a conversion error.\<close>

definition from_value_u32 :: "'a rvalue \<Rightarrow> (vm_error, u32) result" where
  "from_value_u32 v =
     (case v of
        VInteger n \<Rightarrow> if 0 \<le> n \<and> n < 2 ^ 32 then Inr (word_of_int n) else Inl IntegerOverflow
      | _ \<Rightarrow> Inl (ExpectedType ''u32''))"

text \<open>\<open>from_value::<Vec<T>>\<close> for an \<open>Any\<close> type \<open>T\<close>: a vector whose elements are taken in order.\<close>

fun take_all :: "string \<Rightarrow> 'a heap \<Rightarrow> 'a rvalue list \<Rightarrow> (vm_error, 'a list \<times> 'a heap) result" where
  "take_all tyname h [] = Inr ([], h)"
| "take_all tyname h (v # vs) =
     (case take_any tyname h v of
        Inl e \<Rightarrow> Inl e
      | Inr (x, h') \<Rightarrow>
          (case take_all tyname h' vs of
             Inl e \<Rightarrow> Inl e
           | Inr (xs, h'') \<Rightarrow> Inr (x # xs, h'')))"

definition from_value_vec :: "string \<Rightarrow> 'a heap \<Rightarrow> 'a rvalue \<Rightarrow> (vm_error, 'a list \<times> 'a heap) result" where
  "from_value_vec tyname h v =
     (case v of VVec vs \<Rightarrow> take_all tyname h vs | _ \<Rightarrow> Inl (ExpectedType ''Vec''))"

lemmas value_defs [rune_simps] = heap_empty_def alloc_any_def take_any_def from_value_u32_def
  from_value_vec_def

subsection \<open>Lemmas\<close>

lemma from_value_u32_Inr:
  "from_value_u32 v = Inr x \<longleftrightarrow> (\<exists>n. v = VInteger n \<and> 0 \<le> n \<and> n < 2 ^ 32 \<and> x = word_of_int n)"
  by (auto simp: from_value_u32_def split: rvalue.splits if_splits)

lemma from_value_u32_of_nat:
  "from_value_u32 (VInteger (int n) :: 'a rvalue) = Inr (of_nat n) \<longleftrightarrow> n < 2 ^ 32"
proof -
  have "(word_of_int (int n) :: u32) = of_nat n" by simp
  then show ?thesis by (auto simp: from_value_u32_def)
qed

lemma take_any_VAny_Live:
  "objects h r = Some (Live x) \<Longrightarrow> take_any t h (VAny r) = Inr (x, h\<lparr>objects := (objects h)(r \<mapsto> Taken)\<rparr>)"
  by (simp add: take_any_def)

lemma take_all_length:
  "take_all t h vs = Inr (xs, h') \<Longrightarrow> length xs = length vs"
  by (induction t h vs arbitrary: xs h' rule: take_all.induct)
    (auto split: sum.splits prod.splits)

lemma take_any_Inr_iff:
  "take_any t h v = Inr (x, h') \<longleftrightarrow>
     (\<exists>r. v = VAny r \<and> objects h r = Some (Live x) \<and> h' = h\<lparr>objects := (objects h)(r \<mapsto> Taken)\<rparr>)"
  by (auto simp: take_any_def split: rvalue.splits option.splits slot.splits)

lemma take_all_Cons_Inr:
  "take_all t h (v # vs) = Inr (xs, h') \<longleftrightarrow>
     (\<exists>x h1 xs'. take_any t h v = Inr (x, h1) \<and> take_all t h1 vs = Inr (xs', h') \<and> xs = x # xs')"
  by (auto split: sum.splits prod.splits)

lemma take_all_Inr_iff:
  "take_all t h vs = Inr (xs, h') \<longleftrightarrow>
     (\<exists>rs. vs = map VAny rs \<and> distinct rs \<and> list_all2 (\<lambda>r x. objects h r = Some (Live x)) rs xs \<and>
        h' = h\<lparr>objects := (objects h)(rs [\<mapsto>] replicate (length rs) Taken)\<rparr>)"
proof (induction vs arbitrary: h xs h')
  case Nil
  then show ?case by auto
next
  case (Cons v vs)
  show ?case
  proof
    assume "take_all t h (v # vs) = Inr (xs, h')"
    then obtain x h1 xs' where t1: "take_any t h v = Inr (x, h1)" and t2: "take_all t h1 vs = Inr (xs', h')"
      and xs: "xs = x # xs'"
      unfolding take_all_Cons_Inr by blast
    obtain r where v: "v = VAny r" and live: "objects h r = Some (Live x)"
      and h1: "h1 = h\<lparr>objects := (objects h)(r \<mapsto> Taken)\<rparr>"
      using t1 unfolding take_any_Inr_iff by blast
    obtain rs where vs: "vs = map VAny rs" and d: "distinct rs"
      and la: "list_all2 (\<lambda>r x. objects h1 r = Some (Live x)) rs xs'"
      and h': "h' = h1\<lparr>objects := (objects h1)(rs [\<mapsto>] replicate (length rs) Taken)\<rparr>"
      using Cons.IH t2 by blast
    have nr: "r \<notin> set rs"
    proof
      assume "r \<in> set rs"
      then obtain i where i: "i < length rs" "rs ! i = r" by (auto simp: in_set_conv_nth)
      then have "objects h1 r = Some (Live (xs' ! i))" using la by (auto simp: list_all2_conv_all_nth)
      then show False using h1 by simp
    qed
    then have ne: "\<And>i. i < length rs \<Longrightarrow> rs ! i \<noteq> r" using nth_mem by blast
    have la': "list_all2 (\<lambda>r x. objects h r = Some (Live x)) rs xs'"
      using la ne unfolding h1 by (simp add: list_all2_conv_all_nth)
    have "h' = h\<lparr>objects := (objects h)(r # rs [\<mapsto>] replicate (length (r # rs)) Taken)\<rparr>"
      using h' h1 by simp
    then show "\<exists>rs. v # vs = map VAny rs \<and> distinct rs \<and> list_all2 (\<lambda>r x. objects h r = Some (Live x)) rs xs \<and>
        h' = h\<lparr>objects := (objects h)(rs [\<mapsto>] replicate (length rs) Taken)\<rparr>"
      using v vs d nr live la' xs by (intro exI [of _ "r # rs"]) simp
  next
    assume "\<exists>rs. v # vs = map VAny rs \<and> distinct rs \<and> list_all2 (\<lambda>r x. objects h r = Some (Live x)) rs xs \<and>
        h' = h\<lparr>objects := (objects h)(rs [\<mapsto>] replicate (length rs) Taken)\<rparr>"
    then obtain r rs x xs' where v: "v = VAny r" and vs: "vs = map VAny rs" and nr: "r \<notin> set rs"
      and d: "distinct rs" and live: "objects h r = Some (Live x)"
      and la: "list_all2 (\<lambda>r x. objects h r = Some (Live x)) rs xs'" and xs: "xs = x # xs'"
      and h': "h' = h\<lparr>objects := (objects h)(r # rs [\<mapsto>] replicate (length (r # rs)) Taken)\<rparr>"
      by (auto simp: list_all2_Cons1)
    let ?h1 = "h\<lparr>objects := (objects h)(r \<mapsto> Taken)\<rparr>"
    have ne: "\<And>i. i < length rs \<Longrightarrow> rs ! i \<noteq> r" using nr nth_mem by blast
    have "list_all2 (\<lambda>r x. objects ?h1 r = Some (Live x)) rs xs'"
      using la ne by (simp add: list_all2_conv_all_nth)
    then have "take_all t ?h1 vs = Inr (xs', ?h1\<lparr>objects := (objects ?h1)(rs [\<mapsto>] replicate (length rs) Taken)\<rparr>)"
      using Cons.IH vs d by blast
    moreover have "take_any t h v = Inr (x, ?h1)" using v live by (simp add: take_any_def)
    ultimately show "take_all t h (v # vs) = Inr (xs, h')"
      using xs h' by simp
  qed
qed

text \<open>
  \<open>from_value::<Vec<T>>\<close> succeeds exactly on a vector of references to distinct
  objects still in their slots, and takes each of them out.
\<close>

lemma from_value_vec_Inr_iff:
  "from_value_vec t h v = Inr (xs, h') \<longleftrightarrow>
     (\<exists>rs. v = VVec (map VAny rs) \<and> distinct rs \<and> list_all2 (\<lambda>r x. objects h r = Some (Live x)) rs xs \<and>
        h' = h\<lparr>objects := (objects h)(rs [\<mapsto>] replicate (length rs) Taken)\<rparr>)"
  by (auto simp: from_value_vec_def take_all_Inr_iff split: rvalue.splits)

end
