(* ===== verification/RuneModule.thy ===== *)
theory RuneModule
  imports RuneValue
begin

text \<open>
  Rune's registration layer, the library side of the scripting bridge: a
  \<open>Module\<close> collects native types and functions under item paths, a \<open>Context\<close>
  is built by installing modules, and its \<open>RuntimeContext\<close> is the table the
  virtual machine calls through.  Registering a type or a function whose name is
  already taken fails with a \<open>ContextError\<close>, in the module and again when a
  module is installed into a context that already has the name.  Native
  functions take the heap and their argument values and return a value or a VM
  error; the wrappers at the end are what \<open>#[rune::function]\<close> generates for the
  three signatures the program registers (conversion of each argument with
  \<open>FromValue\<close>, left to right, and of the result with \<open>ToValue\<close>).
\<close>

type_synonym item = "string list"

datatype fn_key = StaticFn item | InstanceFn item string

type_synonym 'a native = "'a heap \<Rightarrow> 'a rvalue list \<Rightarrow> (vm_error, 'a rvalue \<times> 'a heap) result"

record 'a module =
  mod_types :: "item list"
  mod_fns :: "(fn_key \<times> 'a native) list"

datatype context_error =
    ConflictingType item
  | ConflictingFunctionName item
  | ConflictingInstanceFunction item string

fun conflict_error :: "fn_key \<Rightarrow> context_error" where
  "conflict_error (StaticFn p) = ConflictingFunctionName p"
| "conflict_error (InstanceFn t n) = ConflictingInstanceFunction t n"

definition module_new :: "'a module" where
  "module_new = \<lparr>mod_types = [], mod_fns = []\<rparr>"

definition module_ty :: "item \<Rightarrow> 'a module \<Rightarrow> (context_error, 'a module) result" where
  "module_ty t m =
     (if t \<in> set (mod_types m) then Inl (ConflictingType t) else Inr (m\<lparr>mod_types := mod_types m @ [t]\<rparr>))"

definition module_function_meta :: "fn_key \<Rightarrow> 'a native \<Rightarrow> 'a module \<Rightarrow> (context_error, 'a module) result" where
  "module_function_meta k f m =
     (if k \<in> set (map fst (mod_fns m)) then Inl (conflict_error k)
      else Inr (m\<lparr>mod_fns := mod_fns m @ [(k, f)]\<rparr>))"

record 'a rcontext =
  ctx_types :: "item list"
  ctx_fns :: "(fn_key \<times> 'a native) list"

text \<open>\<open>Context::install\<close>: the module's types, then its functions, each checked against the context.\<close>

fun install_types :: "item list \<Rightarrow> 'a rcontext \<Rightarrow> (context_error, 'a rcontext) result" where
  "install_types [] c = Inr c"
| "install_types (t # ts) c =
     (if t \<in> set (ctx_types c) then Inl (ConflictingType t)
      else install_types ts (c\<lparr>ctx_types := ctx_types c @ [t]\<rparr>))"

fun install_fns :: "(fn_key \<times> 'a native) list \<Rightarrow> 'a rcontext \<Rightarrow> (context_error, 'a rcontext) result" where
  "install_fns [] c = Inr c"
| "install_fns ((k, f) # fs) c =
     (if k \<in> set (map fst (ctx_fns c)) then Inl (conflict_error k)
      else install_fns fs (c\<lparr>ctx_fns := ctx_fns c @ [(k, f)]\<rparr>))"

definition context_install :: "'a rcontext \<Rightarrow> 'a module \<Rightarrow> (context_error, 'a rcontext) result" where
  "context_install c m = try_res id (install_types (mod_types m) c) (install_fns (mod_fns m))"

type_synonym 'a runtime = "fn_key \<rightharpoonup> 'a native"

definition context_runtime :: "'a rcontext \<Rightarrow> 'a runtime" where
  "context_runtime c = map_of (ctx_fns c)"

subsection \<open>Generated wrappers\<close>

definition native_ctor_u32 :: "(u32 \<Rightarrow> 'a) \<Rightarrow> 'a native" where
  "native_ctor_u32 f h args =
     (case args of
        [a] \<Rightarrow> try_res id (from_value_u32 a) (\<lambda>x. Inr (alloc_any h (f x)))
      | _ \<Rightarrow> Inl (BadArgumentCount 1 (length args)))"

definition native_method_u32 :: "string \<Rightarrow> ('a \<Rightarrow> u32 \<Rightarrow> 'a) \<Rightarrow> 'a native" where
  "native_method_u32 tyname f h args =
     (case args of
        [s, a] \<Rightarrow>
          try_res id (take_any tyname h s) (\<lambda>(x, h').
          try_res id (from_value_u32 a) (\<lambda>v. Inr (alloc_any h' (f x v))))
      | _ \<Rightarrow> Inl (BadArgumentCount 2 (length args)))"

definition native_method_u32_u32 :: "string \<Rightarrow> ('a \<Rightarrow> u32 \<Rightarrow> u32 \<Rightarrow> 'a) \<Rightarrow> 'a native" where
  "native_method_u32_u32 tyname f h args =
     (case args of
        [s, a, b] \<Rightarrow>
          try_res id (take_any tyname h s) (\<lambda>(x, h').
          try_res id (from_value_u32 a) (\<lambda>v.
          try_res id (from_value_u32 b) (\<lambda>u. Inr (alloc_any h' (f x v u)))))
      | _ \<Rightarrow> Inl (BadArgumentCount 3 (length args)))"

lemmas module_defs [rune_simps] = module_new_def module_ty_def module_function_meta_def
  context_install_def context_runtime_def

subsection \<open>Lemmas\<close>

lemma install_types_Inr:
  "install_types ts c = Inr c' \<longleftrightarrow>
     distinct ts \<and> set ts \<inter> set (ctx_types c) = {} \<and> c' = c\<lparr>ctx_types := ctx_types c @ ts\<rparr>"
  by (induction ts c rule: install_types.induct) auto

lemma install_fns_Inr:
  "install_fns fs c = Inr c' \<longleftrightarrow>
     distinct (map fst fs) \<and> set (map fst fs) \<inter> set (map fst (ctx_fns c)) = {} \<and>
     c' = c\<lparr>ctx_fns := ctx_fns c @ fs\<rparr>"
  by (induction fs c rule: install_fns.induct) auto

lemma context_install_Inr:
  "context_install c m = Inr c' \<longleftrightarrow>
     distinct (mod_types m) \<and> set (mod_types m) \<inter> set (ctx_types c) = {} \<and>
     distinct (map fst (mod_fns m)) \<and> set (map fst (mod_fns m)) \<inter> set (map fst (ctx_fns c)) = {} \<and>
     c' = \<lparr>ctx_types = ctx_types c @ mod_types m, ctx_fns = ctx_fns c @ mod_fns m\<rparr>"
  by (auto simp: context_install_def try_res_eq_Inr install_types_Inr install_fns_Inr)

end
