(* ===== verification/Components.thy ===== *)
theory Components
  imports Prelude
begin

text \<open>
  The ECS component types of \<open>src/weapons.rs\<close> (lines 4--34): one Rust struct per
  attribute a weapon entity can carry, and the three zero-size variant markers.
  The ECS stores components of many Rust types side by side; the model gathers
  them into one sum type \<open>component\<close>, and the Rust \<open>TypeId\<close> by which the store
  keys them into \<open>component_kind\<close>, with \<open>kind_of\<close> the type of a component value.
\<close>

text \<open>\<open>struct WeaponId { id: u32 }\<close>; the field is named \<open>wid\<close> since \<open>id\<close> is the HOL identity.\<close>

record weapon_id =
  wid :: u32

text \<open>The tuple structs \<open>Level(u32)\<close>, \<open>MagicLevel(u32)\<close>, \<open>Mana(u32)\<close>, \<open>DistanceBreakChance(u32)\<close>.\<close>

datatype level = Level u32
datatype magic_level = MagicLevel u32
datatype mana = Mana u32

text \<open>\<open>struct WandDamageRange { min: u32, max: u32 }\<close>.\<close>

record wand_damage_range =
  range_min :: u32
  range_max :: u32

datatype distance_break_chance = DistanceBreakChance u32

text \<open>The unit structs \<open>WandWeapon\<close>, \<open>MeleeWeapon\<close>, \<open>DistanceWeapon\<close>: variant markers.\<close>

datatype wand_weapon = WandWeapon
datatype melee_weapon = MeleeWeapon
datatype distance_weapon = DistanceWeapon

text \<open>Every type deriving \<open>Component\<close>, as one sum, and the component type identifiers.\<close>

datatype component =
    C_WeaponId weapon_id
  | C_Level level
  | C_MagicLevel magic_level
  | C_Mana mana
  | C_WandDamageRange wand_damage_range
  | C_DistanceBreakChance distance_break_chance
  | C_WandWeapon wand_weapon
  | C_MeleeWeapon melee_weapon
  | C_DistanceWeapon distance_weapon

datatype component_kind =
    K_WeaponId | K_Level | K_MagicLevel | K_Mana | K_WandDamageRange
  | K_DistanceBreakChance | K_WandWeapon | K_MeleeWeapon | K_DistanceWeapon

fun kind_of :: "component \<Rightarrow> component_kind" where
  "kind_of (C_WeaponId _) = K_WeaponId"
| "kind_of (C_Level _) = K_Level"
| "kind_of (C_MagicLevel _) = K_MagicLevel"
| "kind_of (C_Mana _) = K_Mana"
| "kind_of (C_WandDamageRange _) = K_WandDamageRange"
| "kind_of (C_DistanceBreakChance _) = K_DistanceBreakChance"
| "kind_of (C_WandWeapon _) = K_WandWeapon"
| "kind_of (C_MeleeWeapon _) = K_MeleeWeapon"
| "kind_of (C_DistanceWeapon _) = K_DistanceWeapon"

text \<open>The three marker kinds, the variant a weapon entity belongs to.\<close>

definition marker_kinds :: "component_kind list" where
  "marker_kinds = [K_WandWeapon, K_MeleeWeapon, K_DistanceWeapon]"

text \<open>A marker type has one value, so a marker component is determined by its kind.\<close>

lemma marker_unique [simp]:
  "(a :: wand_weapon) = WandWeapon"
  "(b :: melee_weapon) = MeleeWeapon"
  "(c :: distance_weapon) = DistanceWeapon"
proof -
  show "a = WandWeapon" by (cases a) simp
  show "b = MeleeWeapon" by (cases b) simp
  show "c = DistanceWeapon" by (cases c) simp
qed

lemma kind_of_marker_eq:
  "kind_of c = K_WandWeapon \<longleftrightarrow> c = C_WandWeapon WandWeapon"
  "kind_of c = K_MeleeWeapon \<longleftrightarrow> c = C_MeleeWeapon MeleeWeapon"
  "kind_of c = K_DistanceWeapon \<longleftrightarrow> c = C_DistanceWeapon DistanceWeapon"
  by (cases c; simp)+

end
