(* ===== verification/Weapons.thy ===== *)
theory Weapons
  imports Components
begin

text \<open>
  The domain object of \<open>src/weapons.rs\<close> (lines 53--127): the \<open>Weapon\<close> struct
  with its id, three optional variant markers and five optional attributes, its
  derived \<open>Default\<close>, the three constructors exposed to scripts and the five
  fluent setters, each of which takes the weapon by value and returns it with one
  field set.  An abstract specification (a weapon is an id, one variant and a
  partial map of attributes) states what the builder promises, and the
  refinement lemmas show that every operation implements its abstract
  counterpart.
\<close>

record weapon =
  wpn_id :: u32
  wand :: "wand_weapon option"
  distance :: "distance_weapon option"
  melee :: "melee_weapon option"
  level :: "level option"
  magic_level :: "magic_level option"
  mana :: "mana option"
  damage_range :: "wand_damage_range option"
  break_chance :: "distance_break_chance option"

text \<open>\<open>#[derive(Default)]\<close>: zero id, every option \<open>None\<close>.\<close>

definition weapon_default :: weapon where
  "weapon_default =
     \<lparr>wpn_id = 0, wand = None, distance = None, melee = None, level = None,
      magic_level = None, mana = None, damage_range = None, break_chance = None\<rparr>"

text \<open>The constructors \<open>Weapon::new_wand\<close>, \<open>Weapon::new_distance\<close>, \<open>Weapon::new_melee\<close>.\<close>

definition weapon_new_wand :: "u32 \<Rightarrow> weapon" where
  "weapon_new_wand i = weapon_default\<lparr>wpn_id := i, wand := Some WandWeapon\<rparr>"

definition weapon_new_distance :: "u32 \<Rightarrow> weapon" where
  "weapon_new_distance i = weapon_default\<lparr>wpn_id := i, distance := Some DistanceWeapon\<rparr>"

definition weapon_new_melee :: "u32 \<Rightarrow> weapon" where
  "weapon_new_melee i = weapon_default\<lparr>wpn_id := i, melee := Some MeleeWeapon\<rparr>"

text \<open>The instance methods \<open>level\<close>, \<open>magic_level\<close>, \<open>mana\<close>, \<open>damage_range\<close>, \<open>break_chance\<close>.\<close>

definition weapon_level :: "weapon \<Rightarrow> u32 \<Rightarrow> weapon" where
  "weapon_level w v = w\<lparr>level := Some (Level v)\<rparr>"

definition weapon_magic_level :: "weapon \<Rightarrow> u32 \<Rightarrow> weapon" where
  "weapon_magic_level w v = w\<lparr>magic_level := Some (MagicLevel v)\<rparr>"

definition weapon_mana :: "weapon \<Rightarrow> u32 \<Rightarrow> weapon" where
  "weapon_mana w v = w\<lparr>mana := Some (Mana v)\<rparr>"

definition weapon_damage_range :: "weapon \<Rightarrow> u32 \<Rightarrow> u32 \<Rightarrow> weapon" where
  "weapon_damage_range w vmin vmax = w\<lparr>damage_range := Some \<lparr>range_min = vmin, range_max = vmax\<rparr>\<rparr>"

definition weapon_break_chance :: "weapon \<Rightarrow> u32 \<Rightarrow> weapon" where
  "weapon_break_chance w v = w\<lparr>break_chance := Some (DistanceBreakChance v)\<rparr>"

lemmas weapon_op_defs [weapon_simps] = weapon_default_def weapon_new_wand_def
  weapon_new_distance_def weapon_new_melee_def weapon_level_def weapon_magic_level_def
  weapon_mana_def weapon_damage_range_def weapon_break_chance_def

subsection \<open>The constructor and setter calls as data\<close>

text \<open>
  The calls a script can make on the builder: which constructor starts the value,
  and the setter calls that follow it in a chain such as
  \<open>Weapon::new_wand(1).level(30).damage_range(20, 30)\<close>.
\<close>

datatype variant = Wand | Melee | Distance

datatype config =
    CfgLevel u32 | CfgMagicLevel u32 | CfgMana u32 | CfgDamageRange u32 u32 | CfgBreakChance u32

fun weapon_new :: "variant \<Rightarrow> u32 \<Rightarrow> weapon" where
  "weapon_new Wand i = weapon_new_wand i"
| "weapon_new Melee i = weapon_new_melee i"
| "weapon_new Distance i = weapon_new_distance i"

fun apply_config :: "weapon \<Rightarrow> config \<Rightarrow> weapon" where
  "apply_config w (CfgLevel v) = weapon_level w v"
| "apply_config w (CfgMagicLevel v) = weapon_magic_level w v"
| "apply_config w (CfgMana v) = weapon_mana w v"
| "apply_config w (CfgDamageRange a b) = weapon_damage_range w a b"
| "apply_config w (CfgBreakChance v) = weapon_break_chance w v"

definition build_chain :: "variant \<Rightarrow> u32 \<Rightarrow> config list \<Rightarrow> weapon" where
  "build_chain v i cs = foldl apply_config (weapon_new v i) cs"

subsection \<open>Abstract specification\<close>

text \<open>
  What the design promises of a weapon: an id, exactly one variant, and a partial
  map from attribute names to values, independent of the variant.
\<close>

datatype attr = A_Level | A_MagicLevel | A_Mana | A_DamageRange | A_BreakChance

datatype attr_val = AV u32 | AV_Range u32 u32

record weapon_spec =
  spec_id :: u32
  spec_variant :: variant
  spec_attrs :: "attr \<rightharpoonup> attr_val"

fun cfg_attr :: "config \<Rightarrow> attr" where
  "cfg_attr (CfgLevel _) = A_Level"
| "cfg_attr (CfgMagicLevel _) = A_MagicLevel"
| "cfg_attr (CfgMana _) = A_Mana"
| "cfg_attr (CfgDamageRange _ _) = A_DamageRange"
| "cfg_attr (CfgBreakChance _) = A_BreakChance"

fun cfg_val :: "config \<Rightarrow> attr_val" where
  "cfg_val (CfgLevel v) = AV v"
| "cfg_val (CfgMagicLevel v) = AV v"
| "cfg_val (CfgMana v) = AV v"
| "cfg_val (CfgDamageRange a b) = AV_Range a b"
| "cfg_val (CfgBreakChance v) = AV v"

definition spec_new :: "variant \<Rightarrow> u32 \<Rightarrow> weapon_spec" where
  "spec_new v i = \<lparr>spec_id = i, spec_variant = v, spec_attrs = Map.empty\<rparr>"

definition spec_config :: "weapon_spec \<Rightarrow> config \<Rightarrow> weapon_spec" where
  "spec_config s c = s\<lparr>spec_attrs := (spec_attrs s)(cfg_attr c \<mapsto> cfg_val c)\<rparr>"

text \<open>The variant a weapon carries, when exactly one marker is set.\<close>

definition variant_of :: "weapon \<Rightarrow> variant option" where
  "variant_of w =
     (case (wand w, melee w, distance w) of
        (Some _, None, None) \<Rightarrow> Some Wand
      | (None, Some _, None) \<Rightarrow> Some Melee
      | (None, None, Some _) \<Rightarrow> Some Distance
      | _ \<Rightarrow> None)"

fun attr_of :: "weapon \<Rightarrow> attr \<Rightarrow> attr_val option" where
  "attr_of w A_Level = map_option (\<lambda>l. case l of Level v \<Rightarrow> AV v) (level w)"
| "attr_of w A_MagicLevel = map_option (\<lambda>l. case l of MagicLevel v \<Rightarrow> AV v) (magic_level w)"
| "attr_of w A_Mana = map_option (\<lambda>l. case l of Mana v \<Rightarrow> AV v) (mana w)"
| "attr_of w A_DamageRange = map_option (\<lambda>r. AV_Range (range_min r) (range_max r)) (damage_range w)"
| "attr_of w A_BreakChance =
     map_option (\<lambda>b. case b of DistanceBreakChance v \<Rightarrow> AV v) (break_chance w)"

text \<open>The abstraction function: \<open>None\<close> for a value without exactly one variant marker.\<close>

definition abs_weapon :: "weapon \<Rightarrow> weapon_spec option" where
  "abs_weapon w =
     map_option (\<lambda>v. \<lparr>spec_id = wpn_id w, spec_variant = v, spec_attrs = attr_of w\<rparr>) (variant_of w)"

text \<open>The invariant of \<open>Weapon\<close> values: exactly one of the three markers is set.\<close>

definition weapon_wf :: "weapon \<Rightarrow> bool" where
  "weapon_wf w \<longleftrightarrow> count_true [wand w \<noteq> None, melee w \<noteq> None, distance w \<noteq> None] = 1"

subsection \<open>Lemmas\<close>

lemma weapon_wf_iff_variant: "weapon_wf w \<longleftrightarrow> variant_of w \<noteq> None"
  by (auto simp: weapon_wf_def variant_of_def count_true_3_eq_1 split: option.splits)

lemma variant_of_apply_config [simp]: "variant_of (apply_config w c) = variant_of w"
  by (cases c) (simp_all add: variant_of_def weapon_simps)

lemma wpn_id_apply_config [simp]: "wpn_id (apply_config w c) = wpn_id w"
  by (cases c) (simp_all add: weapon_simps)

lemma attr_of_apply_config: "attr_of (apply_config w c) = (attr_of w)(cfg_attr c \<mapsto> cfg_val c)"
proof (rule ext)
  fix a
  show "attr_of (apply_config w c) a = ((attr_of w)(cfg_attr c \<mapsto> cfg_val c)) a"
    by (cases c; cases a) (simp_all add: weapon_simps)
qed

lemma attr_of_weapon_new: "attr_of (weapon_new v i) = Map.empty"
proof (rule ext)
  fix a
  show "attr_of (weapon_new v i) a = None"
    by (cases v; cases a) (simp_all add: weapon_simps)
qed

lemma variant_of_weapon_new [simp]: "variant_of (weapon_new v i) = Some v"
  by (cases v) (simp_all add: variant_of_def weapon_simps)

lemma spec_attrs_foldl_config:
  "spec_attrs (foldl spec_config s cs) a =
     (if \<exists>c \<in> set cs. cfg_attr c = a
      then Some (cfg_val (last (filter (\<lambda>c. cfg_attr c = a) cs)))
      else spec_attrs s a)"
  by (induction cs arbitrary: s) (auto simp: spec_config_def filter_empty_conv)

lemma foldl_spec_config_keeps:
  "spec_id (foldl spec_config s cs) = spec_id s"
  "spec_variant (foldl spec_config s cs) = spec_variant s"
  by (induction cs arbitrary: s) (simp_all add: spec_config_def)

lemma abs_weapon_new: "abs_weapon (weapon_new v i) = Some (spec_new v i)"
  by (simp add: abs_weapon_def spec_new_def attr_of_weapon_new weapon_simps)
    (cases v; simp add: weapon_simps)

lemma abs_weapon_apply_config:
  "abs_weapon (apply_config w c) = map_option (\<lambda>s. spec_config s c) (abs_weapon w)"
  by (simp add: abs_weapon_def spec_config_def attr_of_apply_config option.map_comp comp_def)

lemma abs_weapon_build: "abs_weapon (build_chain v i cs) = Some (foldl spec_config (spec_new v i) cs)"
proof (induction cs rule: rev_induct)
  case Nil
  then show ?case by (simp add: build_chain_def abs_weapon_new)
next
  case (snoc c cs)
  then show ?case by (simp add: build_chain_def abs_weapon_apply_config)
qed

lemma abs_weapon_SomeD:
  "abs_weapon w = Some s \<Longrightarrow>
     wpn_id w = spec_id s \<and> variant_of w = Some (spec_variant s) \<and> attr_of w = spec_attrs s"
  by (auto simp: abs_weapon_def)

lemma attr_of_build: "attr_of (build_chain v i cs) = spec_attrs (foldl spec_config (spec_new v i) cs)"
  using abs_weapon_SomeD [OF abs_weapon_build [of v i cs]] by simp

lemma build_chain_spec:
  "attr_of (build_chain v i cs) a =
     (if \<exists>c \<in> set cs. cfg_attr c = a
      then Some (cfg_val (last (filter (\<lambda>c. cfg_attr c = a) cs))) else None)
   \<and> wpn_id (build_chain v i cs) = i \<and> variant_of (build_chain v i cs) = Some v"
proof -
  have "abs_weapon (build_chain v i cs) = Some (foldl spec_config (spec_new v i) cs)"
    by (rule abs_weapon_build)
  then have "wpn_id (build_chain v i cs) = i \<and> variant_of (build_chain v i cs) = Some v"
    by (auto dest: abs_weapon_SomeD simp: foldl_spec_config_keeps spec_new_def)
  moreover have "attr_of (build_chain v i cs) a =
     (if \<exists>c \<in> set cs. cfg_attr c = a
      then Some (cfg_val (last (filter (\<lambda>c. cfg_attr c = a) cs))) else None)"
    by (simp add: attr_of_build spec_attrs_foldl_config spec_new_def)
  ultimately show ?thesis by simp
qed

text \<open>
  C19. The invariant of \<open>Weapon\<close> values, exactly one variant marker, holds for
  every constructed value and is kept by every setter.
\<close>

theorem weapon_wf_preserved:
  "weapon_wf (weapon_new v i) \<and> weapon_wf (apply_config w c) = weapon_wf w"
  by (simp add: weapon_wf_iff_variant)

lemma build_wf: "weapon_wf (build_chain v i cs)"
  using build_chain_spec [of v i cs] by (simp add: weapon_wf_iff_variant)

text \<open>
  C5. Refinement of the fluent setters: on the abstraction, each setter sets
  exactly its attribute to the given value and keeps the id, the variant and
  every other attribute; a value without a single variant stays without one.
\<close>

theorem setters_refine:
  "abs_weapon (weapon_level w v) = map_option (\<lambda>s. s\<lparr>spec_attrs := (spec_attrs s)(A_Level \<mapsto> AV v)\<rparr>) (abs_weapon w) \<and>
   abs_weapon (weapon_magic_level w v) =
     map_option (\<lambda>s. s\<lparr>spec_attrs := (spec_attrs s)(A_MagicLevel \<mapsto> AV v)\<rparr>) (abs_weapon w) \<and>
   abs_weapon (weapon_mana w v) = map_option (\<lambda>s. s\<lparr>spec_attrs := (spec_attrs s)(A_Mana \<mapsto> AV v)\<rparr>) (abs_weapon w) \<and>
   abs_weapon (weapon_damage_range w a b) =
     map_option (\<lambda>s. s\<lparr>spec_attrs := (spec_attrs s)(A_DamageRange \<mapsto> AV_Range a b)\<rparr>) (abs_weapon w) \<and>
   abs_weapon (weapon_break_chance w v) =
     map_option (\<lambda>s. s\<lparr>spec_attrs := (spec_attrs s)(A_BreakChance \<mapsto> AV v)\<rparr>) (abs_weapon w)"
  using abs_weapon_apply_config [of w "CfgLevel v"] abs_weapon_apply_config [of w "CfgMagicLevel v"]
    abs_weapon_apply_config [of w "CfgMana v"] abs_weapon_apply_config [of w "CfgDamageRange a b"]
    abs_weapon_apply_config [of w "CfgBreakChance v"]
  by (simp add: spec_config_def)

text \<open>
  C17. Each constructor yields a weapon whose abstraction is the given id, the
  constructor's variant and no attribute at all.
\<close>

theorem constructors_spec:
  "abs_weapon (weapon_new_wand i) = Some \<lparr>spec_id = i, spec_variant = Wand, spec_attrs = Map.empty\<rparr> \<and>
   abs_weapon (weapon_new_melee i) = Some \<lparr>spec_id = i, spec_variant = Melee, spec_attrs = Map.empty\<rparr> \<and>
   abs_weapon (weapon_new_distance i) = Some \<lparr>spec_id = i, spec_variant = Distance, spec_attrs = Map.empty\<rparr>"
  using abs_weapon_new [of Wand i] abs_weapon_new [of Melee i] abs_weapon_new [of Distance i]
  by (simp add: spec_new_def)

text \<open>
  C18. A weapon built by a constructor and a chain of setter calls has an attribute
  exactly when a setter for it was called, with the value of the last such call.
\<close>

theorem build_attr_iff:
  "attr_of (build_chain v i cs) a =
     (if \<exists>c \<in> set cs. cfg_attr c = a
      then Some (cfg_val (last (filter (\<lambda>c. cfg_attr c = a) cs))) else None)"
  using build_chain_spec [of v i cs a] by simp

end
