(* ===== verification/Bridge.thy ===== *)
theory Bridge
  imports RuneModule Weapons
begin

text \<open>
  The scripting bridge, \<open>weapons::module\<close> of \<open>src/weapons.rs\<close> (lines 36--51):
  registration of the \<open>Weapon\<close> type, its three constructors as static functions
  \<open>Weapon::new_*\<close> and its five setters as instance functions, each through the
  wrapper \<open>#[rune::function]\<close> generates for its signature.  Every \<open>?\<close> of the
  source is a \<open>try_res\<close> that returns the \<open>ContextError\<close>.
\<close>

definition weapon_item :: item where
  "weapon_item = [''Weapon'']"

definition weapon_tyname :: string where
  "weapon_tyname = ''Weapon''"

definition weapons_module :: "(context_error, weapon module) result" where
  "weapons_module =
     (let module = module_new in
      try_res id (module_ty weapon_item module) (\<lambda>module.
      try_res id (module_function_meta (StaticFn [''Weapon'', ''new_wand''])
                    (native_ctor_u32 weapon_new_wand) module) (\<lambda>module.
      try_res id (module_function_meta (StaticFn [''Weapon'', ''new_distance''])
                    (native_ctor_u32 weapon_new_distance) module) (\<lambda>module.
      try_res id (module_function_meta (StaticFn [''Weapon'', ''new_melee''])
                    (native_ctor_u32 weapon_new_melee) module) (\<lambda>module.
      try_res id (module_function_meta (InstanceFn weapon_item ''level'')
                    (native_method_u32 weapon_tyname weapon_level) module) (\<lambda>module.
      try_res id (module_function_meta (InstanceFn weapon_item ''magic_level'')
                    (native_method_u32 weapon_tyname weapon_magic_level) module) (\<lambda>module.
      try_res id (module_function_meta (InstanceFn weapon_item ''mana'')
                    (native_method_u32 weapon_tyname weapon_mana) module) (\<lambda>module.
      try_res id (module_function_meta (InstanceFn weapon_item ''damage_range'')
                    (native_method_u32_u32 weapon_tyname weapon_damage_range) module) (\<lambda>module.
      try_res id (module_function_meta (InstanceFn weapon_item ''break_chance'')
                    (native_method_u32 weapon_tyname weapon_break_chance) module) (\<lambda>module.
      Inr module))))))))))"

text \<open>The table the bridge is meant to register: the builder API of \<open>Weapon\<close>.\<close>

definition weapon_api :: "(fn_key \<times> weapon native) list" where
  "weapon_api =
     [(StaticFn [''Weapon'', ''new_wand''], native_ctor_u32 weapon_new_wand),
      (StaticFn [''Weapon'', ''new_distance''], native_ctor_u32 weapon_new_distance),
      (StaticFn [''Weapon'', ''new_melee''], native_ctor_u32 weapon_new_melee),
      (InstanceFn weapon_item ''level'', native_method_u32 weapon_tyname weapon_level),
      (InstanceFn weapon_item ''magic_level'', native_method_u32 weapon_tyname weapon_magic_level),
      (InstanceFn weapon_item ''mana'', native_method_u32 weapon_tyname weapon_mana),
      (InstanceFn weapon_item ''damage_range'', native_method_u32_u32 weapon_tyname weapon_damage_range),
      (InstanceFn weapon_item ''break_chance'', native_method_u32 weapon_tyname weapon_break_chance)]"

lemma weapons_module_eq:
  "weapons_module = Inr \<lparr>mod_types = [weapon_item], mod_fns = weapon_api\<rparr>"
  by (simp add: weapons_module_def weapon_api_def module_defs weapon_item_def)

end
