(* ===== verification/RuneLang.thy ===== *)
theory RuneLang
  imports RuneModule
begin

text \<open>
  The fragment of the Rune language the program's scripts are written in, and
  Rune's compiler for it.  A source is a list of function items; a function body
  is a block of \<open>let\<close> and expression statements ending in a tail expression;
  expressions are integer literals, locals, path calls (\<open>Weapon::new_wand(1)\<close>,
  or a call of another script function), method calls (\<open>w.level(30)\<close>) and
  vector literals.  The compiler resolves every path at compile time, against the
  script's own functions first and then the static functions of the context, and
  every local to its stack slot; method calls are resolved at run time by the
  type of the receiver, as Rune does.  It reports errors and warnings as
  diagnostics, and the build fails when any diagnostic is an error.  Locals live
  in stack slots of the function's frame: the compiler tracks, for every slot,
  the local it holds (or none for a temporary), so that a local is found at the
  right depth even inside an argument list.
\<close>

datatype expr =
    Lit int
  | Var string
  | Call item "expr list"
  | MethodCall expr string "expr list"
  | VecLit "expr list"
  | Block "stmt list" expr
and stmt =
    Let string expr
  | Discard expr

record fn_item =
  fn_name :: string
  fn_params :: "string list"
  fn_body :: expr

text \<open>\<open>Sources\<close>: named source files, each a list of items.\<close>

type_synonym sources = "(string \<times> fn_item list) list"

datatype inst =
    IInteger int
  | ICopy nat
  | IDrop
  | IClean nat
  | ICall item nat
  | ICallFn string nat
  | ICallInstance string nat
  | IVec nat

text \<open>The compiled \<open>Unit\<close>: each script function with its arity and code.\<close>

type_synonym cunit = "(string \<times> nat \<times> inst list) list"

datatype diagnostic =
    ErrMissingItem item
  | ErrMissingLocal string
  | ErrIntegerLiteral int
  | ErrDuplicateFn string
  | WarnNotUsed

fun is_error :: "diagnostic \<Rightarrow> bool" where
  "is_error WarnNotUsed = False"
| "is_error _ = True"

text \<open>The slot of a local: the last slot bound to that name.\<close>

fun slot_of :: "string \<Rightarrow> string option list \<Rightarrow> nat option" where
  "slot_of x [] = None"
| "slot_of x (s # ss) =
     (case slot_of x ss of
        Some i \<Rightarrow> Some (Suc i)
      | None \<Rightarrow> if s = Some x then Some 0 else None)"

definition i64_min :: int where "i64_min = - (2 ^ 63)"
definition i64_max :: int where "i64_max = 2 ^ 63 - 1"

text \<open>An expression statement whose value is dropped and that has no effect.\<close>

fun pure_expr :: "expr \<Rightarrow> bool" where
  "pure_expr (Lit _) = True"
| "pure_expr (Var _) = True"
| "pure_expr _ = False"

text \<open>
  The compiler.  \<open>fns\<close> are the script's function names, \<open>statics\<close> the static
  function paths of the context, \<open>sc\<close> the slots of the current frame.
\<close>

fun compile_expr :: "string list \<Rightarrow> item list \<Rightarrow> string option list \<Rightarrow> expr \<Rightarrow> diagnostic list \<times> inst list"
and compile_args :: "string list \<Rightarrow> item list \<Rightarrow> string option list \<Rightarrow> expr list \<Rightarrow> diagnostic list \<times> inst list"
and compile_stmts :: "string list \<Rightarrow> item list \<Rightarrow> string option list \<Rightarrow> stmt list \<Rightarrow> diagnostic list \<times> inst list \<times> string option list"
where
  "compile_expr fns statics sc (Lit n) =
     (if i64_min \<le> n \<and> n \<le> i64_max then ([], [IInteger n]) else ([ErrIntegerLiteral n], []))"
| "compile_expr fns statics sc (Var x) =
     (case slot_of x sc of Some i \<Rightarrow> ([], [ICopy i]) | None \<Rightarrow> ([ErrMissingLocal x], []))"
| "compile_expr fns statics sc (Call p args) =
     (let (d, c) = compile_args fns statics sc args in
      case p of
        [f] \<Rightarrow> if f \<in> set fns then (d, c @ [ICallFn f (length args)])
               else if p \<in> set statics then (d, c @ [ICall p (length args)])
               else (d @ [ErrMissingItem p], c)
      | _ \<Rightarrow> if p \<in> set statics then (d, c @ [ICall p (length args)])
             else (d @ [ErrMissingItem p], c))"
| "compile_expr fns statics sc (MethodCall r m args) =
     (let (d, c) = compile_args fns statics sc (r # args) in (d, c @ [ICallInstance m (length args)]))"
| "compile_expr fns statics sc (VecLit es) =
     (let (d, c) = compile_args fns statics sc es in (d, c @ [IVec (length es)]))"
| "compile_expr fns statics sc (Block ss e) =
     (let (d1, c1, sc') = compile_stmts fns statics sc ss;
          (d2, c2) = compile_expr fns statics sc' e
      in (d1 @ d2, c1 @ c2 @ [IClean (length sc' - length sc)]))"
| "compile_args fns statics sc [] = ([], [])"
| "compile_args fns statics sc (e # es) =
     (let (d1, c1) = compile_expr fns statics sc e;
          (d2, c2) = compile_args fns statics (sc @ [None]) es
      in (d1 @ d2, c1 @ c2))"
| "compile_stmts fns statics sc [] = ([], [], sc)"
| "compile_stmts fns statics sc (Let x e # ss) =
     (let (d1, c1) = compile_expr fns statics sc e;
          (d2, c2, sc') = compile_stmts fns statics (sc @ [Some x]) ss
      in (d1 @ d2, c1 @ c2, sc'))"
| "compile_stmts fns statics sc (Discard e # ss) =
     (let (d1, c1) = compile_expr fns statics sc e;
          w = (if pure_expr e then [WarnNotUsed] else []);
          (d2, c2, sc') = compile_stmts fns statics sc ss
      in (d1 @ w @ d2, c1 @ [IDrop] @ c2, sc'))"

definition compile_fn :: "string list \<Rightarrow> item list \<Rightarrow> fn_item \<Rightarrow> diagnostic list \<times> (string \<times> nat \<times> inst list)" where
  "compile_fn fns statics f =
     (let (d, c) = compile_expr fns statics (map Some (fn_params f)) (fn_body f)
      in (d, (fn_name f, length (fn_params f), c)))"

fun duplicates :: "string list \<Rightarrow> string list" where
  "duplicates [] = []"
| "duplicates (x # xs) = (if x \<in> set xs then x # duplicates (filter (\<lambda>y. y \<noteq> x) xs) else duplicates xs)"

definition static_paths :: "'a rcontext \<Rightarrow> item list" where
  "static_paths c = List.map_filter (\<lambda>(k, _). case k of StaticFn p \<Rightarrow> Some p | _ \<Rightarrow> None) (ctx_fns c)"

datatype build_error = BuildError nat

text \<open>
  \<open>rune::prepare(sources).with_context(ctx).with_diagnostics(d).build()\<close>: the
  diagnostics, and the unit or a build error counting the errors among them.
\<close>

definition prepare_build :: "'a rcontext \<Rightarrow> sources \<Rightarrow> diagnostic list \<times> (build_error, cunit) result" where
  "prepare_build ctx srcs =
     (let items = concat (map snd srcs);
          fns = map fn_name items;
          dups = map ErrDuplicateFn (duplicates fns);
          compiled = map (compile_fn fns (static_paths ctx)) items;
          diags = dups @ concat (map fst compiled);
          errs = length (filter is_error diags)
      in (diags, if errs = 0 then Inr (map snd compiled) else Inl (BuildError errs)))"

lemma prepare_build_Inr_iff:
  "(\<exists>u. snd (prepare_build ctx srcs) = Inr u) \<longleftrightarrow> (\<forall>d \<in> set (fst (prepare_build ctx srcs)). \<not> is_error d)"
  by (simp add: prepare_build_def Let_def filter_empty_conv)

end
