(* ===== verification/RuneVm.thy ===== *)
theory RuneVm
  imports RuneLang
begin

text \<open>
  Rune's virtual machine for the compiled fragment: one value stack per call
  frame, native calls through the runtime table, instance calls dispatched on the
  type of the receiver, and calls of script functions.  A script function may
  call itself, so execution need not end; the model runs with fuel, one unit per
  entered script function, and \<open>None\<close> is "no result with this much fuel".  The
  lemmas show that more fuel never changes a result, so \<open>None\<close> for every
  amount of fuel is exactly non-termination.
\<close>

record 'a vmenv =
  env_runtime :: "'a runtime"
  env_unit :: cunit
  env_any :: item

text \<open>The type item of a value, by which an instance function is looked up.\<close>

fun type_item :: "item \<Rightarrow> 'a rvalue \<Rightarrow> item" where
  "type_item any VUnit = [''unit'']"
| "type_item any (VInteger _) = [''i64'']"
| "type_item any (VVec _) = [''Vec'']"
| "type_item any (VAny _) = any"

text \<open>The top \<open>n\<close> values of the stack, in push order, and the rest.\<close>

definition pop_n :: "nat \<Rightarrow> 'a rvalue list \<Rightarrow> ('a rvalue list \<times> 'a rvalue list) option" where
  "pop_n n st = (if n \<le> length st then Some (take (length st - n) st, drop (length st - n) st) else None)"

definition ret_value :: "'a rvalue list \<Rightarrow> (vm_error, 'a rvalue) result" where
  "ret_value st = (if st = [] then Inl StackUnderflow else Inr (last st))"

fun exec :: "nat \<Rightarrow> 'a vmenv \<Rightarrow> inst list \<Rightarrow> 'a rvalue list \<Rightarrow> 'a heap \<Rightarrow>
    (vm_error, 'a rvalue list \<times> 'a heap) result option" where
  "exec fuel env [] st h = Some (Inr (st, h))"
| "exec fuel env (IInteger n # is) st h = exec fuel env is (st @ [VInteger n]) h"
| "exec fuel env (ICopy i # is) st h =
     (if i < length st then exec fuel env is (st @ [st ! i]) h else Some (Inl StackUnderflow))"
| "exec fuel env (IDrop # is) st h =
     (if st = [] then Some (Inl StackUnderflow) else exec fuel env is (butlast st) h)"
| "exec fuel env (IClean n # is) st h =
     (if n < length st then exec fuel env is (take (length st - Suc n) st @ [last st]) h
      else Some (Inl StackUnderflow))"
| "exec fuel env (IVec n # is) st h =
     (case pop_n n st of
        None \<Rightarrow> Some (Inl StackUnderflow)
      | Some (rest, args) \<Rightarrow> exec fuel env is (rest @ [VVec args]) h)"
| "exec fuel env (ICall p n # is) st h =
     (case pop_n n st of
        None \<Rightarrow> Some (Inl StackUnderflow)
      | Some (rest, args) \<Rightarrow>
          (case env_runtime env (StaticFn p) of
             None \<Rightarrow> Some (Inl (MissingFunction p))
           | Some f \<Rightarrow>
               (case f h args of
                  Inl e \<Rightarrow> Some (Inl e)
                | Inr (v, h') \<Rightarrow> exec fuel env is (rest @ [v]) h')))"
| "exec fuel env (ICallInstance m n # is) st h =
     (case pop_n (Suc n) st of
        None \<Rightarrow> Some (Inl StackUnderflow)
      | Some (rest, args) \<Rightarrow>
          (case env_runtime env (InstanceFn (type_item (env_any env) (hd args)) m) of
             None \<Rightarrow> Some (Inl (MissingInstanceFunction m))
           | Some f \<Rightarrow>
               (case f h args of
                  Inl e \<Rightarrow> Some (Inl e)
                | Inr (v, h') \<Rightarrow> exec fuel env is (rest @ [v]) h')))"
| "exec 0 env (ICallFn g n # is) st h = None"
| "exec (Suc fuel) env (ICallFn g n # is) st h =
     (case pop_n n st of
        None \<Rightarrow> Some (Inl StackUnderflow)
      | Some (rest, args) \<Rightarrow>
          (case map_of (env_unit env) g of
             None \<Rightarrow> Some (Inl (MissingFunction [g]))
           | Some (arity, code) \<Rightarrow>
               if arity \<noteq> n then Some (Inl (BadArgumentCount arity n))
               else
                 (case exec fuel env code args h of
                    None \<Rightarrow> None
                  | Some (Inl e) \<Rightarrow> Some (Inl e)
                  | Some (Inr (st', h')) \<Rightarrow>
                      (case ret_value st' of
                         Inl e \<Rightarrow> Some (Inl e)
                       | Inr v \<Rightarrow> exec (Suc fuel) env is (rest @ [v]) h'))))"

text \<open>
  \<open>Vm\<close> and \<open>Vm::new(runtime, unit)\<close>: the shared runtime and unit and a fresh
  stack; the heap of native objects starts empty for every machine.
\<close>

record 'a vm =
  vm_runtime :: "'a runtime"
  vm_unit :: cunit
  vm_stack :: "'a rvalue list"

definition vm_new :: "'a runtime \<Rightarrow> cunit \<Rightarrow> 'a vm" where
  "vm_new rt u = \<lparr>vm_runtime = rt, vm_unit = u, vm_stack = []\<rparr>"

text \<open>
  \<open>vm.execute([name], args)?.complete().into_result()\<close>: look the entry function
  up, check its arity, run it to completion; the result and the heap its native
  objects live in.
\<close>

definition vm_execute :: "nat \<Rightarrow> item \<Rightarrow> 'a vm \<Rightarrow> string \<Rightarrow> 'a rvalue list \<Rightarrow>
    (vm_error, 'a rvalue \<times> 'a heap) result option" where
  "vm_execute fuel any m name args =
     (case map_of (vm_unit m) name of
        None \<Rightarrow> Some (Inl (MissingFunction [name]))
      | Some (arity, code) \<Rightarrow>
          if arity \<noteq> length args then Some (Inl (BadArgumentCount arity (length args)))
          else
            (case fuel of
               0 \<Rightarrow> None
             | Suc f \<Rightarrow>
                 (case exec f \<lparr>env_runtime = vm_runtime m, env_unit = vm_unit m, env_any = any\<rparr>
                         code (vm_stack m @ args) heap_empty of
                    None \<Rightarrow> None
                  | Some (Inl e) \<Rightarrow> Some (Inl e)
                  | Some (Inr (st, h)) \<Rightarrow>
                      (case ret_value st of Inl e \<Rightarrow> Some (Inl e) | Inr v \<Rightarrow> Some (Inr (v, h))))))"

subsection \<open>Fuel\<close>

lemma exec_fuel_mono:
  "exec fuel env ins st h = Some r \<Longrightarrow> exec (Suc fuel) env ins st h = Some r"
proof (induction fuel arbitrary: ins st h r)
  case 0
  from "0" show ?case
  proof (induction ins arbitrary: st h)
    case Nil
    then show ?case by simp
  next
    case (Cons i ins)
    then show ?case by (cases i) (auto split: option.splits prod.splits sum.splits if_splits)
  qed
next
  case (Suc f)
  from Suc.prems show ?case
  proof (induction ins arbitrary: st h)
    case Nil
    then show ?case by simp
  next
    case (Cons i ins)
    then show ?case
      using Suc.IH by (cases i) (auto split: option.splits prod.splits sum.splits if_splits)
  qed
qed

lemma exec_fuel_le:
  assumes "exec f env ins st h = Some r" and "f \<le> g"
  shows "exec g env ins st h = Some r"
  using assms(2,1)
proof (induction g rule: dec_induct)
  case base
  then show ?case .
next
  case (step g)
  then show ?case by (blast intro: exec_fuel_mono)
qed

lemma vm_execute_fuel_le:
  assumes "vm_execute f any m n args = Some r" and "f \<le> g"
  shows "vm_execute g any m n args = Some r"
proof (cases "map_of (vm_unit m) n")
  case None
  then show ?thesis using assms(1) by (simp add: vm_execute_def)
next
  case (Some p)
  obtain arity code where p: "p = (arity, code)" by (cases p)
  show ?thesis
  proof (cases "arity = length args")
    case False
    then show ?thesis using assms(1) Some p by (simp add: vm_execute_def)
  next
    case True
    let ?env = "\<lparr>env_runtime = vm_runtime m, env_unit = vm_unit m, env_any = any\<rparr>"
    obtain f' where f: "f = Suc f'"
      using assms(1) Some p True by (cases f) (auto simp: vm_execute_def)
    obtain g' where g: "g = Suc g'" "f' \<le> g'" using assms(2) f by (cases g) auto
    obtain x where x: "exec f' ?env code (vm_stack m @ args) heap_empty = Some x"
      using assms(1) Some p True f by (auto simp: vm_execute_def split: option.splits)
    have "exec g' ?env code (vm_stack m @ args) heap_empty = Some x"
      using exec_fuel_le [OF x g(2)] .
    then show ?thesis using assms(1) Some p True f g x by (simp add: vm_execute_def)
  qed
qed

end
