(* ===== verification/RuneContext.thy ===== *)
theory RuneContext
  imports Bridge RuneVm
begin

text \<open>
  \<open>src/rune_context.rs\<close>: \<open>RuneContext::new\<close> builds the default context,
  installs the weapons module, compiles the sources while collecting
  diagnostics, writes the diagnostics to standard error when there are any
  (which may fail, aborting with the I/O error), and only then inspects the
  compile result; on success it keeps the runtime and the unit, both shared and
  never written again.  \<open>vm\<close> makes a fresh machine over
  them.  \<open>rune_modules::default_context()\<close> is a library call: it is the
  parameter \<open>std\<close>, a context or the error it fails with.  Every \<open>?\<close> converts
  its error into \<open>anyhow::Error\<close>, modelled as \<open>app_error\<close> with one constructor
  per error type that reaches it.  The result comes with what was written to
  standard error.
\<close>

datatype app_error =
    ErrContext context_error
  | ErrBuild build_error
  | ErrVm vm_error
  | ErrDecode vm_error
  | ErrEmit

record 'a rune_ctx =
  rc_runtime :: "'a runtime"
  rc_unit :: cunit

text \<open>
  Standard error as \<open>diagnostics.emit(&mut writer, &sources)\<close> finds it: writable,
  or failing with an I/O error.  \<open>emit_diagnostics\<close> writes the diagnostics, or
  fails (the error converted by \<open>?\<close> into \<open>anyhow::Error\<close>).
\<close>

datatype stderr_sink = StderrWritable | StderrFails

definition emit_diagnostics :: "stderr_sink \<Rightarrow> diagnostic list \<Rightarrow> (app_error, diagnostic list) result" where
  "emit_diagnostics sink ds = (case sink of StderrWritable \<Rightarrow> Inr ds | StderrFails \<Rightarrow> Inl ErrEmit)"

definition rune_context_new_env :: "stderr_sink \<Rightarrow> (context_error, weapon rcontext) result \<Rightarrow> sources \<Rightarrow>
    (app_error, weapon rune_ctx) result \<times> diagnostic list" where
  "rune_context_new_env sink std sources =
     (case std of
        Inl e \<Rightarrow> (Inl (ErrContext e), [])
      | Inr context \<Rightarrow>
          (case weapons_module of
             Inl e \<Rightarrow> (Inl (ErrContext e), [])
           | Inr m \<Rightarrow>
               (case context_install context m of
                  Inl e \<Rightarrow> (Inl (ErrContext e), [])
                | Inr context \<Rightarrow>
                    (let (diagnostics, unit) = prepare_build context sources
                     in case (if diagnostics \<noteq> [] then emit_diagnostics sink diagnostics else Inr []) of
                          Inl e \<Rightarrow> (Inl e, [])
                        | Inr stderr \<Rightarrow>
                            (case unit of
                               Inl e \<Rightarrow> (Inl (ErrBuild e), stderr)
                             | Inr u \<Rightarrow> (Inr \<lparr>rc_runtime = context_runtime context, rc_unit = u\<rparr>, stderr))))))"

text \<open>\<open>RuneContext::new\<close> as \<open>startup\<close> runs it: standard error is writable.\<close>

definition rune_context_new :: "(context_error, weapon rcontext) result \<Rightarrow> sources \<Rightarrow>
    (app_error, weapon rune_ctx) result \<times> diagnostic list" where
  "rune_context_new std sources = rune_context_new_env StderrWritable std sources"

definition rune_vm :: "'a rune_ctx \<Rightarrow> 'a vm" where
  "rune_vm ctx = vm_new (rc_runtime ctx) (rc_unit ctx)"

text \<open>A default context that leaves room for the weapons module: it defines none of its names.\<close>

definition std_compatible :: "weapon rcontext \<Rightarrow> bool" where
  "std_compatible c \<longleftrightarrow>
     weapon_item \<notin> set (ctx_types c) \<and> set (map fst weapon_api) \<inter> set (map fst (ctx_fns c)) = {}"

text \<open>The context after \<open>context.install(weapons::module()?)\<close> on a compatible default context.\<close>

definition with_weapons :: "weapon rcontext \<Rightarrow> weapon rcontext" where
  "with_weapons c = \<lparr>ctx_types = ctx_types c @ [weapon_item], ctx_fns = ctx_fns c @ weapon_api\<rparr>"

lemma weapon_api_keys_distinct: "distinct (map fst weapon_api)"
  by (simp add: weapon_api_def weapon_item_def)

lemma install_weapons_module:
  "context_install c \<lparr>mod_types = [weapon_item], mod_fns = weapon_api\<rparr> = Inr c' \<longleftrightarrow>
     std_compatible c \<and> c' = with_weapons c"
  using weapon_api_keys_distinct
  by (auto simp: context_install_Inr std_compatible_def with_weapons_def)

lemma rune_context_new_compatible:
  assumes "std_compatible c"
  shows "rune_context_new (Inr c) src =
     (case prepare_build (with_weapons c) src of
        (d, Inl e) \<Rightarrow> (Inl (ErrBuild e), d)
      | (d, Inr u) \<Rightarrow> (Inr \<lparr>rc_runtime = context_runtime (with_weapons c), rc_unit = u\<rparr>, d))"
proof -
  have "context_install c \<lparr>mod_types = [weapon_item], mod_fns = weapon_api\<rparr> = Inr (with_weapons c)"
    using assms install_weapons_module by blast
  then show ?thesis
    by (simp add: rune_context_new_def rune_context_new_env_def emit_diagnostics_def weapons_module_eq
        split: prod.splits sum.splits)
qed

lemma runtime_with_weapons:
  assumes "std_compatible c" and "k \<in> set (map fst weapon_api)"
  shows "context_runtime (with_weapons c) k = map_of weapon_api k"
proof -
  have "map_of (ctx_fns c) k = None"
    using assms by (auto simp: std_compatible_def map_of_eq_None_iff)
  then show ?thesis by (simp add: context_runtime_def with_weapons_def map_add_def split: option.splits)
qed

lemma static_paths_with_weapons:
  "static_paths (with_weapons c) =
     static_paths c @ [[''Weapon'', ''new_wand''], [''Weapon'', ''new_distance''], [''Weapon'', ''new_melee'']]"
  by (simp add: static_paths_def with_weapons_def weapon_api_def)

end
