(* ===== verification/Ecs.thy ===== *)
theory Ecs
  imports Components
begin

text \<open>
  The part of the bevy ECS that the program uses, specialised to the program's
  component types: a \<open>World\<close> holding entities with components keyed by their
  type, one resource slot (the program inserts exactly one resource type,
  \<open>RuneContext\<close>), deferred \<open>Commands\<close> that a system queues and the schedule
  applies afterwards, and the read-only \<open>Query\<close>.  Bevy is a library the sources
  only call, so this theory is modelled from its documented behaviour: spawning
  reserves a fresh entity at once and queues the insertion of its components;
  inserting a component of a type the entity already has replaces it; a queued
  insertion on an entity that does not exist panics.  Entities are numbered in
  allocation order; as no entity is ever despawned, the generation part of a
  bevy \<open>Entity\<close> is always the same and is left out.
\<close>

type_synonym entity = nat

record 'r world =
  entity_count :: nat
  storage :: "entity \<Rightarrow> component_kind \<rightharpoonup> component"
  resource :: "'r option"

definition world_new :: "'r world" where
  "world_new = \<lparr>entity_count = 0, storage = (\<lambda>_. Map.empty), resource = None\<rparr>"

text \<open>
  Well-formed worlds: nothing is stored on an entity that has not been allocated,
  and every component is stored under its own type.
\<close>

definition world_wf :: "'r world \<Rightarrow> bool" where
  "world_wf w \<longleftrightarrow>
     (\<forall>e. entity_count w \<le> e \<longrightarrow> storage w e = Map.empty) \<and>
     (\<forall>e k c. storage w e k = Some c \<longrightarrow> kind_of c = k)"

subsection \<open>Deferred commands\<close>

datatype 'r command = Insert entity component | InsertResource 'r

record 'r commands =
  reserved :: nat
  queue :: "'r command list"

text \<open>\<open>Commands\<close> of a system: an empty queue over the world's entity allocator.\<close>

definition commands_of :: "'r world \<Rightarrow> 'r commands" where
  "commands_of w = \<lparr>reserved = entity_count w, queue = []\<rparr>"

text \<open>\<open>EntityCommands\<close>: the entity and the commands it writes to.\<close>

type_synonym 'r entity_commands = "entity \<times> 'r commands"

definition spawn_empty :: "'r commands \<Rightarrow> 'r entity_commands" where
  "spawn_empty c = (reserved c, c\<lparr>reserved := Suc (reserved c)\<rparr>)"

definition ec_insert :: "'r entity_commands \<Rightarrow> component \<Rightarrow> 'r entity_commands" where
  "ec_insert ec b = (case ec of (e, c) \<Rightarrow> (e, c\<lparr>queue := queue c @ [Insert e b]\<rparr>))"

definition spawn :: "'r commands \<Rightarrow> component \<Rightarrow> 'r entity_commands" where
  "spawn c b = ec_insert (spawn_empty c) b"

definition insert_resource :: "'r commands \<Rightarrow> 'r \<Rightarrow> 'r commands" where
  "insert_resource c r = c\<lparr>queue := queue c @ [InsertResource r]\<rparr>"

subsection \<open>Applying the queue to the world\<close>

datatype ecs_error = NoSuchEntity entity

fun apply_command :: "'r world \<Rightarrow> 'r command \<Rightarrow> (ecs_error, 'r world) result" where
  "apply_command w (Insert e b) =
     (if e < entity_count w
      then Inr (w\<lparr>storage := (storage w)(e := (storage w e)(kind_of b \<mapsto> b))\<rparr>)
      else Inl (NoSuchEntity e))"
| "apply_command w (InsertResource r) = Inr (w\<lparr>resource := Some r\<rparr>)"

fun apply_queue :: "'r world \<Rightarrow> 'r command list \<Rightarrow> (ecs_error, 'r world) result" where
  "apply_queue w [] = Inr w"
| "apply_queue w (cmd # cmds) =
     (case apply_command w cmd of Inl err \<Rightarrow> Inl err | Inr w' \<Rightarrow> apply_queue w' cmds)"

text \<open>Flushing materialises the entities reserved by the commands, with no components.\<close>

definition flush :: "'r world \<Rightarrow> nat \<Rightarrow> 'r world" where
  "flush w n = w\<lparr>entity_count := max (entity_count w) n\<rparr>"

definition apply_commands :: "'r world \<Rightarrow> 'r commands \<Rightarrow> (ecs_error, 'r world) result" where
  "apply_commands w c = apply_queue (flush w (reserved c)) (queue c)"

subsection \<open>Queries\<close>

text \<open>
  \<open>Query<(Entity, &A, &B, ...)>\<close>: every entity that has a component of each of the
  listed kinds, with those components.  Bevy iterates archetype by archetype; the
  model lists the matching entities in allocation order, and the properties below
  are stated over the set of results, which does not depend on the order.
\<close>

definition query :: "'r world \<Rightarrow> component_kind list \<Rightarrow> (entity \<times> component list) list" where
  "query w ks =
     List.map_filter (\<lambda>e. map_option (Pair e) (those (map (storage w e) ks))) [0..<entity_count w]"

text \<open>
  Well-formed commands for a world: the allocator is not behind the world's, and
  every queued insertion targets an entity reserved by then.
\<close>

definition commands_wf :: "'r world \<Rightarrow> 'r commands \<Rightarrow> bool" where
  "commands_wf w c \<longleftrightarrow>
     entity_count w \<le> reserved c \<and> (\<forall>e b. Insert e b \<in> set (queue c) \<longrightarrow> e < reserved c)"

lemmas ecs_defs [ecs_simps] = commands_of_def spawn_empty_def ec_insert_def spawn_def
  insert_resource_def apply_commands_def flush_def world_new_def

subsection \<open>Lemmas\<close>

lemma apply_queue_append:
  "apply_queue w (xs @ ys) = (case apply_queue w xs of Inl err \<Rightarrow> Inl err | Inr w' \<Rightarrow> apply_queue w' ys)"
  by (induction w xs rule: apply_queue.induct) (auto split: sum.splits)

lemma apply_command_wf:
  "world_wf w \<Longrightarrow> apply_command w cmd = Inr w' \<Longrightarrow> world_wf w'"
  by (cases cmd) (auto simp: world_wf_def split: if_splits)

lemma apply_command_entity_count:
  "apply_command w cmd = Inr w' \<Longrightarrow> entity_count w' = entity_count w"
  by (cases cmd) (auto split: if_splits)

lemma apply_queue_wf:
  "world_wf w \<Longrightarrow> apply_queue w cmds = Inr w' \<Longrightarrow> world_wf w'"
  by (induction w cmds rule: apply_queue.induct) (auto split: sum.splits dest: apply_command_wf)

lemma apply_queue_entity_count:
  "apply_queue w cmds = Inr w' \<Longrightarrow> entity_count w' = entity_count w"
  by (induction w cmds rule: apply_queue.induct)
    (auto split: sum.splits dest: apply_command_entity_count)

lemma flush_wf: "world_wf w \<Longrightarrow> world_wf (flush w n)"
  by (auto simp: world_wf_def flush_def)

lemma world_new_wf: "world_wf world_new"
  by (simp add: world_wf_def world_new_def)

lemma query_member:
  "(e, cs) \<in> set (query w ks) \<longleftrightarrow> e < entity_count w \<and> map (storage w e) ks = map Some cs"
  by (auto simp: query_def set_map_filter those_eq_Some_iff)

lemma query_distinct: "distinct (map fst (query w ks))"
  unfolding query_def by (rule distinct_map_filter_Pair) simp

lemma commands_of_wf: "commands_wf w (commands_of w)"
  by (simp add: commands_wf_def commands_of_def)

lemma spawn_wf: "commands_wf w c \<Longrightarrow> spawn c b = (e, c') \<Longrightarrow> commands_wf w c' \<and> e < reserved c'"
  by (fastforce simp: commands_wf_def spawn_def spawn_empty_def ec_insert_def less_Suc_eq)

lemma insert_resource_wf: "commands_wf w c \<Longrightarrow> commands_wf w (insert_resource c r)"
  by (auto simp: commands_wf_def insert_resource_def)

lemma apply_queue_ok:
  "\<forall>e b. Insert e b \<in> set cmds \<longrightarrow> e < entity_count w \<Longrightarrow> \<exists>w'. apply_queue w cmds = Inr w'"
proof (induction cmds arbitrary: w)
  case Nil
  then show ?case by simp
next
  case (Cons cmd cmds)
  show ?case
  proof (cases cmd)
    case (Insert e b)
    then have "e < entity_count w" using Cons.prems by simp
    moreover have "\<forall>e' b'. Insert e' b' \<in> set cmds \<longrightarrow>
        e' < entity_count (w\<lparr>storage := (storage w)(e := (storage w e)(kind_of b \<mapsto> b))\<rparr>)"
      using Cons.prems by simp
    ultimately show ?thesis using Insert Cons.IH by simp
  next
    case (InsertResource r)
    then show ?thesis using Cons.prems Cons.IH [of "w\<lparr>resource := Some r\<rparr>"] by simp
  qed
qed

text \<open>Applying well-formed commands never panics.\<close>

lemma apply_commands_ok: "commands_wf w c \<Longrightarrow> \<exists>w'. apply_commands w c = Inr w'"
  unfolding apply_commands_def
  by (rule apply_queue_ok) (auto simp: commands_wf_def flush_def)

lemma apply_commands_wf: "world_wf w \<Longrightarrow> apply_commands w c = Inr w' \<Longrightarrow> world_wf w'"
  unfolding apply_commands_def by (blast intro: apply_queue_wf flush_wf)

end
