(* ===== verification/Spawn.thy ===== *)
theory Spawn
  imports Ecs Weapons
begin

text \<open>
  Sparse materialisation, \<open>src/weapons.rs\<close> lines 129--164: \<open>insert_if_some\<close> on
  \<open>EntityCommands\<close> queues the insertion of a component only when the option holds
  one, and \<open>spawn_weapon\<close> on \<open>Commands\<close> spawns an entity carrying the weapon's
  \<open>WeaponId\<close> and chains \<open>insert_if_some\<close> over the eight optional fields.
\<close>

text \<open>
  \<open>insert_if_some<T: Component>\<close>: the generic parameter \<open>T\<close> is passed as its
  embedding \<open>into\<close> into the component sum (the \<open>Component\<close> impl of \<open>T\<close>).
\<close>

definition insert_if_some :: "('t \<Rightarrow> component) \<Rightarrow> 'r entity_commands \<Rightarrow> 't option \<Rightarrow> 'r entity_commands" where
  "insert_if_some into ec x = (case x of Some c \<Rightarrow> ec_insert ec (into c) | None \<Rightarrow> ec)"

definition spawn_weapon :: "'r commands \<Rightarrow> weapon \<Rightarrow> 'r commands" where
  "spawn_weapon cmds w =
     (let ec = spawn cmds (C_WeaponId \<lparr>wid = wpn_id w\<rparr>);
          ec = insert_if_some C_WandWeapon ec (wand w);
          ec = insert_if_some C_DistanceWeapon ec (distance w);
          ec = insert_if_some C_MeleeWeapon ec (melee w);
          ec = insert_if_some C_Level ec (level w);
          ec = insert_if_some C_MagicLevel ec (magic_level w);
          ec = insert_if_some C_Mana ec (mana w);
          ec = insert_if_some C_WandDamageRange ec (damage_range w);
          ec = insert_if_some C_DistanceBreakChance ec (break_chance w)
      in snd ec)"

text \<open>The \<open>for weapon in weapons { commands.spawn_weapon(weapon) }\<close> loop of \<open>startup\<close>.\<close>

definition spawn_weapons :: "'r commands \<Rightarrow> weapon list \<Rightarrow> 'r commands" where
  "spawn_weapons cmds ws = foldl spawn_weapon cmds ws"

subsection \<open>What a spawned weapon entity carries\<close>

text \<open>
  The specification of materialisation (design section 4.4): the id always, each
  optional field as one component of its type when it is present, nothing else.
\<close>

fun weapon_component :: "weapon \<Rightarrow> component_kind \<rightharpoonup> component" where
  "weapon_component w K_WeaponId = Some (C_WeaponId \<lparr>wid = wpn_id w\<rparr>)"
| "weapon_component w K_WandWeapon = map_option C_WandWeapon (wand w)"
| "weapon_component w K_DistanceWeapon = map_option C_DistanceWeapon (distance w)"
| "weapon_component w K_MeleeWeapon = map_option C_MeleeWeapon (melee w)"
| "weapon_component w K_Level = map_option C_Level (level w)"
| "weapon_component w K_MagicLevel = map_option C_MagicLevel (magic_level w)"
| "weapon_component w K_Mana = map_option C_Mana (mana w)"
| "weapon_component w K_WandDamageRange = map_option C_WandDamageRange (damage_range w)"
| "weapon_component w K_DistanceBreakChance = map_option C_DistanceBreakChance (break_chance w)"

text \<open>The components \<open>spawn_weapon\<close> queues, in the order of the code.\<close>

definition weapon_bundle :: "weapon \<Rightarrow> component list" where
  "weapon_bundle w =
     C_WeaponId \<lparr>wid = wpn_id w\<rparr> #
     map C_WandWeapon (opt_list (wand w)) @ map C_DistanceWeapon (opt_list (distance w)) @
     map C_MeleeWeapon (opt_list (melee w)) @ map C_Level (opt_list (level w)) @
     map C_MagicLevel (opt_list (magic_level w)) @ map C_Mana (opt_list (mana w)) @
     map C_WandDamageRange (opt_list (damage_range w)) @
     map C_DistanceBreakChance (opt_list (break_chance w))"

fun weapons_queue :: "entity \<Rightarrow> weapon list \<Rightarrow> 'r command list" where
  "weapons_queue n [] = []"
| "weapons_queue n (w # ws) = map (Insert n) (weapon_bundle w) @ weapons_queue (Suc n) ws"

definition put_all :: "component list \<Rightarrow> (component_kind \<rightharpoonup> component) \<Rightarrow> (component_kind \<rightharpoonup> component)" where
  "put_all bs m = fold (\<lambda>b m. m(kind_of b \<mapsto> b)) bs m"

text \<open>The component kind a setter call and a constructor's variant give rise to.\<close>

fun cfg_kind :: "config \<Rightarrow> component_kind" where
  "cfg_kind (CfgLevel _) = K_Level"
| "cfg_kind (CfgMagicLevel _) = K_MagicLevel"
| "cfg_kind (CfgMana _) = K_Mana"
| "cfg_kind (CfgDamageRange _ _) = K_WandDamageRange"
| "cfg_kind (CfgBreakChance _) = K_DistanceBreakChance"

fun variant_kind :: "variant \<Rightarrow> component_kind" where
  "variant_kind Wand = K_WandWeapon"
| "variant_kind Melee = K_MeleeWeapon"
| "variant_kind Distance = K_DistanceWeapon"

text \<open>
  Reading a weapon back from an entity's components, as a system querying all
  of them would: the id is required, every other field is the component of its
  type if there is one.
\<close>

definition read_weapon :: "(component_kind \<rightharpoonup> component) \<Rightarrow> weapon option" where
  "read_weapon cs =
     (case cs K_WeaponId of
        Some (C_WeaponId i) \<Rightarrow>
          Some \<lparr>wpn_id = wid i,
                wand = (case cs K_WandWeapon of Some (C_WandWeapon x) \<Rightarrow> Some x | _ \<Rightarrow> None),
                distance = (case cs K_DistanceWeapon of Some (C_DistanceWeapon x) \<Rightarrow> Some x | _ \<Rightarrow> None),
                melee = (case cs K_MeleeWeapon of Some (C_MeleeWeapon x) \<Rightarrow> Some x | _ \<Rightarrow> None),
                level = (case cs K_Level of Some (C_Level x) \<Rightarrow> Some x | _ \<Rightarrow> None),
                magic_level = (case cs K_MagicLevel of Some (C_MagicLevel x) \<Rightarrow> Some x | _ \<Rightarrow> None),
                mana = (case cs K_Mana of Some (C_Mana x) \<Rightarrow> Some x | _ \<Rightarrow> None),
                damage_range = (case cs K_WandDamageRange of Some (C_WandDamageRange x) \<Rightarrow> Some x | _ \<Rightarrow> None),
                break_chance = (case cs K_DistanceBreakChance of Some (C_DistanceBreakChance x) \<Rightarrow> Some x | _ \<Rightarrow> None)\<rparr>
      | _ \<Rightarrow> None)"

lemma insert_if_some_queue:
  "insert_if_some into (e, c) x = (e, c\<lparr>queue := queue c @ map (Insert e \<circ> into) (opt_list x)\<rparr>)"
  by (cases x) (simp_all add: insert_if_some_def ec_insert_def)

lemma spawn_weapon_eq:
  "spawn_weapon c w =
     c\<lparr>reserved := Suc (reserved c), queue := queue c @ map (Insert (reserved c)) (weapon_bundle w)\<rparr>"
  by (simp add: spawn_weapon_def spawn_def spawn_empty_def ec_insert_def insert_if_some_queue
      weapon_bundle_def Let_def)

lemma spawn_weapons_eq:
  "spawn_weapons c ws =
     c\<lparr>reserved := reserved c + length ws, queue := queue c @ weapons_queue (reserved c) ws\<rparr>"
  unfolding spawn_weapons_def
  by (induction ws arbitrary: c) (simp_all add: spawn_weapon_eq)

lemma apply_queue_inserts:
  "e < entity_count w \<Longrightarrow>
   apply_queue w (map (Insert e) bs) = Inr (w\<lparr>storage := (storage w)(e := put_all bs (storage w e))\<rparr>)"
  by (induction bs arbitrary: w) (simp_all add: put_all_def)

lemma put_all_Nil: "put_all [] m = m"
  by (simp add: put_all_def)

lemma put_all_Cons: "put_all (b # bs) m = put_all bs (m(kind_of b \<mapsto> b))"
  by (simp add: put_all_def)

text \<open>After a sequence of insertions, each kind holds the last component of that kind inserted.\<close>

lemma put_all_apply:
  "put_all bs m k =
     (if \<exists>b \<in> set bs. kind_of b = k then Some (last (filter (\<lambda>b. kind_of b = k) bs)) else m k)"
  by (induction bs arbitrary: m) (auto simp: put_all_Nil put_all_Cons filter_empty_conv)

lemma put_all_weapon_bundle: "put_all (weapon_bundle w) Map.empty = weapon_component w"
proof (rule ext)
  fix k
  show "put_all (weapon_bundle w) Map.empty k = weapon_component w k"
    by (cases k) (auto simp: put_all_apply weapon_bundle_def filter_map comp_def opt_list_def
        split: option.splits)
qed

lemma apply_queue_weapons:
  "n + length ws \<le> entity_count w \<Longrightarrow>
   apply_queue w (weapons_queue n ws) =
     Inr (w\<lparr>storage := \<lambda>e. if n \<le> e \<and> e < n + length ws
                             then put_all (weapon_bundle (ws ! (e - n))) (storage w e)
                             else storage w e\<rparr>)"
proof (induction ws arbitrary: n w)
  case Nil
  have "(\<lambda>e. if n \<le> e \<and> e < n + length ([] :: weapon list)
              then put_all (weapon_bundle ([] ! (e - n))) (storage w e) else storage w e) = storage w"
    by (rule ext) auto
  then show ?case by simp
next
  case (Cons x ws)
  let ?w1 = "w\<lparr>storage := (storage w)(n := put_all (weapon_bundle x) (storage w n))\<rparr>"
  have n: "n < entity_count w" using Cons.prems by simp
  have IH: "apply_queue ?w1 (weapons_queue (Suc n) ws) =
     Inr (?w1\<lparr>storage := \<lambda>e. if Suc n \<le> e \<and> e < Suc n + length ws
                             then put_all (weapon_bundle (ws ! (e - Suc n))) (storage ?w1 e)
                             else storage ?w1 e\<rparr>)"
    using Cons.prems by (intro Cons.IH) simp
  have st: "(\<lambda>e. if Suc n \<le> e \<and> e < Suc n + length ws
                 then put_all (weapon_bundle (ws ! (e - Suc n))) (storage ?w1 e)
                 else storage ?w1 e) =
            (\<lambda>e. if n \<le> e \<and> e < n + length (x # ws)
                 then put_all (weapon_bundle ((x # ws) ! (e - n))) (storage w e)
                 else storage w e)"
  proof (rule ext)
    fix e
    show "(if Suc n \<le> e \<and> e < Suc n + length ws
           then put_all (weapon_bundle (ws ! (e - Suc n))) (storage ?w1 e) else storage ?w1 e) =
          (if n \<le> e \<and> e < n + length (x # ws)
           then put_all (weapon_bundle ((x # ws) ! (e - n))) (storage w e) else storage w e)"
      by (cases "e = n") (auto simp: nth_Cons' Suc_diff_Suc)
  qed
  show ?case
    using n IH st by (simp add: apply_queue_append apply_queue_inserts)
qed

lemma weapons_queue_targets:
  "Insert e b \<in> set (weapons_queue n ws) \<Longrightarrow> n \<le> e \<and> e < n + length ws"
  by (induction n ws rule: weapons_queue.induct) auto

lemma spawn_weapons_wf: "commands_wf w c \<Longrightarrow> commands_wf w (spawn_weapons c ws)"
  by (fastforce simp: commands_wf_def spawn_weapons_eq dest: weapons_queue_targets)

lemma spawn_weapons_apply:
  assumes "world_wf w"
  shows "apply_commands w (spawn_weapons (commands_of w) ws) =
     Inr (w\<lparr>entity_count := entity_count w + length ws,
            storage := \<lambda>e. if entity_count w \<le> e \<and> e < entity_count w + length ws
                           then weapon_component (ws ! (e - entity_count w))
                           else storage w e\<rparr>)"
proof -
  let ?n = "entity_count w"
  let ?w0 = "flush w (?n + length ws)"
  have fresh: "storage w e = Map.empty" if "?n \<le> e" for e
    using assms that by (simp add: world_wf_def)
  have "apply_queue ?w0 (weapons_queue ?n ws) =
     Inr (?w0\<lparr>storage := \<lambda>e. if ?n \<le> e \<and> e < ?n + length ws
                              then put_all (weapon_bundle (ws ! (e - ?n))) (storage ?w0 e)
                              else storage ?w0 e\<rparr>)"
    by (rule apply_queue_weapons) (simp add: flush_def)
  moreover have "(\<lambda>e. if ?n \<le> e \<and> e < ?n + length ws
                    then put_all (weapon_bundle (ws ! (e - ?n))) (storage ?w0 e)
                    else storage ?w0 e) =
                 (\<lambda>e. if ?n \<le> e \<and> e < ?n + length ws
                    then weapon_component (ws ! (e - ?n)) else storage w e)"
    by (rule ext) (simp add: flush_def fresh put_all_weapon_bundle)
  ultimately show ?thesis
    by (simp add: apply_commands_def spawn_weapons_eq commands_of_def flush_def)
qed

lemma spawn_weapons_applyE:
  assumes "world_wf w"
  obtains w' where "apply_commands w (spawn_weapons (commands_of w) ws) = Inr w'"
    and "entity_count w' = entity_count w + length ws"
    and "\<And>j. j < length ws \<Longrightarrow> storage w' (entity_count w + j) = weapon_component (ws ! j)"
    and "\<And>e. e < entity_count w \<Longrightarrow> storage w' e = storage w e"
  using spawn_weapons_apply [OF assms, of ws] by auto

lemma read_weapon_component: "read_weapon (weapon_component w) = Some w"
  by (simp add: read_weapon_def option.case_eq_if option.map_sel)

lemma marker_count_weapon_component:
  "count_true (map (\<lambda>k. weapon_component wp k \<noteq> None) marker_kinds) = 1 \<longleftrightarrow> weapon_wf wp"
  by (simp add: marker_kinds_def weapon_wf_def)

text \<open>
  C8. Spawning \<open>N\<close> well-formed weapons creates exactly \<open>N\<close> entities, and each of
  them carries exactly one of the three variant markers.
\<close>

theorem spawn_weapons_one_marker:
  assumes "world_wf w" and "\<forall>wp \<in> set ws. weapon_wf wp"
  shows "\<exists>w'. apply_commands w (spawn_weapons (commands_of w) ws) = Inr w' \<and>
     entity_count w' = entity_count w + length ws \<and>
     (\<forall>e. entity_count w \<le> e \<and> e < entity_count w' \<longrightarrow>
        count_true (map (\<lambda>k. storage w' e k \<noteq> None) marker_kinds) = 1)"
proof -
  obtain w' where ok: "apply_commands w (spawn_weapons (commands_of w) ws) = Inr w'"
    and cnt: "entity_count w' = entity_count w + length ws"
    and st: "\<And>j. j < length ws \<Longrightarrow> storage w' (entity_count w + j) = weapon_component (ws ! j)"
    using spawn_weapons_applyE [OF assms(1)] by blast
  have "count_true (map (\<lambda>k. storage w' e k \<noteq> None) marker_kinds) = 1"
    if "entity_count w \<le> e" "e < entity_count w'" for e
  proof -
    let ?j = "e - entity_count w"
    have j: "?j < length ws" and e: "e = entity_count w + ?j" using that cnt by auto
    have "weapon_wf (ws ! ?j)" using assms(2) j by simp
    then show ?thesis using st [OF j] e marker_count_weapon_component by metis
  qed
  with ok cnt show ?thesis by blast
qed

theorem spawn_weapons_one_marker_witness:
  "world_wf (world_new :: unit world) \<and> weapon_wf (weapon_new_wand 1) \<and> weapon_wf (weapon_new_melee 2) \<and>
   (\<exists>w'. apply_commands (world_new :: unit world)
           (spawn_weapons (commands_of world_new) [weapon_new_wand 1, weapon_new_melee 2]) = Inr w' \<and>
     entity_count w' = entity_count (world_new :: unit world) + 2 \<and>
     (\<forall>e. entity_count (world_new :: unit world) \<le> e \<and> e < entity_count w' \<longrightarrow>
        count_true (map (\<lambda>k. storage w' e k \<noteq> None) marker_kinds) = 1))"
proof -
  have wf: "\<forall>wp \<in> set [weapon_new_wand 1, weapon_new_melee 2]. weapon_wf wp"
    by (simp add: weapon_wf_iff_variant weapon_simps variant_of_def)
  show ?thesis
    using spawn_weapons_one_marker [OF world_new_wf wf] world_new_wf wf by simp
qed

lemma weapon_component_build:
  "weapon_component (build_chain v i cs) k \<noteq> None \<longleftrightarrow>
     k = K_WeaponId \<or> k = variant_kind v \<or> (\<exists>c \<in> set cs. cfg_kind c = k)"
proof -
  have attr: "attr_of (build_chain v i cs) a \<noteq> None \<longleftrightarrow> (\<exists>c \<in> set cs. cfg_attr c = a)" for a
    using build_chain_spec [of v i cs a] by simp
  have var: "variant_of (build_chain v i cs) = Some v"
    using build_chain_spec [of v i cs A_Level] by simp
  have kinds: "cfg_kind c = k \<longleftrightarrow>
      (k = K_Level \<and> cfg_attr c = A_Level) \<or> (k = K_MagicLevel \<and> cfg_attr c = A_MagicLevel) \<or>
      (k = K_Mana \<and> cfg_attr c = A_Mana) \<or> (k = K_WandDamageRange \<and> cfg_attr c = A_DamageRange) \<or>
      (k = K_DistanceBreakChance \<and> cfg_attr c = A_BreakChance)" for c
    by (cases c; cases k) simp_all
  show ?thesis
  proof (cases k)
    case K_Level
    then show ?thesis using attr [of A_Level] kinds by (cases v) auto
  next
    case K_MagicLevel
    then show ?thesis using attr [of A_MagicLevel] kinds by (cases v) auto
  next
    case K_Mana
    then show ?thesis using attr [of A_Mana] kinds by (cases v) auto
  next
    case K_WandDamageRange
    then show ?thesis using attr [of A_DamageRange] kinds by (cases v) auto
  next
    case K_DistanceBreakChance
    then show ?thesis using attr [of A_BreakChance] kinds by (cases v) auto
  qed (use var kinds in \<open>auto simp: variant_of_def split: option.splits variant.splits\<close>)
qed

text \<open>
  C9. For weapons built by a constructor and a chain of setter calls, a spawned
  entity carries a component of a given type exactly when it is the id, the
  constructor's marker, or the attribute of a setter that was called: no spurious
  and no missing attachments.
\<close>

theorem spawned_component_iff_configured:
  assumes "world_wf w"
  shows "\<exists>w'. apply_commands w (spawn_weapons (commands_of w) (map (\<lambda>(v, i, cs). build_chain v i cs) specs)) = Inr w' \<and>
     (\<forall>j < length specs. \<forall>k. case specs ! j of (v, i, cs) \<Rightarrow>
        storage w' (entity_count w + j) k \<noteq> None \<longleftrightarrow>
        k = K_WeaponId \<or> k = variant_kind v \<or> (\<exists>c \<in> set cs. cfg_kind c = k))"
proof -
  let ?ws = "map (\<lambda>(v, i, cs). build_chain v i cs) specs"
  obtain w' where ok: "apply_commands w (spawn_weapons (commands_of w) ?ws) = Inr w'"
    and st: "\<And>j. j < length ?ws \<Longrightarrow> storage w' (entity_count w + j) = weapon_component (?ws ! j)"
    using spawn_weapons_applyE [OF assms] by blast
  have all: "\<forall>j < length specs. \<forall>k. case specs ! j of (v, i, cs) \<Rightarrow>
          storage w' (entity_count w + j) k \<noteq> None \<longleftrightarrow>
          k = K_WeaponId \<or> k = variant_kind v \<or> (\<exists>c \<in> set cs. cfg_kind c = k)"
  proof (intro allI impI)
    fix j k
    assume j: "j < length specs"
    obtain v i cs where sj: "specs ! j = (v, i, cs)" by (cases "specs ! j") blast
    have "?ws ! j = build_chain v i cs" using j sj by simp
    then have "storage w' (entity_count w + j) = weapon_component (build_chain v i cs)"
      using st [of j] j by simp
    then show "case specs ! j of (v, i, cs) \<Rightarrow>
          storage w' (entity_count w + j) k \<noteq> None \<longleftrightarrow>
          k = K_WeaponId \<or> k = variant_kind v \<or> (\<exists>c \<in> set cs. cfg_kind c = k)"
      using sj weapon_component_build [of v i cs k] by simp
  qed
  show ?thesis by (rule exI [of _ w'], rule conjI [OF ok all])
qed

theorem spawned_component_iff_configured_witness:
  "world_wf (world_new :: unit world) \<and>
   (\<exists>w'. apply_commands (world_new :: unit world)
           (spawn_weapons (commands_of world_new)
             (map (\<lambda>(v, i, cs). build_chain v i cs) [(Melee, 2, [CfgLevel 10])])) = Inr w' \<and>
     (\<forall>j < length [(Melee, 2 :: u32, [CfgLevel 10])]. \<forall>k. case [(Melee, 2 :: u32, [CfgLevel 10])] ! j of (v, i, cs) \<Rightarrow>
        storage w' (entity_count (world_new :: unit world) + j) k \<noteq> None \<longleftrightarrow>
        k = K_WeaponId \<or> k = variant_kind v \<or> (\<exists>c \<in> set cs. cfg_kind c = k)))"
proof (rule conjI)
  show "world_wf (world_new :: unit world)" by (rule world_new_wf)
  show "\<exists>w'. apply_commands (world_new :: unit world)
           (spawn_weapons (commands_of world_new)
             (map (\<lambda>(v, i, cs). build_chain v i cs) [(Melee, 2, [CfgLevel 10])])) = Inr w' \<and>
     (\<forall>j < length [(Melee, 2 :: u32, [CfgLevel 10])]. \<forall>k. case [(Melee, 2 :: u32, [CfgLevel 10])] ! j of (v, i, cs) \<Rightarrow>
        storage w' (entity_count (world_new :: unit world) + j) k \<noteq> None \<longleftrightarrow>
        k = K_WeaponId \<or> k = variant_kind v \<or> (\<exists>c \<in> set cs. cfg_kind c = k))"
    by (rule spawned_component_iff_configured [OF world_new_wf])
qed

text \<open>
  C1. Spawning a list of weapons through fresh \<open>Commands\<close> and applying them to a
  well-formed world never panics, allocates one new entity per weapon, in order,
  gives each exactly the components of its weapon (the id, and one component per
  present field), and leaves the other entities and the resources alone.
\<close>

theorem spawn_weapons_materialize:
  assumes "world_wf w"
  shows "\<exists>w'. apply_commands w (spawn_weapons (commands_of w) ws) = Inr w' \<and>
     entity_count w' = entity_count w + length ws \<and>
     (\<forall>j < length ws. storage w' (entity_count w + j) = weapon_component (ws ! j)) \<and>
     (\<forall>e < entity_count w. storage w' e = storage w e) \<and> resource w' = resource w"
  using spawn_weapons_apply [OF assms, of ws] by auto

theorem spawn_weapons_materialize_witness:
  "world_wf (world_new :: unit world) \<and>
   (\<exists>w'. apply_commands (world_new :: unit world) (spawn_weapons (commands_of world_new) [weapon_new_wand 1]) = Inr w' \<and>
     entity_count w' = entity_count (world_new :: unit world) + 1 \<and>
     storage w' 0 = weapon_component (weapon_new_wand 1) \<and> resource w' = None)"
proof -
  obtain w' where "apply_commands (world_new :: unit world) (spawn_weapons (commands_of world_new) [weapon_new_wand 1]) = Inr w'"
    and "entity_count w' = entity_count (world_new :: unit world) + length [weapon_new_wand 1]"
    and "\<forall>j < length [weapon_new_wand 1]. storage w' (entity_count (world_new :: unit world) + j) = weapon_component ([weapon_new_wand 1] ! j)"
    and "resource w' = resource (world_new :: unit world)"
    using spawn_weapons_materialize [OF world_new_wf, of "[weapon_new_wand 1]"] by blast
  then show ?thesis using world_new_wf by (auto simp: world_new_def)
qed

text \<open>
  C10. Materialisation loses nothing: after the spawned commands are applied, the
  weapons read back from the new entities, in order, are exactly the weapons
  that were spawned.
\<close>

theorem spawn_weapons_roundtrip:
  assumes "world_wf w"
  shows "\<exists>w'. apply_commands w (spawn_weapons (commands_of w) ws) = Inr w' \<and>
     map (\<lambda>e. read_weapon (storage w' e)) [entity_count w ..< entity_count w'] = map Some ws"
proof -
  have "map (\<lambda>e. read_weapon (if entity_count w \<le> e \<and> e < entity_count w + length ws
                                then weapon_component (ws ! (e - entity_count w)) else storage w e))
          [entity_count w ..< entity_count w + length ws] = map Some ws"
    by (rule nth_equalityI) (simp_all add: read_weapon_component)
  then show ?thesis using spawn_weapons_apply [OF assms, of ws] by simp
qed

theorem spawn_weapons_roundtrip_witness:
  "world_wf (world_new :: unit world) \<and>
   (\<exists>w'. apply_commands (world_new :: unit world)
          (spawn_weapons (commands_of world_new) [weapon_new_wand 1, weapon_level (weapon_new_melee 2) 10]) = Inr w' \<and>
     map (\<lambda>e. read_weapon (storage w' e)) [entity_count (world_new :: unit world) ..< entity_count w'] =
       [Some (weapon_new_wand 1), Some (weapon_level (weapon_new_melee 2) 10)])"
  using spawn_weapons_roundtrip [OF world_new_wf, of "[weapon_new_wand 1, weapon_level (weapon_new_melee 2) 10]"]
    world_new_wf by simp

end
