(* ===== verification/App.thy ===== *)
theory App
  imports RuneContext Spawn
begin

text \<open>
  \<open>src/main.rs\<close>: the entry script of \<open>create_sources\<close>, the \<open>startup\<close> system
  (build the context, run the script's \<open>main\<close> on a fresh machine, decode its
  output as \<open>Vec<Weapon>\<close>, spawn each weapon, insert the context as a
  resource), the \<open>handle_error\<close> system it is piped into, the \<open>update\<close> system
  with its three queries, and the app built by \<open>main\<close> as a step relation: the
  startup schedule once, then the update schedule on every tick.  The script to
  run is a parameter of \<open>startup\<close> (the value \<open>create_sources()\<close> returns), so
  that the properties hold for every script; \<open>main\<close> runs it on the script of
  \<open>create_sources\<close>.  Console output is kept as a list of the lines printed.
\<close>

subsection \<open>The entry script\<close>

definition entry_main :: fn_item where
  "entry_main =
     \<lparr>fn_name = ''main'', fn_params = [],
      fn_body =
        Block
          [Let ''staff''
             (MethodCall (MethodCall (Call [''Weapon'', ''new_wand''] [Lit 1]) ''level'' [Lit 30])
                ''damage_range'' [Lit 20, Lit 30]),
           Let ''sword'' (MethodCall (Call [''Weapon'', ''new_melee''] [Lit 2]) ''level'' [Lit 10]),
           Let ''spear''
             (MethodCall (MethodCall (Call [''Weapon'', ''new_distance''] [Lit 3]) ''level'' [Lit 30])
                ''break_chance'' [Lit 4])]
          (VecLit [Var ''staff'', Var ''sword'', Var ''spear''])\<rparr>"

definition create_sources :: "(app_error, sources) result" where
  "create_sources = Inr [(''entry'', [entry_main])]"

text \<open>What the entry script compiles to, and the weapons its \<open>main\<close> returns.\<close>

definition entry_unit :: cunit where
  "entry_unit =
     [(''main'', 0,
       [IInteger 1, ICall [''Weapon'', ''new_wand''] 1, IInteger 30,
        ICallInstance ''level'' 1, IInteger 20, IInteger 30,
        ICallInstance ''damage_range'' 2, IInteger 2,
        ICall [''Weapon'', ''new_melee''] 1, IInteger 10,
        ICallInstance ''level'' 1, IInteger 3,
        ICall [''Weapon'', ''new_distance''] 1, IInteger 30,
        ICallInstance ''level'' 1, IInteger 4, ICallInstance ''break_chance'' 1,
        ICopy 0, ICopy 1, ICopy 2, IVec 3, IClean 3])]"

definition entry_weapons :: "weapon list" where
  "entry_weapons =
     [weapon_damage_range (weapon_level (weapon_new_wand 1) 30) 20 30,
      weapon_level (weapon_new_melee 2) 10,
      weapon_break_chance (weapon_level (weapon_new_distance 3) 30) 4]"

subsection \<open>The startup system\<close>

type_synonym app_world = "weapon rune_ctx world"
type_synonym app_commands = "weapon rune_ctx commands"

definition startup :: "nat \<Rightarrow> (context_error, weapon rcontext) result \<Rightarrow> (app_error, sources) result \<Rightarrow>
    app_commands \<Rightarrow> ((app_error, unit) result \<times> app_commands \<times> diagnostic list) option" where
  "startup fuel std srcs commands =
     (case srcs of
        Inl e \<Rightarrow> Some (Inl e, commands, [])
      | Inr sources \<Rightarrow>
          (case rune_context_new std sources of
             (Inl e, stderr) \<Rightarrow> Some (Inl e, commands, stderr)
           | (Inr context, stderr) \<Rightarrow>
               (let vm = rune_vm context in
                case vm_execute fuel weapon_item vm ''main'' [] of
                  None \<Rightarrow> None
                | Some (Inl e) \<Rightarrow> Some (Inl (ErrVm e), commands, stderr)
                | Some (Inr (output, heap)) \<Rightarrow>
                    (case from_value_vec weapon_tyname heap output of
                       Inl e \<Rightarrow> Some (Inl (ErrDecode e), commands, stderr)
                     | Inr (weapons, _) \<Rightarrow>
                         (let commands = spawn_weapons commands weapons;
                              commands = insert_resource commands context
                          in Some (Inr (), commands, stderr))))))"

subsection \<open>Output\<close>

datatype out_line =
    LineWand entity wand_weapon
  | LineMelee entity melee_weapon weapon_id
  | LineDistance entity distance_weapon
  | LineError app_error

definition handle_error :: "(app_error, unit) result \<Rightarrow> out_line list" where
  "handle_error r = (case r of Inl err \<Rightarrow> [LineError err] | Inr _ \<Rightarrow> [])"

text \<open>
  \<open>update\<close>: \<open>Query<(Entity, &WandWeapon)>\<close>, \<open>Query<(Entity, &MeleeWeapon,
  &WeaponId)>\<close>, \<open>Query<(Entity, &DistanceWeapon)>\<close>, each printed in turn.
\<close>

definition update :: "'r world \<Rightarrow> out_line list" where
  "update w =
     List.map_filter (\<lambda>(e, cs). case cs of [C_WandWeapon x] \<Rightarrow> Some (LineWand e x) | _ \<Rightarrow> None)
       (query w [K_WandWeapon]) @
     List.map_filter (\<lambda>(e, cs). case cs of [C_MeleeWeapon x, C_WeaponId i] \<Rightarrow> Some (LineMelee e x i) | _ \<Rightarrow> None)
       (query w [K_MeleeWeapon, K_WeaponId]) @
     List.map_filter (\<lambda>(e, cs). case cs of [C_DistanceWeapon x] \<Rightarrow> Some (LineDistance e x) | _ \<Rightarrow> None)
       (query w [K_DistanceWeapon])"

subsection \<open>The app\<close>

text \<open>
  \<open>App::new().add_plugins(MinimalPlugins).add_systems(Startup, startup.pipe(handle_error))
  .add_systems(Update, update).run()\<close>: the startup schedule runs once, its commands
  are applied (a failed insertion panics and stops the app), then the update
  schedule runs on every tick.  A startup whose script never returns leaves the
  app in its first state for ever; the fuel in the startup rule is any amount
  with which it returns, and the result does not depend on which.
\<close>

datatype phase = Starting | Running | Panicked

record app_state =
  app_phase :: phase
  app_world :: app_world
  app_stdout :: "out_line list"
  app_stderr :: "diagnostic list"

definition app_init :: app_state where
  "app_init = \<lparr>app_phase = Starting, app_world = world_new, app_stdout = [], app_stderr = []\<rparr>"

inductive app_step :: "(context_error, weapon rcontext) result \<Rightarrow> (app_error, sources) result \<Rightarrow>
    app_state \<Rightarrow> app_state \<Rightarrow> bool" for std srcs where
  startup_applied:
    "app_phase s = Starting \<Longrightarrow>
     startup fuel std srcs (commands_of (app_world s)) = Some (r, cmds, d) \<Longrightarrow>
     apply_commands (app_world s) cmds = Inr w' \<Longrightarrow>
     app_step std srcs s \<lparr>app_phase = Running, app_world = w',
       app_stdout = app_stdout s @ handle_error r, app_stderr = app_stderr s @ d\<rparr>"
| startup_panicked:
    "app_phase s = Starting \<Longrightarrow>
     startup fuel std srcs (commands_of (app_world s)) = Some (r, cmds, d) \<Longrightarrow>
     apply_commands (app_world s) cmds = Inl err \<Longrightarrow>
     app_step std srcs s (s\<lparr>app_phase := Panicked,
       app_stdout := app_stdout s @ handle_error r, app_stderr := app_stderr s @ d\<rparr>)"
| update_tick:
    "app_phase s = Running \<Longrightarrow>
     app_step std srcs s (s\<lparr>app_stdout := app_stdout s @ update (app_world s)\<rparr>)"

definition app_reachable :: "(context_error, weapon rcontext) result \<Rightarrow> (app_error, sources) result \<Rightarrow>
    app_state \<Rightarrow> bool" where
  "app_reachable std srcs s \<longleftrightarrow> (app_step std srcs)\<^sup>*\<^sup>* app_init s"

text \<open>What a printed line claims about the world, and the invariant of the app.\<close>

fun line_ok :: "'r world \<Rightarrow> out_line \<Rightarrow> bool" where
  "line_ok w (LineWand e x) = (e < entity_count w \<and> storage w e K_WandWeapon = Some (C_WandWeapon x))"
| "line_ok w (LineMelee e x i) =
     (e < entity_count w \<and> storage w e K_MeleeWeapon = Some (C_MeleeWeapon x) \<and>
      storage w e K_WeaponId = Some (C_WeaponId i))"
| "line_ok w (LineDistance e x) =
     (e < entity_count w \<and> storage w e K_DistanceWeapon = Some (C_DistanceWeapon x))"
| "line_ok w (LineError _) = True"

definition app_inv :: "app_state \<Rightarrow> bool" where
  "app_inv s \<longleftrightarrow> world_wf (app_world s) \<and> app_phase s \<noteq> Panicked \<and>
     (app_phase s = Starting \<longrightarrow> app_stdout s = []) \<and>
     (\<forall>l \<in> set (app_stdout s). line_ok (app_world s) l)"

text \<open>
  Fixtures for the witnesses: a default context with no items, a script calling
  an item that does not exist, a script whose only statement is a dropped
  literal, and a script returning one weapon twice.
\<close>

definition std_empty :: "weapon rcontext" where
  "std_empty = \<lparr>ctx_types = [], ctx_fns = []\<rparr>"

definition script_src :: "expr \<Rightarrow> sources" where
  "script_src body = [(''entry'', [\<lparr>fn_name = ''main'', fn_params = [], fn_body = body\<rparr>])]"

definition script_of :: "expr \<Rightarrow> (app_error, sources) result" where
  "script_of body = Inr (script_src body)"

definition bad_script :: "(app_error, sources) result" where
  "bad_script = script_of (Call [''Weapon'', ''new_staff''] [Lit 1])"

definition warn_script :: "(app_error, sources) result" where
  "warn_script = script_of (Block [Discard (Lit 5)] (VecLit []))"

inductive_cases startup_stepE: "app_step std srcs s t"

subsection \<open>Startup: fuel, errors, commands\<close>

lemma startup_fuel_le:
  assumes "startup f std srcs cmds = Some r" and "f \<le> g"
  shows "startup g std srcs cmds = Some r"
proof (cases srcs)
  case (Inl e)
  then show ?thesis using assms(1) by (simp add: startup_def)
next
  case (Inr sources)
  show ?thesis
  proof (cases "rune_context_new std sources")
    case (Pair res stderr)
    show ?thesis
    proof (cases res)
      case (Inl e)
      then show ?thesis using assms(1) Inr Pair by (simp add: startup_def)
    next
      case (Inr ctx)
      obtain x where x: "vm_execute f weapon_item (rune_vm ctx) ''main'' [] = Some x"
        using assms(1) \<open>srcs = Inr sources\<close> Pair Inr by (auto simp: startup_def split: option.splits)
      have "vm_execute g weapon_item (rune_vm ctx) ''main'' [] = Some x"
        using vm_execute_fuel_le [OF x assms(2)] .
      then show ?thesis using assms(1) \<open>srcs = Inr sources\<close> Pair Inr x by (simp add: startup_def)
    qed
  qed
qed

lemma startup_fuel_det:
  "startup f1 std srcs cmds = Some r1 \<Longrightarrow> startup f2 std srcs cmds = Some r2 \<Longrightarrow> r1 = r2"
  using startup_fuel_le [of f1 std srcs cmds r1 "max f1 f2"] startup_fuel_le [of f2 std srcs cmds r2 "max f1 f2"]
  by simp

lemma startup_Inl_commands:
  "startup fuel std srcs cmds = Some (Inl e, cmds', d) \<Longrightarrow> cmds' = cmds"
  by (auto simp: startup_def Let_def split: sum.splits prod.splits option.splits)

lemma startup_Inr_commands:
  "startup fuel std srcs cmds = Some (Inr u, cmds', d) \<Longrightarrow>
     \<exists>ws ctx. cmds' = insert_resource (spawn_weapons cmds ws) ctx"
  by (auto simp: startup_def Let_def split: sum.splits prod.splits option.splits)

lemma startup_commands_wf:
  "startup fuel std srcs cmds = Some (r, cmds', d) \<Longrightarrow> commands_wf w cmds \<Longrightarrow> commands_wf w cmds'"
  by (cases r) (auto dest!: startup_Inl_commands startup_Inr_commands intro!: insert_resource_wf spawn_weapons_wf)

subsection \<open>The entry script, compiled and run\<close>

lemma build_entry: "prepare_build (with_weapons c) [(''entry'', [entry_main])] = ([], Inr entry_unit)"
  by (simp add: prepare_build_def entry_main_def static_paths_with_weapons compile_fn_def
      i64_min_def i64_max_def entry_unit_def)

lemma startup_entry:
  assumes "std_compatible c"
  shows "startup 1 (Inr c) create_sources cmds =
     Some (Inr (), insert_resource (spawn_weapons cmds entry_weapons)
                     \<lparr>rc_runtime = context_runtime (with_weapons c), rc_unit = entry_unit\<rparr>, [])"
  using assms
  by (simp add: startup_def create_sources_def rune_context_new_compatible build_entry rune_vm_def
      vm_execute_def entry_unit_def vm_new_def runtime_with_weapons weapon_item_def pop_n_def
      weapon_api_def native_ctor_u32_def native_method_u32_def native_method_u32_u32_def
      alloc_any_def take_any_def from_value_u32_def heap_empty_def ret_value_def
      from_value_vec_def entry_weapons_def weapon_tyname_def)


lemma update_wand:
  "LineWand e x \<in> set (update w) \<longleftrightarrow> e < entity_count w \<and> storage w e K_WandWeapon = Some (C_WandWeapon x)"
proof -
  have "LineWand e x \<in> set (update w) \<longleftrightarrow> (e, [C_WandWeapon x]) \<in> set (query w [K_WandWeapon])"
  proof
    assume "(e, [C_WandWeapon x]) \<in> set (query w [K_WandWeapon])"
    then show "LineWand e x \<in> set (update w)"
      unfolding update_def set_append set_map_filter by force
  qed (auto simp: update_def set_map_filter split: list.splits component.splits)
  then show ?thesis by (simp add: query_member)
qed

lemma update_melee:
  "LineMelee e x i \<in> set (update w) \<longleftrightarrow>
     e < entity_count w \<and> storage w e K_MeleeWeapon = Some (C_MeleeWeapon x) \<and>
     storage w e K_WeaponId = Some (C_WeaponId i)"
proof -
  have "LineMelee e x i \<in> set (update w) \<longleftrightarrow>
      (e, [C_MeleeWeapon x, C_WeaponId i]) \<in> set (query w [K_MeleeWeapon, K_WeaponId])"
  proof
    assume "(e, [C_MeleeWeapon x, C_WeaponId i]) \<in> set (query w [K_MeleeWeapon, K_WeaponId])"
    then show "LineMelee e x i \<in> set (update w)"
      unfolding update_def set_append set_map_filter by force
  qed (auto simp: update_def set_map_filter split: list.splits component.splits)
  then show ?thesis by (simp add: query_member)
qed

lemma update_distance:
  "LineDistance e x \<in> set (update w) \<longleftrightarrow>
     e < entity_count w \<and> storage w e K_DistanceWeapon = Some (C_DistanceWeapon x)"
proof -
  have "LineDistance e x \<in> set (update w) \<longleftrightarrow> (e, [C_DistanceWeapon x]) \<in> set (query w [K_DistanceWeapon])"
  proof
    assume "(e, [C_DistanceWeapon x]) \<in> set (query w [K_DistanceWeapon])"
    then show "LineDistance e x \<in> set (update w)"
      unfolding update_def set_append set_map_filter by force
  qed (auto simp: update_def set_map_filter split: list.splits component.splits)
  then show ?thesis by (simp add: query_member)
qed

lemma update_no_error: "LineError err \<notin> set (update w)"
  by (auto simp: update_def set_map_filter split: list.splits component.splits)

lemma update_lines_ok: "l \<in> set (update w) \<Longrightarrow> line_ok w l"
  by (cases l) (simp_all add: update_wand update_melee update_distance)

lemma handle_error_lines_ok: "l \<in> set (handle_error r) \<Longrightarrow> line_ok w l"
  by (auto simp: handle_error_def split: sum.splits)

lemma app_step_inv:
  assumes "app_step std srcs s t" and "app_inv s"
  shows "app_inv t"
  using assms
proof (induction rule: app_step.induct)
  case (startup_applied s fuel r cmds d w')
  have "world_wf w'"
    using apply_commands_wf startup_applied.hyps(3) startup_applied.prems by (auto simp: app_inv_def)
  moreover have "app_stdout s = []" using startup_applied.hyps(1) startup_applied.prems by (simp add: app_inv_def)
  ultimately show ?case by (auto simp: app_inv_def intro: handle_error_lines_ok)
next
  case (startup_panicked s fuel r cmds d err)
  have "commands_wf (app_world s) cmds"
    using startup_commands_wf [OF startup_panicked.hyps(2) commands_of_wf] .
  then obtain w' where "apply_commands (app_world s) cmds = Inr w'" using apply_commands_ok by blast
  with startup_panicked.hyps(3) show ?case by simp
next
  case (update_tick s)
  then show ?case by (auto simp: app_inv_def intro: update_lines_ok)
qed

lemma app_init_inv: "app_inv app_init"
  by (simp add: app_inv_def app_init_def world_new_wf)

lemma app_reachable_inv: "app_reachable std srcs s \<Longrightarrow> app_inv s"
  unfolding app_reachable_def
proof (induction rule: rtranclp_induct)
  case base
  then show ?case by (rule app_init_inv)
next
  case (step s t)
  then show ?case by (blast intro: app_step_inv)
qed

lemma apply_insert_resource:
  "apply_commands w (insert_resource c r) =
     (case apply_commands w c of Inl e \<Rightarrow> Inl e | Inr w' \<Rightarrow> Inr (w'\<lparr>resource := Some r\<rparr>))"
  by (simp add: apply_commands_def insert_resource_def apply_queue_append split: sum.splits)

lemma entry_components:
  "weapon_component (entry_weapons ! 0) =
     [K_WeaponId \<mapsto> C_WeaponId \<lparr>wid = 1\<rparr>, K_WandWeapon \<mapsto> C_WandWeapon WandWeapon,
      K_Level \<mapsto> C_Level (Level 30),
      K_WandDamageRange \<mapsto> C_WandDamageRange \<lparr>range_min = 20, range_max = 30\<rparr>]"
  "weapon_component (entry_weapons ! 1) =
     [K_WeaponId \<mapsto> C_WeaponId \<lparr>wid = 2\<rparr>, K_MeleeWeapon \<mapsto> C_MeleeWeapon MeleeWeapon,
      K_Level \<mapsto> C_Level (Level 10)]"
  "weapon_component (entry_weapons ! 2) =
     [K_WeaponId \<mapsto> C_WeaponId \<lparr>wid = 3\<rparr>, K_DistanceWeapon \<mapsto> C_DistanceWeapon DistanceWeapon,
      K_Level \<mapsto> C_Level (Level 30),
      K_DistanceBreakChance \<mapsto> C_DistanceBreakChance (DistanceBreakChance 4)]"
  by (rule ext, case_tac x, simp_all add: entry_weapons_def weapon_simps)+

lemma startup_entry_step:
  assumes "std_compatible c"
  shows "(\<exists>s. app_step (Inr c) create_sources app_init s) \<and>
     (\<forall>s. app_step (Inr c) create_sources app_init s \<longrightarrow>
        app_phase s = Running \<and> app_stdout s = [] \<and> app_stderr s = [] \<and>
        entity_count (app_world s) = 3 \<and>
        storage (app_world s) 0 = weapon_component (entry_weapons ! 0) \<and>
        storage (app_world s) 1 = weapon_component (entry_weapons ! 1) \<and>
        storage (app_world s) 2 = weapon_component (entry_weapons ! 2))"
proof -
  let ?ctx = "\<lparr>rc_runtime = context_runtime (with_weapons c), rc_unit = entry_unit\<rparr>"
  let ?cmds = "insert_resource (spawn_weapons (commands_of (world_new :: app_world)) entry_weapons) ?ctx"
  let ?W = "((world_new :: app_world)\<lparr>entity_count := entity_count (world_new :: app_world) + length entry_weapons,
            storage := \<lambda>e. if entity_count (world_new :: app_world) \<le> e \<and>
                              e < entity_count (world_new :: app_world) + length entry_weapons
                           then weapon_component (entry_weapons ! (e - entity_count (world_new :: app_world)))
                           else storage (world_new :: app_world) e\<rparr>)\<lparr>resource := Some ?ctx\<rparr>"
  have st: "startup 1 (Inr c) create_sources (commands_of world_new) = Some (Inr (), ?cmds, [])"
    using startup_entry [OF assms] .
  have ap: "apply_commands world_new ?cmds = Inr ?W"
    by (simp add: apply_insert_resource spawn_weapons_apply [OF world_new_wf])
  have init: "app_phase app_init = Starting" "app_world app_init = world_new"
    "app_stdout app_init = []" "app_stderr app_init = []"
    by (simp_all add: app_init_def)
  have ex: "\<exists>s. app_step (Inr c) create_sources app_init s"
    using app_step.startup_applied [OF init(1), of 1 "Inr c" create_sources] st ap init(2) by fastforce
  have all: "app_phase s = Running \<and> app_stdout s = [] \<and> app_stderr s = [] \<and>
        entity_count (app_world s) = 3 \<and>
        storage (app_world s) 0 = weapon_component (entry_weapons ! 0) \<and>
        storage (app_world s) 1 = weapon_component (entry_weapons ! 1) \<and>
        storage (app_world s) 2 = weapon_component (entry_weapons ! 2)"
    if step: "app_step (Inr c) create_sources app_init s" for s
    using step
  proof (cases rule: app_step.cases)
    case (startup_applied fuel r cmds d w')
    then have "(r, cmds, d) = (Inr (), ?cmds, [])"
      using startup_fuel_det st init(2) by (metis option.inject)
    then show ?thesis
      using startup_applied ap init by (simp add: entry_weapons_def world_new_def handle_error_def)
  next
    case (startup_panicked fuel r cmds d err)
    then have "(r, cmds, d) = (Inr (), ?cmds, [])"
      using startup_fuel_det st init(2) by (metis option.inject)
    then show ?thesis using startup_panicked ap init(2) by simp
  next
    case update_tick
    then show ?thesis using init(1) by simp
  qed
  show ?thesis using ex all by blast
qed
lemma std_empty_compatible: "std_compatible std_empty"
  by (simp add: std_compatible_def std_empty_def weapon_api_def)

lemma bad_startup:
  "startup fuel (Inr std_empty) bad_script cmds =
     Some (Inl (ErrBuild (BuildError 1)), cmds, [ErrMissingItem [''Weapon'', ''new_staff'']])"
  by (simp add: startup_def bad_script_def script_of_def script_src_def
      rune_context_new_compatible [OF std_empty_compatible]
      prepare_build_def compile_fn_def static_paths_with_weapons i64_min_def i64_max_def)
    (simp add: static_paths_def std_empty_def)

lemma apply_commands_of: "apply_commands w (commands_of w) = Inr w"
  by (simp add: apply_commands_def commands_of_def flush_def)

lemma startup_Inl_step:
  assumes "app_step std srcs app_init s"
    and "startup fuel std srcs (commands_of world_new) = Some (Inl e, cmds, d)"
  shows "app_world s = world_new \<and> app_stdout s = [LineError e] \<and> app_stderr s = d"
  using assms(1)
proof (cases rule: app_step.cases)
  case (startup_applied fuel' r cmds' d' w')
  then have "(r, cmds', d') = (Inl e, cmds, d)"
    using startup_fuel_det assms(2) by (metis app_init_def app_state.select_convs(2) option.inject)
  moreover have "cmds = commands_of world_new" using startup_Inl_commands assms(2) by blast
  ultimately show ?thesis
    using startup_applied by (simp add: app_init_def handle_error_def apply_commands_of)
next
  case (startup_panicked fuel' r cmds' d' err)
  then have "(r, cmds', d') = (Inl e, cmds, d)"
    using startup_fuel_det assms(2) by (metis app_init_def app_state.select_convs(2) option.inject)
  moreover have "cmds = commands_of world_new" using startup_Inl_commands assms(2) by blast
  ultimately show ?thesis
    using startup_panicked by (simp add: app_init_def apply_commands_of)
next
  case update_tick
  then show ?thesis by (simp add: app_init_def)
qed

lemma bad_script_step:
  "app_step (Inr std_empty) bad_script app_init
     \<lparr>app_phase = Running, app_world = world_new,
      app_stdout = [LineError (ErrBuild (BuildError 1))],
      app_stderr = [ErrMissingItem [''Weapon'', ''new_staff'']]\<rparr>"
proof -
  have st: "startup 1 (Inr std_empty) bad_script (commands_of world_new) =
     Some (Inl (ErrBuild (BuildError 1)), commands_of world_new, [ErrMissingItem [''Weapon'', ''new_staff'']])"
    by (rule bad_startup)
  have "app_step (Inr std_empty) bad_script app_init
     \<lparr>app_phase = Running, app_world = world_new,
      app_stdout = app_stdout app_init @ handle_error (Inl (ErrBuild (BuildError 1))),
      app_stderr = app_stderr app_init @ [ErrMissingItem [''Weapon'', ''new_staff'']]\<rparr>"
  proof (rule app_step.startup_applied)
    show "app_phase app_init = Starting" by (simp add: app_init_def)
    show "startup 1 (Inr std_empty) bad_script (commands_of (app_world app_init)) =
      Some (Inl (ErrBuild (BuildError 1)), commands_of world_new, [ErrMissingItem [''Weapon'', ''new_staff'']])"
      using st by (simp add: app_init_def)
    show "apply_commands (app_world app_init) (commands_of world_new) = Inr world_new"
      by (simp add: app_init_def apply_commands_of)
  qed
  then show ?thesis by (simp add: app_init_def handle_error_def)
qed

subsection \<open>Properties of the program\<close>

text \<open>
  C6. When the startup system returns an error (whatever failed: the bridge,
  the compiler, the machine, the decoding), no entity is materialised: after the
  startup step the world is still the empty world, the error is the one line
  printed, and the diagnostics are on standard error.
\<close>

theorem startup_error_no_entities:
  assumes "app_step std srcs app_init s"
    and "startup fuel std srcs (commands_of world_new) = Some (Inl e, cmds, d)"
  shows "app_world s = world_new \<and> app_stdout s = [LineError e] \<and> app_stderr s = d"
  using startup_Inl_step [OF assms] .

theorem startup_error_no_entities_witness:
  "app_step (Inr std_empty) bad_script app_init
     \<lparr>app_phase = Running, app_world = world_new,
      app_stdout = [LineError (ErrBuild (BuildError 1))],
      app_stderr = [ErrMissingItem [''Weapon'', ''new_staff'']]\<rparr> \<and>
   startup 1 (Inr std_empty) bad_script (commands_of world_new) =
     Some (Inl (ErrBuild (BuildError 1)), commands_of world_new, [ErrMissingItem [''Weapon'', ''new_staff'']]) \<and>
   app_world \<lparr>app_phase = Running, app_world = world_new,
      app_stdout = [LineError (ErrBuild (BuildError 1))],
      app_stderr = [ErrMissingItem [''Weapon'', ''new_staff'']]\<rparr> = world_new"
proof -
  have st: "startup 1 (Inr std_empty) bad_script (commands_of world_new) =
     Some (Inl (ErrBuild (BuildError 1)), commands_of world_new, [ErrMissingItem [''Weapon'', ''new_staff'']])"
    by (rule bad_startup)
  note step = bad_script_step
  show ?thesis using startup_error_no_entities [OF step st] step st by simp
qed

text \<open>
  C11. A script that does not compile stops \<open>startup\<close> before any machine runs,
  whatever the fuel: the result is the build error, no command is queued, and all
  diagnostics are written.
\<close>

theorem compile_error_aborts:
  assumes "std_compatible c" and "snd (prepare_build (with_weapons c) sources) = Inl e"
  shows "startup fuel (Inr c) (Inr sources) cmds =
     Some (Inl (ErrBuild e), cmds, fst (prepare_build (with_weapons c) sources))"
proof -
  obtain d u where b: "prepare_build (with_weapons c) sources = (d, u)"
    by (cases "prepare_build (with_weapons c) sources")
  then show ?thesis using assms by (simp add: startup_def rune_context_new_compatible)
qed

theorem compile_error_aborts_witness:
  "std_compatible std_empty \<and>
   snd (prepare_build (with_weapons std_empty) (script_src (Call [''Weapon'', ''new_staff''] [Lit 1]))) =
     Inl (BuildError 1) \<and>
   startup 0 (Inr std_empty) (Inr (script_src (Call [''Weapon'', ''new_staff''] [Lit 1]))) (commands_of world_new) =
     Some (Inl (ErrBuild (BuildError 1)), commands_of world_new,
           fst (prepare_build (with_weapons std_empty) (script_src (Call [''Weapon'', ''new_staff''] [Lit 1]))))"
proof -
  have b: "snd (prepare_build (with_weapons std_empty) (script_src (Call [''Weapon'', ''new_staff''] [Lit 1]))) =
     Inl (BuildError 1)"
    by (simp add: script_src_def prepare_build_def compile_fn_def static_paths_with_weapons
        i64_min_def i64_max_def) (simp add: static_paths_def std_empty_def)
  show ?thesis using compile_error_aborts [OF std_empty_compatible b] std_empty_compatible b by simp
qed

text \<open>
  C12. \<open>RuneContext::new\<close> writes every diagnostic of the compilation to
  standard error before it looks at the compile result, on success as well as on
  failure, and it reaches the ready state exactly when no diagnostic is an error.
\<close>

theorem rune_context_new_diagnostics:
  assumes "std_compatible c"
  shows "snd (rune_context_new (Inr c) src) = fst (prepare_build (with_weapons c) src) \<and>
     ((\<exists>ctx. fst (rune_context_new (Inr c) src) = Inr ctx) \<longleftrightarrow>
      (\<forall>d \<in> set (fst (prepare_build (with_weapons c) src)). \<not> is_error d))"
proof -
  obtain d u where b: "prepare_build (with_weapons c) src = (d, u)"
    by (cases "prepare_build (with_weapons c) src")
  then have "(\<exists>x. u = Inr x) \<longleftrightarrow> (\<forall>x \<in> set d. \<not> is_error x)"
    using prepare_build_Inr_iff [of "with_weapons c" src] by simp
  then show ?thesis using b assms by (cases u) (auto simp: rune_context_new_compatible)
qed

theorem rune_context_new_diagnostics_witness:
  "std_compatible std_empty \<and>
   snd (rune_context_new (Inr std_empty) (script_src (Block [Discard (Lit 5)] (VecLit [])))) = [WarnNotUsed] \<and>
   (\<exists>ctx. fst (rune_context_new (Inr std_empty) (script_src (Block [Discard (Lit 5)] (VecLit [])))) = Inr ctx)"
proof -
  have b: "fst (prepare_build (with_weapons std_empty) (script_src (Block [Discard (Lit 5)] (VecLit [])))) =
      [WarnNotUsed]"
    by (simp add: script_src_def prepare_build_def compile_fn_def i64_min_def i64_max_def)
  show ?thesis using rune_context_new_diagnostics [OF std_empty_compatible] std_empty_compatible b by simp
qed

text \<open>
  C14. A default context that already defines one of the names of the weapons
  module makes the installation fail: \<open>RuneContext::new\<close> returns the context
  error, compiles nothing and writes nothing.
\<close>

theorem bridge_conflict_fails:
  assumes "\<not> std_compatible c"
  shows "\<exists>e. rune_context_new (Inr c) src = (Inl (ErrContext e), [])"
proof -
  obtain e where "context_install c \<lparr>mod_types = [weapon_item], mod_fns = weapon_api\<rparr> = Inl e"
    using assms install_weapons_module by (metis sum.exhaust)
  then show ?thesis by (simp add: rune_context_new_def rune_context_new_env_def weapons_module_eq)
qed

theorem bridge_conflict_fails_witness:
  "\<not> std_compatible \<lparr>ctx_types = [weapon_item], ctx_fns = []\<rparr> \<and>
   (\<exists>e. rune_context_new (Inr \<lparr>ctx_types = [weapon_item], ctx_fns = []\<rparr>) (script_src (Lit 0)) = (Inl (ErrContext e), []))"
proof -
  have n: "\<not> std_compatible \<lparr>ctx_types = [weapon_item], ctx_fns = []\<rparr>"
    by (simp add: std_compatible_def)
  show ?thesis using bridge_conflict_fails [OF n] n by simp
qed

text \<open>
  C2. The scenario of the design: with any default context that leaves room for
  the weapons module, the startup step on the script of \<open>create_sources\<close>
  exists, and every such step yields exactly three entities: a wand with id 1,
  level 30 and damage range 20..30; a melee weapon with id 2 and level 10; a
  distance weapon with id 3, level 30 and break chance 4; and no component
  besides these.  Nothing is printed and no diagnostic is written.
\<close>

theorem main_scenario:
  assumes "std_compatible c"
  shows "(\<exists>s. app_step (Inr c) create_sources app_init s) \<and>
     (\<forall>s. app_step (Inr c) create_sources app_init s \<longrightarrow>
        app_phase s = Running \<and> app_stdout s = [] \<and> app_stderr s = [] \<and>
        entity_count (app_world s) = 3 \<and>
        storage (app_world s) 0 =
          [K_WeaponId \<mapsto> C_WeaponId \<lparr>wid = 1\<rparr>, K_WandWeapon \<mapsto> C_WandWeapon WandWeapon,
           K_Level \<mapsto> C_Level (Level 30),
           K_WandDamageRange \<mapsto> C_WandDamageRange \<lparr>range_min = 20, range_max = 30\<rparr>] \<and>
        storage (app_world s) 1 =
          [K_WeaponId \<mapsto> C_WeaponId \<lparr>wid = 2\<rparr>, K_MeleeWeapon \<mapsto> C_MeleeWeapon MeleeWeapon,
           K_Level \<mapsto> C_Level (Level 10)] \<and>
        storage (app_world s) 2 =
          [K_WeaponId \<mapsto> C_WeaponId \<lparr>wid = 3\<rparr>, K_DistanceWeapon \<mapsto> C_DistanceWeapon DistanceWeapon,
           K_Level \<mapsto> C_Level (Level 30),
           K_DistanceBreakChance \<mapsto> C_DistanceBreakChance (DistanceBreakChance 4)])"
  using startup_entry_step [OF assms] entry_components by simp

theorem main_scenario_witness:
  "std_compatible std_empty \<and>
   (\<exists>s. app_step (Inr std_empty) create_sources app_init s \<and> entity_count (app_world s) = 3 \<and>
      storage (app_world s) 1 =
          [K_WeaponId \<mapsto> C_WeaponId \<lparr>wid = 2\<rparr>, K_MeleeWeapon \<mapsto> C_MeleeWeapon MeleeWeapon,
           K_Level \<mapsto> C_Level (Level 10)])"
  using main_scenario [OF std_empty_compatible] std_empty_compatible by blast

text \<open>
  C3. In every state the app can reach, whatever the default context and the
  script: the world is well formed, the app has not panicked (the commands of
  startup always apply), and every line the inspection pass has printed describes
  an entity of the current world that carries the marker (and, for melee
  weapons, the id) it reports.
\<close>

theorem app_reachable_safe:
  assumes "app_reachable std srcs s"
  shows "world_wf (app_world s) \<and> app_phase s \<noteq> Panicked \<and>
     (\<forall>l \<in> set (app_stdout s). line_ok (app_world s) l)"
  using app_reachable_inv [OF assms] by (simp add: app_inv_def)

theorem app_reachable_safe_witness:
  "app_reachable (Inr std_empty) create_sources app_init \<and>
   world_wf (app_world app_init) \<and> app_phase app_init \<noteq> Panicked"
proof -
  have r: "app_reachable (Inr std_empty) create_sources app_init"
    by (simp add: app_reachable_def)
  show ?thesis using app_reachable_safe [OF r] r by simp
qed

text \<open>
  C16. The inspection pass reports, for a wand marker, for a melee marker with an
  id, and for a distance marker, exactly the entities that carry them, with their
  components; it never reports an error.
\<close>

theorem update_reports:
  "(LineWand e x \<in> set (update w) \<longleftrightarrow>
      e < entity_count w \<and> storage w e K_WandWeapon = Some (C_WandWeapon x)) \<and>
   (LineMelee e x' i \<in> set (update w) \<longleftrightarrow>
      e < entity_count w \<and> storage w e K_MeleeWeapon = Some (C_MeleeWeapon x') \<and>
      storage w e K_WeaponId = Some (C_WeaponId i)) \<and>
   (LineDistance e x'' \<in> set (update w) \<longleftrightarrow>
      e < entity_count w \<and> storage w e K_DistanceWeapon = Some (C_DistanceWeapon x'')) \<and>
   LineError err \<notin> set (update w)"
  by (simp add: update_wand update_melee update_distance update_no_error)

end
