(* ===== verification/RuneCorrect.thy ===== *)
theory RuneCorrect
  imports RuneEval
begin

text \<open>
  Correctness of Rune's compiler and virtual machine for the script fragment,
  against the reference semantics of \<open>RuneEval\<close>.  The compiler keeps, for every
  stack slot of the frame, the local it holds; \<open>scope_rel\<close> relates that slot
  list and the machine stack to the evaluator's named locals.  The simulation
  \<open>compile_sim\<close> runs by induction on the compiler's recursion, for a fixed fuel,
  assuming the script functions' code is already correct for smaller fuel
  (\<open>fns_sim\<close>); induction on the fuel discharges that assumption for a unit
  built by \<open>prepare_build\<close>.  The consequence is stated for \<open>vm_execute\<close>: it
  computes the source meaning exactly, errors and non-termination included.
  \<open>EngineCorrect\<close> states it for the program's own context and machine.
\<close>

definition no_errors :: "diagnostic list \<Rightarrow> bool" where
  "no_errors ds \<longleftrightarrow> (\<forall>d \<in> set ds. \<not> is_error d)"

definition scope_rel :: "'a locals \<Rightarrow> string option list \<Rightarrow> 'a rvalue list \<Rightarrow> bool" where
  "scope_rel L sc st \<longleftrightarrow> length sc = length st \<and> (\<forall>x. L x = map_option (\<lambda>i. st ! i) (slot_of x sc))"

text \<open>The script functions' code runs their bodies, for every amount of fuel below \<open>fuel\<close>.\<close>

definition fns_sim :: "nat \<Rightarrow> 'a sem \<Rightarrow> 'a vmenv \<Rightarrow> bool" where
  "fns_sim fuel S E \<longleftrightarrow>
     (\<forall>g f. find_fn (sem_fns S) g = Some f \<longrightarrow>
        (\<exists>code. map_of (env_unit E) g = Some (length (fn_params f), code) \<and>
           (\<forall>fuel' vs h. fuel' < fuel \<longrightarrow> length vs = length (fn_params f) \<longrightarrow>
              exec fuel' E code vs h =
                res_bind (eval_expr fuel' S (bind_params (fn_params f) vs) (fn_body f) h)
                  (\<lambda>(v, h'). Some (Inr (vs @ [v], h'))))))"

definition block_sim :: "nat \<Rightarrow> 'a vmenv \<Rightarrow> inst list \<Rightarrow> 'a rvalue list \<Rightarrow> 'a heap \<Rightarrow> string option list \<Rightarrow>
    (vm_error, 'a locals \<times> 'a heap) result option \<Rightarrow> bool" where
  "block_sim fuel E c st h sc' r =
     (case r of
        None \<Rightarrow> exec fuel E c st h = None
      | Some (Inl e) \<Rightarrow> exec fuel E c st h = Some (Inl e)
      | Some (Inr (L', h')) \<Rightarrow> (\<exists>vs. scope_rel L' sc' (st @ vs) \<and> exec fuel E c st h = Some (Inr (st @ vs, h'))))"

subsection \<open>Slots and locals\<close>

lemma no_errors_simps [simp]:
  "no_errors []"
  "no_errors (ds @ ds') \<longleftrightarrow> no_errors ds \<and> no_errors ds'"
  "no_errors (d # ds) \<longleftrightarrow> \<not> is_error d \<and> no_errors ds"
  by (auto simp: no_errors_def)

lemma slot_of_append [simp]:
  "slot_of x (sc @ [s]) = (if s = Some x then Some (length sc) else slot_of x sc)"
  by (induction sc) (auto split: option.splits)

lemma slot_of_lt: "slot_of x sc = Some i \<Longrightarrow> i < length sc"
  by (induction sc arbitrary: i) (auto split: option.splits if_splits)

lemma scope_rel_slots_push:
  assumes "scope_rel L sc st"
  shows "map_option (\<lambda>i. (st @ [v]) ! i) (slot_of x sc) = map_option (\<lambda>i. st ! i) (slot_of x sc)"
  using assms slot_of_lt [of x sc] by (cases "slot_of x sc") (auto simp: scope_rel_def nth_append)

lemma scope_rel_push_tmp:
  "scope_rel L sc st \<Longrightarrow> scope_rel L (sc @ [None]) (st @ [v])"
  using scope_rel_slots_push by (fastforce simp: scope_rel_def)

lemma scope_rel_push_let:
  "scope_rel L sc st \<Longrightarrow> scope_rel (L(x \<mapsto> v)) (sc @ [Some x]) (st @ [v])"
  using scope_rel_slots_push by (fastforce simp: scope_rel_def)

lemma scope_rel_params:
  "length ps = length vs \<Longrightarrow> scope_rel (bind_params ps vs) (map Some ps) vs"
proof (induction ps arbitrary: vs rule: rev_induct)
  case Nil
  then show ?case by (simp add: scope_rel_def bind_params_def)
next
  case (snoc p ps)
  then obtain vs' v where vs: "vs = vs' @ [v]" and "length ps = length vs'"
    by (cases vs rule: rev_cases) auto
  then have "scope_rel ((bind_params ps vs')(p \<mapsto> v)) (map Some ps @ [Some p]) (vs' @ [v])"
    using snoc.IH scope_rel_push_let by blast
  moreover have "bind_params (ps @ [p]) (vs' @ [v]) = (bind_params ps vs')(p \<mapsto> v)"
    using \<open>length ps = length vs'\<close> by (simp add: bind_params_def fun_eq_iff)
  ultimately show ?case unfolding vs by (simp only: map_append list.map)
qed

lemma scope_rel_Var:
  "scope_rel L sc st \<Longrightarrow> slot_of x sc = Some i \<Longrightarrow> L x = Some (st ! i) \<and> i < length st"
  using slot_of_lt by (fastforce simp: scope_rel_def)

subsection \<open>Running code piecewise\<close>

lemma exec_append:
  "exec fuel E (c1 @ c2) st h = res_bind (exec fuel E c1 st h) (\<lambda>(st', h'). exec fuel E c2 st' h')"
  by (induction fuel E c1 st h rule: exec.induct)
    (auto simp: res_bind_def split: option.splits sum.splits prod.splits)

lemma pop_n_append: "pop_n (length vs) (st @ vs) = Some (st, vs)"
  by (simp add: pop_n_def)

lemma exec_ICall_step:
  "exec fuel E [ICall p (length vs)] (st @ vs) h =
     (case env_runtime E (StaticFn p) of
        None \<Rightarrow> Some (Inl (MissingFunction p))
      | Some f \<Rightarrow> res_bind (Some (f h vs)) (\<lambda>(v, h'). Some (Inr (st @ [v], h'))))"
  by (simp add: pop_n_append res_bind_def split: option.splits sum.splits)

lemma exec_ICallInstance_step:
  "exec fuel E [ICallInstance m (length vs)] (st @ rv # vs) h =
     (case env_runtime E (InstanceFn (type_item (env_any E) rv) m) of
        None \<Rightarrow> Some (Inl (MissingInstanceFunction m))
      | Some f \<Rightarrow> res_bind (Some (f h (rv # vs))) (\<lambda>(v, h'). Some (Inr (st @ [v], h'))))"
  using pop_n_append [of "rv # vs" st] by (simp add: res_bind_def split: option.splits sum.splits)

lemma exec_IVec_step: "exec fuel E [IVec (length vs)] (st @ vs) h = Some (Inr (st @ [VVec vs], h))"
  by (simp add: pop_n_append)

lemma exec_IClean_step: "exec fuel E [IClean (length vs)] (st @ vs @ [v]) h = Some (Inr (st @ [v], h))"
  by simp

lemma exec_IDrop_step: "exec fuel E [IDrop] (st @ [v]) h = Some (Inr (st, h))"
  by simp

lemma exec_ICallFn_step:
  assumes sim: "fns_sim fuel S E" and f: "find_fn (sem_fns S) g = Some f"
  shows "exec fuel E [ICallFn g (length vs)] (st @ vs) h =
     res_bind
       (case fuel of
          0 \<Rightarrow> None
        | Suc fuel' \<Rightarrow>
            if length (fn_params f) \<noteq> length vs
            then Some (Inl (BadArgumentCount (length (fn_params f)) (length vs)))
            else eval_expr fuel' S (bind_params (fn_params f) vs) (fn_body f) h)
       (\<lambda>(v, h'). Some (Inr (st @ [v], h')))"
proof (cases fuel)
  case 0
  then show ?thesis by simp
next
  case (Suc fuel')
  obtain code where code: "map_of (env_unit E) g = Some (length (fn_params f), code)"
    and run: "\<And>vs h. length vs = length (fn_params f) \<Longrightarrow> exec fuel' E code vs h =
       res_bind (eval_expr fuel' S (bind_params (fn_params f) vs) (fn_body f) h)
         (\<lambda>(v, h'). Some (Inr (vs @ [v], h')))"
    using sim f Suc unfolding fns_sim_def by blast
  show ?thesis
  proof (cases "length (fn_params f) = length vs")
    case False
    then show ?thesis using Suc code by (simp add: pop_n_append)
  next
    case True
    then show ?thesis using Suc code run [OF True [symmetric]]
      by (auto simp: pop_n_append res_bind_def ret_value_def split: option.splits sum.splits)
  qed
qed

subsection \<open>The simulation\<close>

lemma block_sim_exec_eq:
  "exec fuel E c st h = exec fuel E c' st h' \<Longrightarrow> block_sim fuel E c' st h' sc' r \<Longrightarrow> block_sim fuel E c st h sc' r"
  by (simp add: block_sim_def split: option.splits sum.splits prod.splits)

lemma block_sim_step:
  assumes "exec fuel E c1 st h = res_bind r (\<lambda>(v, h'). Some (Inr (st @ [v], h')))"
    and "\<And>v h'. r = Some (Inr (v, h')) \<Longrightarrow> block_sim fuel E c2 (st @ [v]) h' sc' (k v h')"
  shows "block_sim fuel E (c1 @ c2) st h sc' (res_bind r (\<lambda>(v, h'). k v h'))"
proof (cases r)
  case None
  then show ?thesis using assms(1) by (simp add: block_sim_def exec_append)
next
  case (Some x)
  then show ?thesis
  proof (cases x)
    case (Inl e)
    then show ?thesis using assms(1) Some by (simp add: block_sim_def exec_append)
  next
    case (Inr a)
    obtain v h' where a: "a = (v, h')" by fastforce
    have "block_sim fuel E c2 (st @ [v]) h' sc' (k v h')" using assms(2) Some Inr a by simp
    then show ?thesis using assms(1) Some Inr a
      by (auto simp: block_sim_def exec_append split: option.splits sum.splits intro: exI [of _ "v # vs" for vs])
  qed
qed

lemma block_sim_drop:
  assumes "exec fuel E c1 st h = res_bind r (\<lambda>(v, h'). Some (Inr (st @ [v], h')))"
    and "\<And>v h'. r = Some (Inr (v, h')) \<Longrightarrow> block_sim fuel E c2 st h' sc' (k v h')"
  shows "block_sim fuel E (c1 @ IDrop # c2) st h sc' (res_bind r (\<lambda>(v, h'). k v h'))"
proof (cases r)
  case None
  then show ?thesis using assms(1) by (simp add: block_sim_def exec_append)
next
  case (Some x)
  then show ?thesis
  proof (cases x)
    case (Inl e)
    then show ?thesis using assms(1) Some by (simp add: block_sim_def exec_append)
  next
    case (Inr a)
    obtain v h' where a: "a = (v, h')" by fastforce
    have e: "exec fuel E (c1 @ IDrop # c2) st h = exec fuel E c2 st h'"
      using assms(1) Some Inr a by (simp add: exec_append)
    have "block_sim fuel E c2 st h' sc' (k v h')" using assms(2) Some Inr a by simp
    then show ?thesis using Some Inr a block_sim_exec_eq [OF e] by simp
  qed
qed

lemma compile_sim:
  fixes S :: "'a sem" and E :: "'a vmenv"
  assumes rt: "env_runtime E = sem_runtime S" and any: "env_any E = sem_any S"
    and sim: "fns_sim fuel S E"
  shows "fns = map fn_name (sem_fns S) \<Longrightarrow> compile_expr fns statics sc e = (d, c) \<Longrightarrow> no_errors d \<Longrightarrow> scope_rel L sc st \<Longrightarrow>
           exec fuel E c st h = res_bind (eval_expr fuel S L e h) (\<lambda>(v, h'). Some (Inr (st @ [v], h')))"
    and "fns = map fn_name (sem_fns S) \<Longrightarrow> compile_args fns statics sc es = (d, c) \<Longrightarrow> no_errors d \<Longrightarrow> scope_rel L sc st \<Longrightarrow>
           exec fuel E c st h = res_bind (eval_args fuel S L es h) (\<lambda>(vs, h'). Some (Inr (st @ vs, h')))"
    and "fns = map fn_name (sem_fns S) \<Longrightarrow> compile_stmts fns statics sc ss = (d, c, sc') \<Longrightarrow> no_errors d \<Longrightarrow> scope_rel L sc st \<Longrightarrow>
           block_sim fuel E c st h sc' (eval_stmts fuel S L ss h)"
proof (induction fns statics sc e and fns statics sc es and fns statics sc ss
    arbitrary: d c L st h and d c L st h and d c sc' L st h
    rule: compile_expr_compile_args_compile_stmts.induct)
  case (1 fns statics sc n)
  then show ?case by (auto split: if_splits)
next
  case (2 fns statics sc x)
  then show ?case by (auto dest: scope_rel_Var split: option.splits)
next
  case (3 fns statics sc p args)
  obtain d' c' where ca: "compile_args fns statics sc args = (d', c')" by fastforce
  have shape: "no_errors d' \<and>
     (case p of
        [g] \<Rightarrow> if g \<in> set fns then c = c' @ [ICallFn g (length args)] else c = c' @ [ICall p (length args)]
      | _ \<Rightarrow> c = c' @ [ICall p (length args)])"
    using "3.prems"(2,3) ca by (auto split: list.splits if_splits)
  then have args: "exec fuel E c' st h = res_bind (eval_args fuel S L args h) (\<lambda>(vs, h'). Some (Inr (st @ vs, h')))"
    using "3.IH" ca "3.prems"(1,4) by blast
  show ?case
  proof (cases "case p of [g] \<Rightarrow> find_fn (sem_fns S) g | _ \<Rightarrow> None")
    case None
    then have c: "c = c' @ [ICall p (length args)]"
      using shape "3.prems"(1) find_fn_None_iff by (auto split: list.splits if_splits)
    have "exec fuel E c st h =
        res_bind (eval_args fuel S L args h) (\<lambda>(vs, h'). exec fuel E [ICall p (length args)] (st @ vs) h')"
      by (simp only: c exec_append args res_bind_push)
    also have "\<dots> = res_bind (eval_expr fuel S L (Call p args) h) (\<lambda>(v, h'). Some (Inr (st @ [v], h')))"
      unfolding eval_expr.simps
      by (rule res_bind_cont) (use None rt in \<open>auto dest!: eval_args_length [symmetric]
          simp del: exec.simps simp: exec_ICall_step split: option.splits\<close>)
    finally show ?thesis .
  next
    case (Some f)
    then obtain g where p: "p = [g]" and f: "find_fn (sem_fns S) g = Some f"
      by (auto split: list.splits)
    then have c: "c = c' @ [ICallFn g (length args)]"
      using shape "3.prems"(1) find_fn_Some by (auto split: if_splits)
    have "exec fuel E c st h =
        res_bind (eval_args fuel S L args h) (\<lambda>(vs, h'). exec fuel E [ICallFn g (length args)] (st @ vs) h')"
      by (simp only: c exec_append args res_bind_push)
    also have "\<dots> = res_bind (eval_expr fuel S L (Call p args) h) (\<lambda>(v, h'). Some (Inr (st @ [v], h')))"
      unfolding eval_expr.simps
      by (rule res_bind_cont) (use p f in \<open>auto dest!: eval_args_length [symmetric]
          simp del: exec.simps simp: exec_ICallFn_step [OF sim f]\<close>)
    finally show ?thesis .
  qed
next
  case (4 fns statics sc r m args)
  obtain d' c' where ca: "compile_args fns statics sc (r # args) = (d', c')" by fastforce
  have c: "c = c' @ [ICallInstance m (length args)]" and nd: "no_errors d'"
    using "4.prems"(2,3) ca by auto
  have args: "exec fuel E c' st h =
      res_bind (eval_args fuel S L (r # args) h) (\<lambda>(vs, h'). Some (Inr (st @ vs, h')))"
    using "4.IH" ca nd "4.prems"(1,4) by blast
  have "exec fuel E c st h =
      res_bind (eval_args fuel S L (r # args) h) (\<lambda>(vs, h'). exec fuel E [ICallInstance m (length args)] (st @ vs) h')"
    by (simp only: c exec_append args res_bind_push)
  also have "\<dots> = res_bind (eval_expr fuel S L r h) (\<lambda>(rv, h1). res_bind (eval_args fuel S L args h1)
      (\<lambda>(vs, h2). exec fuel E [ICallInstance m (length args)] (st @ rv # vs) h2))"
    unfolding eval_args.simps res_bind_assoc
    by (rule res_bind_cong [OF refl]) (auto simp: res_bind_def simp del: exec.simps split: option.splits sum.splits)
  also have "\<dots> = res_bind (eval_expr fuel S L (MethodCall r m args) h) (\<lambda>(v, h'). Some (Inr (st @ [v], h')))"
    unfolding eval_expr.simps res_bind_assoc
    apply (rule res_bind_cong [OF refl], clarify)
    apply (rule res_bind_cont)
    using any rt by (auto dest!: eval_args_length [symmetric] simp del: exec.simps
        simp: exec_ICallInstance_step split: option.splits)
  finally show ?case .
next
  case (5 fns statics sc es)
  obtain d' c' where ca: "compile_args fns statics sc es = (d', c')" by fastforce
  have c: "c = c' @ [IVec (length es)]" and nd: "no_errors d'"
    using "5.prems"(2,3) ca by auto
  have args: "exec fuel E c' st h =
      res_bind (eval_args fuel S L es h) (\<lambda>(vs, h'). Some (Inr (st @ vs, h')))"
    using "5.IH" ca nd "5.prems"(1,4) by blast
  have "exec fuel E c st h =
      res_bind (eval_args fuel S L es h) (\<lambda>(vs, h'). exec fuel E [IVec (length es)] (st @ vs) h')"
    by (simp only: c exec_append args res_bind_push)
  then show ?case
    by (auto simp: res_bind_def exec_IVec_step dest!: eval_args_length [symmetric]
        simp del: exec.simps split: option.splits sum.splits)
next
  case (6 fns statics sc ss e)
  obtain d1 c1 sc' where cs: "compile_stmts fns statics sc ss = (d1, c1, sc')" by (cases "compile_stmts fns statics sc ss") auto
  obtain d2 c2 where ce: "compile_expr fns statics sc' e = (d2, c2)" by fastforce
  have c: "c = c1 @ c2 @ [IClean (length sc' - length sc)]" and nd: "no_errors d1" "no_errors d2"
    using "6.prems"(2,3) cs ce by auto
  have blk: "block_sim fuel E c1 st h sc' (eval_stmts fuel S L ss h)"
    using "6.IH"(1) cs nd "6.prems"(1,4) by blast
  have body: "\<And>L' st' h'. scope_rel L' sc' st' \<Longrightarrow> exec fuel E c2 st' h' =
      res_bind (eval_expr fuel S L' e h') (\<lambda>(v, h''). Some (Inr (st' @ [v], h'')))"
    using "6.IH"(2) [OF cs [symmetric]] ce nd "6.prems"(1) by blast
  show ?case
  proof (cases "eval_stmts fuel S L ss h")
    case None
    then show ?thesis using blk by (simp add: block_sim_def c exec_append)
  next
    case (Some x)
    show ?thesis
    proof (cases x)
      case (Inl err)
      then show ?thesis using blk Some by (simp add: block_sim_def c exec_append)
    next
      case (Inr a)
      obtain L' h' where a: "a = (L', h')" by fastforce
      obtain vs where rel: "scope_rel L' sc' (st @ vs)" and run: "exec fuel E c1 st h = Some (Inr (st @ vs, h'))"
        using blk Some Inr a by (auto simp: block_sim_def)
      have "length sc' - length sc = length vs"
        using rel "6.prems"(4) by (simp add: scope_rel_def)
      then have "exec fuel E c st h =
          res_bind (eval_expr fuel S L' e h') (\<lambda>(v, h''). exec fuel E [IClean (length vs)] (st @ vs @ [v]) h'')"
        using run body [OF rel] by (simp only: c exec_append res_bind_simps prod.case append_assoc res_bind_push)
      then show ?thesis using Some Inr a
        by (simp del: exec.simps add: exec_IClean_step res_bind_def split: option.splits sum.splits)
    qed
  qed
next
  case (7 fns statics sc)
  then show ?case by simp
next
  case (8 fns statics sc e es)
  obtain d1 c1 where ce: "compile_expr fns statics sc e = (d1, c1)" by fastforce
  obtain d2 c2 where ca: "compile_args fns statics (sc @ [None]) es = (d2, c2)" by fastforce
  have c: "c = c1 @ c2" and nd: "no_errors d1" "no_errors d2"
    using "8.prems"(2,3) ce ca by auto
  have hd: "exec fuel E c1 st h = res_bind (eval_expr fuel S L e h) (\<lambda>(v, h'). Some (Inr (st @ [v], h')))"
    using "8.IH"(1) ce nd "8.prems"(1,4) by blast
  have tl: "\<And>v h'. exec fuel E c2 (st @ [v]) h' =
      res_bind (eval_args fuel S L es h') (\<lambda>(vs, h''). Some (Inr ((st @ [v]) @ vs, h'')))"
    using "8.IH"(2) [OF ce [symmetric]] ca nd "8.prems"(1) scope_rel_push_tmp [OF "8.prems"(4)] by blast
  show ?case
    by (simp only: c exec_append hd res_bind_push tl)
      (auto simp: res_bind_def split: option.splits sum.splits)
next
  case (9 fns statics sc)
  then show ?case by (auto simp: block_sim_def)
next
  case (10 fns statics sc x e ss)
  obtain d1 c1 where ce: "compile_expr fns statics sc e = (d1, c1)" by fastforce
  obtain d2 c2 sc'' where cs: "compile_stmts fns statics (sc @ [Some x]) ss = (d2, c2, sc'')"
    by (cases "compile_stmts fns statics (sc @ [Some x]) ss") auto
  have c: "c = c1 @ c2" and sc: "sc' = sc''" and nd: "no_errors d1" "no_errors d2"
    using "10.prems"(2,3) ce cs by auto
  have hd: "exec fuel E c1 st h = res_bind (eval_expr fuel S L e h) (\<lambda>(v, h'). Some (Inr (st @ [v], h')))"
    using "10.IH"(1) ce nd "10.prems"(1,4) by blast
  have tl: "\<And>v h'. block_sim fuel E c2 (st @ [v]) h' sc' (eval_stmts fuel S (L(x \<mapsto> v)) ss h')"
    using "10.IH"(2) [OF ce [symmetric]] cs sc nd "10.prems"(1) scope_rel_push_let [OF "10.prems"(4)] by blast
  show ?case
    unfolding c eval_stmts.simps by (rule block_sim_step [OF hd tl])
next
  case (11 fns statics sc e ss)
  obtain d1 c1 where ce: "compile_expr fns statics sc e = (d1, c1)" by fastforce
  obtain d2 c2 sc'' where cs: "compile_stmts fns statics sc ss = (d2, c2, sc'')"
    by (cases "compile_stmts fns statics sc ss") auto
  have c: "c = c1 @ IDrop # c2" and sc: "sc' = sc''" and nd: "no_errors d1" "no_errors d2"
    using "11.prems"(2,3) ce cs by auto
  have hd: "exec fuel E c1 st h = res_bind (eval_expr fuel S L e h) (\<lambda>(v, h'). Some (Inr (st @ [v], h')))"
    using "11.IH"(1) ce nd "11.prems"(1,4) by blast
  have tl: "\<And>v h'. block_sim fuel E c2 st h' sc' (eval_stmts fuel S L ss h')"
    using "11.IH"(2) [OF ce [symmetric]] cs sc nd "11.prems"(1,4) by blast
  show ?case
    unfolding c eval_stmts.simps by (rule block_sim_drop [OF hd tl])
qed

subsection \<open>Built units\<close>

lemma map_of_map_find_fn:
  "map_of (map (\<lambda>f. (fn_name f, F f)) fs) g = map_option F (find_fn fs g)"
  by (induction fs) (auto simp: find_fn_def)

lemma compile_fn_eq:
  "compile_fn fns statics f =
     (fst (compile_expr fns statics (map Some (fn_params f)) (fn_body f)),
      fn_name f, length (fn_params f), snd (compile_expr fns statics (map Some (fn_params f)) (fn_body f)))"
  by (simp add: compile_fn_def split: prod.splits)

text \<open>What a successful build produces: every item compiled without error, in order.\<close>

lemma prepare_build_unit:
  assumes "snd (prepare_build ctx srcs) = Inr u"
  defines "items \<equiv> concat (map snd srcs)"
  defines "cf \<equiv> \<lambda>f. compile_expr (map fn_name items) (static_paths ctx) (map Some (fn_params f)) (fn_body f)"
  shows "u = map (\<lambda>f. (fn_name f, length (fn_params f), snd (cf f))) items \<and>
         (\<forall>f \<in> set items. no_errors (fst (cf f)))"
proof -
  have "length (filter is_error (concat (map (fst \<circ> compile_fn (map fn_name items) (static_paths ctx)) items))) = 0"
    using assms(1) by (simp add: prepare_build_def Let_def items_def split: if_splits)
  then have "\<forall>f \<in> set items. no_errors (fst (cf f))"
    by (auto simp: no_errors_def filter_empty_conv compile_fn_eq cf_def)
  moreover have "u = map (\<lambda>f. (fn_name f, length (fn_params f), snd (cf f))) items"
    using assms(1) by (auto simp: prepare_build_def Let_def items_def cf_def compile_fn_eq
        split: if_splits)
  ultimately show ?thesis by blast
qed

lemma fns_sim_unit:
  assumes "snd (prepare_build ctx srcs) = Inr u"
  shows "fns_sim fuel \<lparr>sem_runtime = rt, sem_any = any, sem_fns = concat (map snd srcs)\<rparr>
           \<lparr>env_runtime = rt, env_unit = u, env_any = any\<rparr>"
proof (induction fuel rule: less_induct)
  case (less fuel)
  let ?S = "\<lparr>sem_runtime = rt, sem_any = any, sem_fns = concat (map snd srcs)\<rparr>"
  let ?E = "\<lparr>env_runtime = rt, env_unit = u, env_any = any\<rparr>"
  let ?cf = "\<lambda>f. compile_expr (map fn_name (concat (map snd srcs))) (static_paths ctx) (map Some (fn_params f)) (fn_body f)"
  have u: "u = map (\<lambda>f. (fn_name f, length (fn_params f), snd (?cf f))) (concat (map snd srcs))"
    and ok: "\<forall>f \<in> set (concat (map snd srcs)). no_errors (fst (?cf f))"
    using prepare_build_unit [OF assms] by auto
  show ?case unfolding fns_sim_def
  proof (intro allI impI)
    fix g f
    assume f: "find_fn (sem_fns ?S) g = Some f"
    have "map_of (env_unit ?E) g = Some (length (fn_params f), snd (?cf f))"
      using f by (simp add: u map_of_map_find_fn)
    moreover have "exec fuel' ?E (snd (?cf f)) vs h =
        res_bind (eval_expr fuel' ?S (bind_params (fn_params f) vs) (fn_body f) h)
          (\<lambda>(v, h'). Some (Inr (vs @ [v], h')))"
      if "fuel' < fuel" "length vs = length (fn_params f)" for fuel' vs h
    proof -
      have "f \<in> set (concat (map snd srcs))" using find_fn_Some [OF f] by simp
      from bspec [OF ok this] have "no_errors (fst (?cf f))" .
      then show ?thesis
        using compile_sim(1) [of ?E ?S fuel' "map fn_name (concat (map snd srcs))" "static_paths ctx"
            "map Some (fn_params f)" "fn_body f" "fst (?cf f)" "snd (?cf f)" "bind_params (fn_params f) vs" vs h]
          less [OF that(1)] scope_rel_params [OF that(2) [symmetric]]
        by simp
    qed
    ultimately show "\<exists>code. map_of (env_unit ?E) g = Some (length (fn_params f), code) \<and>
        (\<forall>fuel' vs h. fuel' < fuel \<longrightarrow> length vs = length (fn_params f) \<longrightarrow>
           exec fuel' ?E code vs h =
             res_bind (eval_expr fuel' ?S (bind_params (fn_params f) vs) (fn_body f) h)
               (\<lambda>(v, h'). Some (Inr (vs @ [v], h'))))"
      by blast
  qed
qed

lemma vm_execute_eq_eval:
  assumes "snd (prepare_build ctx srcs) = Inr u"
  shows "vm_execute fuel any (vm_new rt u) name args =
     eval_fn fuel \<lparr>sem_runtime = rt, sem_any = any, sem_fns = concat (map snd srcs)\<rparr> name args"
proof -
  let ?S = "\<lparr>sem_runtime = rt, sem_any = any, sem_fns = concat (map snd srcs)\<rparr>"
  let ?E = "\<lparr>env_runtime = rt, env_unit = u, env_any = any\<rparr>"
  let ?cf = "\<lambda>f. compile_expr (map fn_name (concat (map snd srcs))) (static_paths ctx) (map Some (fn_params f)) (fn_body f)"
  have u: "u = map (\<lambda>f. (fn_name f, length (fn_params f), snd (?cf f))) (concat (map snd srcs))"
    using prepare_build_unit [OF assms] by auto
  show ?thesis
  proof (cases "find_fn (concat (map snd srcs)) name")
    case None
    then show ?thesis by (simp add: vm_execute_def vm_new_def eval_fn_def u map_of_map_find_fn)
  next
    case (Some f)
    show ?thesis
    proof (cases "length (fn_params f) = length args")
      case False
      then show ?thesis using Some by (simp add: vm_execute_def vm_new_def eval_fn_def u map_of_map_find_fn)
    next
      case True
      show ?thesis
      proof (cases fuel)
        case 0
        then show ?thesis using Some True by (simp add: vm_execute_def vm_new_def eval_fn_def u map_of_map_find_fn)
      next
        case (Suc fuel')
        have "fns_sim (Suc fuel') ?S ?E" by (rule fns_sim_unit [OF assms])
        then obtain code where code: "map_of u name = Some (length (fn_params f), code)"
          and run: "exec fuel' ?E code args heap_empty =
              res_bind (eval_expr fuel' ?S (bind_params (fn_params f) args) (fn_body f) heap_empty)
                (\<lambda>(v, h'). Some (Inr (args @ [v], h')))"
          using Some True unfolding fns_sim_def by fastforce
        show ?thesis using Some True Suc code run
          by (auto simp: vm_execute_def vm_new_def eval_fn_def res_bind_def ret_value_def
              split: option.splits sum.splits)
      qed
    qed
  qed
qed

subsection \<open>Consequences for the machine\<close>

end
