(* ===== verification/EngineCorrect.thy ===== *)
theory EngineCorrect
  imports RuneContext RuneCorrect
begin

text \<open>
  The program's script engine, \<open>RuneContext\<close> of \<open>src/rune_context.rs\<close>, runs a
  script by its source meaning.  A context built by \<open>rune_context_new\<close> holds
  the runtime of the default context with the weapons module installed and the
  unit compiled from the sources; the machine \<open>rune_vm\<close> makes from it computes
  what the reference evaluator of \<open>RuneEval\<close> computes on the sources, with the
  same runtime (the lemmas of \<open>RuneCorrect\<close>, instantiated).
\<close>

text \<open>
  A script exercising the weapon functions and a script function: \<open>main\<close> builds
  a wand, sets its level and passes it to \<open>wrap\<close>, which returns it in a vector.
\<close>

abbreviation engine_demo :: "fn_item list" where
  "engine_demo \<equiv>
     [\<lparr>fn_name = ''main'', fn_params = [],
       fn_body = Block [Let ''w'' (MethodCall (Call [''Weapon'', ''new_wand''] [Lit 1]) ''level'' [Lit 30])]
                   (Call [''wrap''] [Var ''w''])\<rparr>,
      \<lparr>fn_name = ''wrap'', fn_params = [''x''], fn_body = VecLit [Var ''x'']\<rparr>]"

abbreviation engine_demo_unit :: cunit where
  "engine_demo_unit \<equiv>
     [(''main'', 0, [IInteger 1, ICall [''Weapon'', ''new_wand''] 1, IInteger 30, ICallInstance ''level'' 1,
                     ICopy 0, ICallFn ''wrap'' 1, IClean 1]),
      (''wrap'', 1, [ICopy 0, IVec 1])]"

subsection \<open>Lemmas\<close>

lemma rune_context_new_Inr:
  assumes "rune_context_new std srcs = (Inr ctx, d)"
  shows "\<exists>c. std = Inr c \<and> std_compatible c \<and> snd (prepare_build (with_weapons c) srcs) = Inr (rc_unit ctx) \<and>
     rc_runtime ctx = context_runtime (with_weapons c)"
proof (cases std)
  case (Inl e)
  then show ?thesis using assms by (simp add: rune_context_new_def rune_context_new_env_def)
next
  case (Inr c)
  show ?thesis
  proof (cases "std_compatible c")
    case False
    then obtain e where "context_install c \<lparr>mod_types = [weapon_item], mod_fns = weapon_api\<rparr> = Inl e"
      using install_weapons_module by (metis sum.exhaust)
    then show ?thesis using assms Inr by (simp add: rune_context_new_def rune_context_new_env_def weapons_module_eq)
  next
    case True
    then show ?thesis using assms Inr
      by (auto simp: rune_context_new_compatible split: prod.splits sum.splits)
  qed
qed

lemma engine_demo_context:
  "rune_context_new (Inr \<lparr>ctx_types = [], ctx_fns = []\<rparr>) [(''main.rn'', engine_demo)] =
     (Inr \<lparr>rc_runtime = context_runtime (with_weapons \<lparr>ctx_types = [], ctx_fns = []\<rparr>), rc_unit = engine_demo_unit\<rparr>, [])"
proof -
  have "std_compatible \<lparr>ctx_types = [], ctx_fns = []\<rparr>" by (simp add: std_compatible_def)
  then show ?thesis
    by (simp add: rune_context_new_compatible prepare_build_def compile_fn_def static_paths_with_weapons
        i64_min_def i64_max_def)
qed

lemma engine_demo_run:
  "vm_execute 2 weapon_item (rune_vm \<lparr>rc_runtime = context_runtime (with_weapons \<lparr>ctx_types = [], ctx_fns = []\<rparr>),
      rc_unit = engine_demo_unit\<rparr>) ''main'' [] =
   Some (Inr (VVec [VAny 1],
     \<lparr>objects = [0 \<mapsto> Taken, 1 \<mapsto> Live (weapon_level (weapon_new_wand 1) 30)], next_obj = 2\<rparr>))"
  by (simp add: vm_execute_def rune_vm_def vm_new_def pop_n_def ret_value_def context_runtime_def with_weapons_def
      weapon_api_def weapon_item_def native_ctor_u32_def native_method_u32_def value_defs)

subsection \<open>Properties\<close>

text \<open>
  C4. The machine of a \<open>RuneContext\<close> runs scripts by their source meaning:
  when \<open>RuneContext::new\<close> succeeds on some sources, calling any function of
  them on \<open>ctx.vm()\<close>, with any arguments and fuel, gives exactly the value, heap,
  error or non-termination the reference evaluator gives on the sources, over
  the context's runtime (the default context with the weapons module).
\<close>

theorem rune_vm_eval:
  assumes "rune_context_new std srcs = (Inr ctx, d)"
  shows "vm_execute fuel any (rune_vm ctx) name args =
     eval_fn fuel \<lparr>sem_runtime = rc_runtime ctx, sem_any = any, sem_fns = concat (map snd srcs)\<rparr> name args"
proof -
  obtain c where "snd (prepare_build (with_weapons c) srcs) = Inr (rc_unit ctx)"
    using rune_context_new_Inr [OF assms] by blast
  from vm_execute_eq_eval [OF this] show ?thesis by (simp add: rune_vm_def)
qed

theorem rune_vm_eval_witness:
  "rune_context_new (Inr \<lparr>ctx_types = [], ctx_fns = []\<rparr>) [(''main.rn'', engine_demo)] =
     (Inr \<lparr>rc_runtime = context_runtime (with_weapons \<lparr>ctx_types = [], ctx_fns = []\<rparr>), rc_unit = engine_demo_unit\<rparr>, []) \<and>
   vm_execute 2 weapon_item
     (rune_vm \<lparr>rc_runtime = context_runtime (with_weapons \<lparr>ctx_types = [], ctx_fns = []\<rparr>), rc_unit = engine_demo_unit\<rparr>)
     ''main'' [] =
   eval_fn 2 \<lparr>sem_runtime = context_runtime (with_weapons \<lparr>ctx_types = [], ctx_fns = []\<rparr>), sem_any = weapon_item,
       sem_fns = engine_demo\<rparr> ''main'' [] \<and>
   eval_fn 2 \<lparr>sem_runtime = context_runtime (with_weapons \<lparr>ctx_types = [], ctx_fns = []\<rparr>), sem_any = weapon_item,
       sem_fns = engine_demo\<rparr> ''main'' [] =
   Some (Inr (VVec [VAny 1],
     \<lparr>objects = [0 \<mapsto> Taken, 1 \<mapsto> Live (weapon_level (weapon_new_wand 1) 30)], next_obj = 2\<rparr>))"
  using rune_vm_eval [OF engine_demo_context, of 2 weapon_item "''main''" "[]"] engine_demo_context engine_demo_run
  by simp

end
