(* ===== verification/ScriptRuns.thy ===== *)
theory ScriptRuns
  imports App EngineCorrect
begin

text \<open>
  What \<open>startup\<close> of \<open>src/main.rs\<close> does on families of scripts, through the
  whole chain of \<open>RuneContext::new\<close>, \<open>ctx.vm()\<close>, the decoding of the
  returned \<open>Vec<Weapon>\<close> and the spawning: how an integer literal of the script
  reaches a weapon attribute (compile-time range of \<open>i64\<close>, run-time range of
  \<open>u32\<close>), that a \<open>main\<close> calling itself blocks the startup
  schedule for ever, and what \<open>RuneContext::new\<close> does when standard error
  cannot be written, which values of \<open>main\<close> decode into weapons, and that
  a weapon handle cannot be configured again once passed to a setter.
\<close>

text \<open>A script whose \<open>main\<close> returns one wand with the level given by the literal \<open>n\<close>.\<close>

definition level_script :: "int \<Rightarrow> (app_error, sources) result" where
  "level_script n =
     Inr [(''entry'', [\<lparr>fn_name = ''main'', fn_params = [],
        fn_body = VecLit [MethodCall (Call [''Weapon'', ''new_wand''] [Lit 1]) ''level'' [Lit n]]\<rparr>])]"

text \<open>A \<open>main\<close> that calls itself.\<close>

definition loop_main :: fn_item where
  "loop_main = \<lparr>fn_name = ''main'', fn_params = [], fn_body = Call [''main''] []\<rparr>"

text \<open>
  A script whose \<open>main\<close> keeps a wand in a local, calls the setter \<open>level\<close>
  on it with the literal \<open>a\<close>, drops the result, and calls \<open>level\<close> on the
  same local again with \<open>b\<close>.
\<close>

definition reuse_script :: "int \<Rightarrow> int \<Rightarrow> (app_error, sources) result" where
  "reuse_script a b =
     Inr [(''entry'', [\<lparr>fn_name = ''main'', fn_params = [],
        fn_body = Block [Let ''w'' (Call [''Weapon'', ''new_wand''] [Lit 1]),
                         Discard (MethodCall (Var ''w'') ''level'' [Lit a])]
                   (VecLit [MethodCall (Var ''w'') ''level'' [Lit b]])\<rparr>])]"

subsection \<open>Lemmas\<close>

lemma level_script_build:
  "prepare_build (with_weapons c) [(''entry'', [\<lparr>fn_name = ''main'', fn_params = [],
        fn_body = VecLit [MethodCall (Call [''Weapon'', ''new_wand''] [Lit 1]) ''level'' [Lit n]]\<rparr>])] =
   (if i64_min \<le> n \<and> n \<le> i64_max
    then ([], Inr [(''main'', 0, [IInteger 1, ICall [''Weapon'', ''new_wand''] 1, IInteger n,
                                 ICallInstance ''level'' 1, IVec 1])])
    else ([ErrIntegerLiteral n], Inl (BuildError 1)))"
  by (simp add: prepare_build_def compile_fn_def static_paths_with_weapons i64_min_def i64_max_def)

lemma exec_loop_main:
  "exec fuel \<lparr>env_runtime = rt, env_unit = [(''main'', 0, [ICallFn ''main'' 0])], env_any = any\<rparr>
     [ICallFn ''main'' 0] [] h = None"
  by (induction fuel arbitrary: h) (simp_all add: pop_n_def)

lemma startup_after_main:
  assumes "std_compatible c" and "prepare_build (with_weapons c) srcs = (d, Inr u)"
    and "eval_fn fuel \<lparr>sem_runtime = context_runtime (with_weapons c), sem_any = weapon_item,
           sem_fns = concat (map snd srcs)\<rparr> ''main'' [] = Some (Inr (v, h))"
  shows "startup fuel (Inr c) (Inr srcs) cmds =
     (case from_value_vec weapon_tyname h v of
        Inl e \<Rightarrow> Some (Inl (ErrDecode e), cmds, d)
      | Inr (ws, _) \<Rightarrow> Some (Inr (), insert_resource (spawn_weapons cmds ws)
                          \<lparr>rc_runtime = context_runtime (with_weapons c), rc_unit = u\<rparr>, d))"
proof -
  have u: "snd (prepare_build (with_weapons c) srcs) = Inr u" using assms(2) by simp
  show ?thesis
    using assms by (auto simp: startup_def rune_context_new_compatible rune_vm_def Let_def vm_execute_eq_eval [OF u]
        split: sum.splits prod.splits)
qed

subsection \<open>Properties\<close>

text \<open>
  C7. An integer literal passed to a weapon setter reaches the weapon exactly
  when it fits: a literal outside the range of \<open>i64\<close> is a compile error
  (startup returns the build error with that diagnostic), one outside the range
  of \<open>u32\<close> makes the setter fail at run time with an integer overflow, and
  otherwise the script's weapon, with level \<open>n\<close>, is spawned; in no error case
  is any command queued.
\<close>

theorem level_literal_bounds:
  assumes "std_compatible c"
  shows "startup (Suc fuel) (Inr c) (level_script n) cmds =
    (if n < i64_min \<or> i64_max < n
     then Some (Inl (ErrBuild (BuildError 1)), cmds, [ErrIntegerLiteral n])
     else if n < 0 \<or> 2 ^ 32 \<le> n
     then Some (Inl (ErrVm IntegerOverflow), cmds, [])
     else Some (Inr (), insert_resource (spawn_weapons cmds [weapon_level (weapon_new_wand 1) (word_of_int n)])
        \<lparr>rc_runtime = context_runtime (with_weapons c),
         rc_unit = [(''main'', 0, [IInteger 1, ICall [''Weapon'', ''new_wand''] 1, IInteger n,
                                 ICallInstance ''level'' 1, IVec 1])]\<rparr>, []))"
  using assms
  by (auto simp: startup_def level_script_def rune_context_new_compatible level_script_build rune_vm_def
      vm_execute_def vm_new_def pop_n_def ret_value_def runtime_with_weapons weapon_api_def weapon_item_def
      native_ctor_u32_def native_method_u32_def value_defs weapon_tyname_def i64_min_def i64_max_def)

theorem level_literal_bounds_witness:
  "std_compatible std_empty \<and>
   startup 1 (Inr std_empty) (level_script 30) (commands_of world_new) =
     Some (Inr (), insert_resource (spawn_weapons (commands_of world_new) [weapon_level (weapon_new_wand 1) 30])
        \<lparr>rc_runtime = context_runtime (with_weapons std_empty),
         rc_unit = [(''main'', 0, [IInteger 1, ICall [''Weapon'', ''new_wand''] 1, IInteger 30,
                                 ICallInstance ''level'' 1, IVec 1])]\<rparr>, []) \<and>
   startup 1 (Inr std_empty) (level_script (2 ^ 32)) (commands_of world_new) =
     Some (Inl (ErrVm IntegerOverflow), commands_of world_new, []) \<and>
   startup 1 (Inr std_empty) (level_script (2 ^ 63)) (commands_of world_new) =
     Some (Inl (ErrBuild (BuildError 1)), commands_of world_new, [ErrIntegerLiteral (2 ^ 63)])"
  using level_literal_bounds [OF std_empty_compatible, of 0 30 "commands_of world_new"]
    level_literal_bounds [OF std_empty_compatible, of 0 "2 ^ 32" "commands_of world_new"]
    level_literal_bounds [OF std_empty_compatible, of 0 "2 ^ 63" "commands_of world_new"]
    std_empty_compatible
  by (simp add: i64_min_def i64_max_def)

text \<open>
  C15. A \<open>main\<close> that calls itself never lets startup return, for any fuel: the
  app has no step out of its initial state, so the startup schedule blocks and
  the update schedule never runs.
\<close>

theorem recursive_main_blocks:
  assumes "std_compatible c"
  shows "startup fuel (Inr c) (Inr [(''loop'', [loop_main])]) cmds = None \<and>
     \<not> (\<exists>t. app_step (Inr c) (Inr [(''loop'', [loop_main])]) app_init t)"
proof -
  have b: "prepare_build (with_weapons c) [(''loop'', [loop_main])] = ([], Inr [(''main'', 0, [ICallFn ''main'' 0])])"
    by (simp add: prepare_build_def compile_fn_def loop_main_def)
  have s: "startup fuel (Inr c) (Inr [(''loop'', [loop_main])]) cmds = None" for fuel cmds
    using assms
    by (simp add: startup_def rune_context_new_compatible b rune_vm_def vm_execute_def vm_new_def Let_def exec_loop_main split: nat.splits)
  have "\<not> app_step (Inr c) (Inr [(''loop'', [loop_main])]) app_init t" for t
  proof
    assume "app_step (Inr c) (Inr [(''loop'', [loop_main])]) app_init t"
    then show False using s by (cases rule: app_step.cases) (auto simp: app_init_def)
  qed
  then show ?thesis using s by blast
qed

theorem recursive_main_blocks_witness:
  "std_compatible std_empty \<and>
   startup 5 (Inr std_empty) (Inr [(''loop'', [loop_main])]) (commands_of world_new) = None \<and>
   \<not> (\<exists>t. app_step (Inr std_empty) (Inr [(''loop'', [loop_main])]) app_init t)"
  using recursive_main_blocks [OF std_empty_compatible, of 5 "commands_of world_new"] std_empty_compatible
  by blast

text \<open>
  C13. When standard error cannot be written, \<open>RuneContext::new\<close> fails with the
  emission error as soon as the compiler reports any diagnostic, a mere warning
  on sources that build included, and writes nothing; without diagnostics it
  does not touch standard error and behaves as with a writable one.
\<close>

theorem emit_failure_aborts:
  assumes "std_compatible c"
  shows "rune_context_new_env StderrFails (Inr c) srcs =
     (if fst (prepare_build (with_weapons c) srcs) \<noteq> [] then (Inl ErrEmit, []) else rune_context_new (Inr c) srcs)"
proof -
  have "context_install c \<lparr>mod_types = [weapon_item], mod_fns = weapon_api\<rparr> = Inr (with_weapons c)"
    using assms install_weapons_module by blast
  then show ?thesis
    by (auto simp: rune_context_new_def rune_context_new_env_def emit_diagnostics_def weapons_module_eq
        split: prod.splits sum.splits)
qed

theorem emit_failure_aborts_witness:
  "std_compatible std_empty \<and>
   fst (prepare_build (with_weapons std_empty) (script_src (Block [Discard (Lit 5)] (VecLit [])))) = [WarnNotUsed] \<and>
   (\<exists>u. snd (prepare_build (with_weapons std_empty) (script_src (Block [Discard (Lit 5)] (VecLit [])))) = Inr u) \<and>
   rune_context_new_env StderrFails (Inr std_empty) (script_src (Block [Discard (Lit 5)] (VecLit []))) = (Inl ErrEmit, [])"
proof -
  have b: "prepare_build (with_weapons std_empty) (script_src (Block [Discard (Lit 5)] (VecLit []))) =
      ([WarnNotUsed], Inr [(''main'', 0, [IInteger 5, IDrop, IVec 0, IClean 0])])"
    by (simp add: script_src_def prepare_build_def compile_fn_def i64_min_def i64_max_def)
  show ?thesis using emit_failure_aborts [OF std_empty_compatible, of "script_src (Block [Discard (Lit 5)] (VecLit []))"]
      std_empty_compatible b by simp
qed

text \<open>
  C20. Decoding the value of \<open>main\<close>: when \<open>main\<close> returns a vector of references to
  distinct weapon objects still in their slots, startup spawns exactly those
  weapons, in order; in every other case (not a vector, an element that is not a
  weapon, a weapon referenced twice or already moved) it fails with a decode
  error and queues nothing.
\<close>

theorem startup_decode_iff:
  assumes "std_compatible c" and "prepare_build (with_weapons c) srcs = (d, Inr u)"
    and "eval_fn fuel \<lparr>sem_runtime = context_runtime (with_weapons c), sem_any = weapon_item,
           sem_fns = concat (map snd srcs)\<rparr> ''main'' [] = Some (Inr (v, h))"
  shows "(\<forall>rs ws. v = VVec (map VAny rs) \<and> distinct rs \<and> list_all2 (\<lambda>r w. objects h r = Some (Live w)) rs ws \<longrightarrow>
            startup fuel (Inr c) (Inr srcs) cmds =
              Some (Inr (), insert_resource (spawn_weapons cmds ws)
                              \<lparr>rc_runtime = context_runtime (with_weapons c), rc_unit = u\<rparr>, d)) \<and>
         ((\<exists>e. startup fuel (Inr c) (Inr srcs) cmds = Some (Inl (ErrDecode e), cmds, d)) \<longleftrightarrow>
            \<not> (\<exists>rs ws. v = VVec (map VAny rs) \<and> distinct rs \<and> list_all2 (\<lambda>r w. objects h r = Some (Live w)) rs ws))"
proof -
  note st = startup_after_main [OF assms, of cmds]
  have ok: "startup fuel (Inr c) (Inr srcs) cmds =
      Some (Inr (), insert_resource (spawn_weapons cmds ws)
              \<lparr>rc_runtime = context_runtime (with_weapons c), rc_unit = u\<rparr>, d)"
    if "v = VVec (map VAny rs)" "distinct rs" "list_all2 (\<lambda>r w. objects h r = Some (Live w)) rs ws" for rs ws
  proof -
    have "from_value_vec weapon_tyname h v =
        Inr (ws, h\<lparr>objects := (objects h)(rs [\<mapsto>] replicate (length rs) Taken)\<rparr>)"
      using that by (auto simp: from_value_vec_Inr_iff)
    then show ?thesis using st by simp
  qed
  have err: "(\<exists>e. startup fuel (Inr c) (Inr srcs) cmds = Some (Inl (ErrDecode e), cmds, d)) \<longleftrightarrow>
      \<not> (\<exists>rs ws. v = VVec (map VAny rs) \<and> distinct rs \<and> list_all2 (\<lambda>r w. objects h r = Some (Live w)) rs ws)"
  proof (cases "from_value_vec weapon_tyname h v")
    case (Inl e)
    have "\<not> (\<exists>rs ws. v = VVec (map VAny rs) \<and> distinct rs \<and> list_all2 (\<lambda>r w. objects h r = Some (Live w)) rs ws)"
    proof (intro notI, elim exE conjE)
      fix rs ws
      assume "v = VVec (map VAny rs)" "distinct rs" "list_all2 (\<lambda>r w. objects h r = Some (Live w)) rs ws"
      then have "from_value_vec weapon_tyname h v =
          Inr (ws, h\<lparr>objects := (objects h)(rs [\<mapsto>] replicate (length rs) Taken)\<rparr>)"
        by (auto simp: from_value_vec_Inr_iff)
      with Inl show False by simp
    qed
    then show ?thesis using st Inl by simp
  next
    case (Inr p)
    then obtain ws h' where fv: "from_value_vec weapon_tyname h v = Inr (ws, h')" by (cases p) auto
    then have "\<exists>rs ws. v = VVec (map VAny rs) \<and> distinct rs \<and> list_all2 (\<lambda>r w. objects h r = Some (Live w)) rs ws"
      unfolding from_value_vec_Inr_iff by blast
    moreover have "\<nexists>e. startup fuel (Inr c) (Inr srcs) cmds = Some (Inl (ErrDecode e), cmds, d)"
      using st fv by simp
    ultimately show ?thesis by blast
  qed
  show ?thesis using ok err by blast
qed


theorem startup_decode_iff_witness:
  "std_compatible std_empty \<and>
   prepare_build (with_weapons std_empty)
     (script_src (Block [Let ''w'' (Call [''Weapon'', ''new_melee''] [Lit 7])] (VecLit [Var ''w'', Var ''w'']))) =
     ([], Inr [(''main'', 0, [IInteger 7, ICall [''Weapon'', ''new_melee''] 1, ICopy 0, ICopy 0, IVec 2, IClean 1])]) \<and>
   eval_fn 1 \<lparr>sem_runtime = context_runtime (with_weapons std_empty), sem_any = weapon_item,
       sem_fns = concat (map snd (script_src (Block [Let ''w'' (Call [''Weapon'', ''new_melee''] [Lit 7])]
                                                (VecLit [Var ''w'', Var ''w'']))))\<rparr> ''main'' [] =
     Some (Inr (VVec [VAny 0, VAny 0], \<lparr>objects = [0 \<mapsto> Live (weapon_new_melee 7)], next_obj = 1\<rparr>)) \<and>
   (\<exists>e. startup 1 (Inr std_empty)
        (Inr (script_src (Block [Let ''w'' (Call [''Weapon'', ''new_melee''] [Lit 7])] (VecLit [Var ''w'', Var ''w'']))))
        (commands_of world_new) = Some (Inl (ErrDecode e), commands_of world_new, []))"
proof -
  let ?src = "script_src (Block [Let ''w'' (Call [''Weapon'', ''new_melee''] [Lit 7])] (VecLit [Var ''w'', Var ''w'']))"
  have b: "prepare_build (with_weapons std_empty) ?src =
      ([], Inr [(''main'', 0, [IInteger 7, ICall [''Weapon'', ''new_melee''] 1, ICopy 0, ICopy 0, IVec 2, IClean 1])])"
    by (simp add: script_src_def prepare_build_def compile_fn_def static_paths_with_weapons i64_min_def i64_max_def)
  have e: "eval_fn 1 \<lparr>sem_runtime = context_runtime (with_weapons std_empty), sem_any = weapon_item,
       sem_fns = concat (map snd ?src)\<rparr> ''main'' [] =
     Some (Inr (VVec [VAny 0, VAny 0], \<lparr>objects = [0 \<mapsto> Live (weapon_new_melee 7)], next_obj = 1\<rparr>))"
    using runtime_with_weapons [OF std_empty_compatible]
    by (simp add: eval_fn_def script_src_def find_fn_def bind_params_def weapon_api_def native_ctor_u32_def
        value_defs)
  have "\<not> (\<exists>rs ws. VVec [VAny 0, VAny 0] = (VVec (map VAny rs) :: weapon rvalue) \<and> distinct rs \<and>
      list_all2 (\<lambda>r w. objects \<lparr>objects = [0 \<mapsto> Live (weapon_new_melee 7)], next_obj = 1\<rparr> r = Some (Live w)) rs ws)"
    by auto
  then show ?thesis
    using startup_decode_iff [OF std_empty_compatible b e, of "commands_of world_new"] std_empty_compatible b e
    by blast
qed

text \<open>
  C21. The setters of \<open>Weapon\<close> take the weapon by value (\<open>mut self\<close>), so a
  script cannot configure a weapon through a handle it has already passed to a
  setter: the second call finds the object moved out of its slot and
  \<open>startup\<close> fails with the machine's moved-access error, queueing nothing and
  writing nothing to standard error, whatever the second argument.
\<close>

theorem setter_moves_weapon:
  assumes "std_compatible c" and "0 \<le> a \<and> a < 2 ^ 32" and "i64_min \<le> b \<and> b \<le> i64_max"
  shows "startup (Suc fuel) (Inr c) (reuse_script a b) cmds = Some (Inl (ErrVm AccessMoved), cmds, [])"
  using assms
  by (auto simp: startup_def reuse_script_def rune_context_new_compatible prepare_build_def compile_fn_def
      static_paths_with_weapons rune_vm_def
      vm_execute_def vm_new_def pop_n_def ret_value_def runtime_with_weapons weapon_api_def weapon_item_def
      native_ctor_u32_def native_method_u32_def value_defs weapon_tyname_def i64_min_def i64_max_def)

theorem setter_moves_weapon_witness:
  "std_compatible std_empty \<and> 0 \<le> (3::int) \<and> (3::int) < 2 ^ 32 \<and> i64_min \<le> (4::int) \<and> (4::int) \<le> i64_max \<and>
   startup 1 (Inr std_empty) (reuse_script 3 4) (commands_of world_new) =
     Some (Inl (ErrVm AccessMoved), commands_of world_new, [])"
  using setter_moves_weapon [OF std_empty_compatible, of 3 4 0 "commands_of world_new"] std_empty_compatible
  by (simp add: i64_min_def i64_max_def)

end
