(* ===== verification/Console.thy ===== *)
theory Console
  imports App
begin

text \<open>
  What the program writes to standard output.  \<open>update\<close> (\<open>src/main.rs\<close>
  lines 50--62) prints one line per queried entity with \<open>println!\<close> and the
  \<open>Debug\<close> formatting \<open>{:?}\<close> of the entity and of its components, and
  \<open>handle_error\<close> (line 67) prints \<open>Error: {err:?}\<close>.  The components derive
  \<open>Debug\<close> (\<open>src/weapons.rs\<close> lines 4--34): a struct prints as
  \<open>WeaponId { id: 1 }\<close>, a tuple struct as \<open>Level(30)\<close>, a unit struct as its
  name, and a \<open>u32\<close> in decimal.  The \<open>Debug\<close> text of bevy's \<open>Entity\<close> and of
  \<open>anyhow::Error\<close> belongs to the libraries and depends on their versions; it
  is the parameter \<open>console_fmt\<close>.  A parser of the component text is the
  inverse of the printing: it shows the printed text loses nothing.  The
  properties give the exact text of the shipped run, the unambiguity and width
  of inspection lines, and the output of a run whose startup fails.
\<close>

definition digit_char :: "nat \<Rightarrow> char" where
  "digit_char d = ''0123456789'' ! d"

fun show_nat :: "nat \<Rightarrow> string" where
  "show_nat n = (if n < 10 then [digit_char n] else show_nat (n div 10) @ [digit_char (n mod 10)])"

text \<open>\<open>Debug\<close> (and \<open>Display\<close>) of \<open>u32\<close>: decimal digits, no sign and no leading zero.\<close>

definition debug_u32 :: "u32 \<Rightarrow> string" where
  "debug_u32 w = show_nat (unat w)"

text \<open>The derived \<open>Debug\<close> of each component type.\<close>

fun debug_component :: "component \<Rightarrow> string" where
  "debug_component (C_WeaponId i) = ''WeaponId { id: '' @ debug_u32 (wid i) @ '' }''"
| "debug_component (C_Level (Level v)) = ''Level('' @ debug_u32 v @ '')''"
| "debug_component (C_MagicLevel (MagicLevel v)) = ''MagicLevel('' @ debug_u32 v @ '')''"
| "debug_component (C_Mana (Mana v)) = ''Mana('' @ debug_u32 v @ '')''"
| "debug_component (C_WandDamageRange r) =
     ''WandDamageRange { min: '' @ debug_u32 (range_min r) @ '', max: '' @ debug_u32 (range_max r) @ '' }''"
| "debug_component (C_DistanceBreakChance (DistanceBreakChance v)) = ''DistanceBreakChance('' @ debug_u32 v @ '')''"
| "debug_component (C_WandWeapon WandWeapon) = ''WandWeapon''"
| "debug_component (C_MeleeWeapon MeleeWeapon) = ''MeleeWeapon''"
| "debug_component (C_DistanceWeapon DistanceWeapon) = ''DistanceWeapon''"

text \<open>The \<open>Debug\<close> text of the library types that are printed: bevy's \<open>Entity\<close> and \<open>anyhow::Error\<close>.\<close>

record console_fmt =
  fmt_entity :: "entity \<Rightarrow> string"
  fmt_error :: "app_error \<Rightarrow> string"

text \<open>The text of each \<open>println!\<close> of \<open>update\<close> and \<open>handle_error\<close>, without its line terminator.\<close>

fun print_line :: "console_fmt \<Rightarrow> out_line \<Rightarrow> string" where
  "print_line f (LineWand e x) = ''Entity: '' @ fmt_entity f e @ '', '' @ debug_component (C_WandWeapon x)"
| "print_line f (LineMelee e x i) =
     ''Entity: '' @ fmt_entity f e @ '', '' @ debug_component (C_MeleeWeapon x) @ '', '' @ debug_component (C_WeaponId i)"
| "print_line f (LineDistance e x) = ''Entity: '' @ fmt_entity f e @ '', '' @ debug_component (C_DistanceWeapon x)"
| "print_line f (LineError err) = ''Error: '' @ fmt_error f err"

text \<open>Standard output as a character stream: every \<open>println!\<close> ends its line with a newline.\<close>

definition console_text :: "console_fmt \<Rightarrow> out_line list \<Rightarrow> string" where
  "console_text f ls = concat (map (\<lambda>l. print_line f l @ [CHR 0x0A]) ls)"

subsection \<open>Reading the text back\<close>

definition is_digit :: "char \<Rightarrow> bool" where
  "is_digit c \<longleftrightarrow> (48 :: nat) \<le> of_char c \<and> of_char c < (58 :: nat)"

definition parse_nat :: "string \<Rightarrow> nat option" where
  "parse_nat s = (if s \<noteq> [] \<and> list_all is_digit s
                  then Some (foldl (\<lambda>n c. 10 * n + (of_char c - 48)) 0 s) else None)"

definition parse_u32 :: "string \<Rightarrow> u32 option" where
  "parse_u32 s = (case parse_nat s of Some n \<Rightarrow> if n < 2 ^ 32 then Some (of_nat n) else None | None \<Rightarrow> None)"

subsection \<open>Lemmas\<close>

declare show_nat.simps [simp del]

lemma show_nat_simps [simp]:
  "n < 10 \<Longrightarrow> show_nat n = [digit_char n]"
  "10 \<le> n \<Longrightarrow> show_nat n = show_nat (n div 10) @ [digit_char (n mod 10)]"
  by (simp_all add: show_nat.simps)

lemma of_char_digit: "d < 10 \<Longrightarrow> of_char (digit_char d) = 48 + d"
  by (auto simp: digit_char_def less_Suc_eq numeral_eq_Suc)

lemma show_nat_digits: "show_nat n \<noteq> [] \<and> list_all is_digit (show_nat n)"
  by (induction n rule: show_nat.induct) (simp add: is_digit_def of_char_digit show_nat.simps)

lemma show_nat_value: "foldl (\<lambda>n c. 10 * n + (of_char c - 48)) 0 (show_nat n) = n"
  by (induction n rule: show_nat.induct) (simp add: of_char_digit show_nat.simps)

lemma parse_show_nat: "parse_nat (show_nat n) = Some n"
  using show_nat_digits show_nat_value by (simp add: parse_nat_def)

lemma parse_debug_u32: "parse_u32 (debug_u32 w) = Some w"
proof -
  have "unat w < 2 ^ 32" using unsigned_less [of w] by simp
  then show ?thesis by (simp add: parse_u32_def debug_u32_def parse_show_nat)
qed

lemma debug_u32_eq_iff [simp]: "debug_u32 a = debug_u32 b \<longleftrightarrow> a = b"
  by (metis option.inject parse_debug_u32)

lemma wand_weapon_eq [simp]: "(x :: wand_weapon) = y"
  by (metis marker_unique(1))

lemma melee_weapon_eq [simp]: "(x :: melee_weapon) = y"
  by (metis marker_unique(2))

lemma distance_weapon_eq [simp]: "(x :: distance_weapon) = y"
  by (metis marker_unique(3))

lemma debug_wand [simp]: "debug_component (C_WandWeapon x) = ''WandWeapon''"
  using marker_unique(1) [of x] by (simp only: debug_component.simps)

lemma debug_melee [simp]: "debug_component (C_MeleeWeapon x) = ''MeleeWeapon''"
  using marker_unique(2) [of x] by (simp only: debug_component.simps)

lemma debug_distance [simp]: "debug_component (C_DistanceWeapon x) = ''DistanceWeapon''"
  using marker_unique(3) [of x] by (simp only: debug_component.simps)

lemma wid_eq_iff [simp]: "wid (i :: weapon_id) = wid i' \<longleftrightarrow> i = i'"
  by (cases i, cases i') simp

lemma comma_cancel:
  "CHR '','' \<notin> set a \<Longrightarrow> CHR '','' \<notin> set a' \<Longrightarrow> a @ CHR '','' # b = a' @ CHR '','' # b' \<Longrightarrow> a = a' \<and> b = b'"
proof (induction a arbitrary: a')
  case Nil
  then show ?case by (cases a') auto
next
  case (Cons x a)
  then show ?case by (cases a') auto
qed

lemma entry_update:
  assumes "entity_count w = 3" and "storage w 0 = weapon_component (entry_weapons ! 0)"
    and "storage w 1 = weapon_component (entry_weapons ! 1)" and "storage w 2 = weapon_component (entry_weapons ! 2)"
  shows "update w = [LineWand 0 WandWeapon, LineMelee 1 MeleeWeapon \<lparr>wid = 2\<rparr>, LineDistance 2 DistanceWeapon]"
proof -
  have u: "[0..<3] = [0 :: nat, 1, 2]" by code_simp
  show ?thesis using assms [unfolded entry_components] by (simp add: update_def query_def u)
qed

lemma show_nat_inj: "inj show_nat"
  by (rule injI) (metis option.inject parse_show_nat)

lemma show_nat_no_comma: "CHR '','' \<notin> set (show_nat n)"
proof -
  have "list_all is_digit (show_nat n)" using show_nat_digits by blast
  moreover have "\<not> is_digit CHR '',''" by (simp add: is_digit_def)
  ultimately show ?thesis by (auto simp: list_all_iff)
qed

lemma update_world_new [simp]: "update world_new = []"
  by (simp add: update_def query_def world_new_def)

text \<open>After a failed startup the world stays empty and standard output holds the one error line.\<close>

lemma error_run_inv:
  assumes "startup fuel std srcs (commands_of world_new) = Some (Inl e, cmds, d)"
    and "(app_step std srcs)\<^sup>*\<^sup>* app_init s"
  shows "s = app_init \<or> (app_phase s \<noteq> Starting \<and> app_world s = world_new \<and> app_stdout s = [LineError e])"
  using assms(2)
proof (induction rule: rtranclp_induct)
  case base
  then show ?case by simp
next
  case (step s t)
  from step.IH show ?case
  proof
    assume "s = app_init"
    then have t: "app_step std srcs app_init t" using step.hyps(2) by simp
    have "app_phase t \<noteq> Starting" using t by (cases rule: app_step.cases) (auto simp: app_init_def)
    then show ?thesis using startup_Inl_step [OF t assms(1)] by simp
  next
    assume inv: "app_phase s \<noteq> Starting \<and> app_world s = world_new \<and> app_stdout s = [LineError e]"
    from step.hyps(2) show ?thesis using inv by (cases rule: app_step.cases) auto
  qed
qed

subsection \<open>Properties\<close>

text \<open>
  C22. What the shipped program prints: after the startup schedule has run the
  script of \<open>create_sources\<close>, the first tick of \<open>update\<close> writes exactly three
  lines to standard output, the wand, the sword with its id and the spear, in
  this order, each ending with a newline, whatever the \<open>Debug\<close> text of bevy's
  entities.
\<close>

theorem scenario_console:
  assumes "std_compatible c" and "app_step (Inr c) create_sources app_init s"
    and "app_step (Inr c) create_sources s t"
  shows "console_text f (app_stdout t) =
     ''Entity: '' @ fmt_entity f 0 @ '', WandWeapon'' @ [CHR 0x0A] @
     ''Entity: '' @ fmt_entity f 1 @ '', MeleeWeapon, WeaponId { id: 2 }'' @ [CHR 0x0A] @
     ''Entity: '' @ fmt_entity f 2 @ '', DistanceWeapon'' @ [CHR 0x0A]"
proof -
  have s: "app_phase s = Running" "app_stdout s = []" "entity_count (app_world s) = 3"
    "storage (app_world s) 0 = weapon_component (entry_weapons ! 0)"
    "storage (app_world s) 1 = weapon_component (entry_weapons ! 1)"
    "storage (app_world s) 2 = weapon_component (entry_weapons ! 2)"
    using startup_entry_step [OF assms(1)] assms(2) by blast+
  have "app_stdout t = app_stdout s @ update (app_world s)"
    using assms(3) s(1) by (cases rule: app_step.cases) auto
  then have "app_stdout t = [LineWand 0 WandWeapon, LineMelee 1 MeleeWeapon \<lparr>wid = 2\<rparr>, LineDistance 2 DistanceWeapon]"
    using entry_update [OF s(3-6)] s(2) by simp
  then show ?thesis by (simp add: console_text_def debug_u32_def digit_char_def)
qed

theorem scenario_console_witness:
  "std_compatible std_empty \<and>
   (\<exists>s t. app_step (Inr std_empty) create_sources app_init s \<and> app_step (Inr std_empty) create_sources s t \<and>
      console_text \<lparr>fmt_entity = show_nat, fmt_error = \<lambda>_. []\<rparr> (app_stdout t) =
        ''Entity: 0, WandWeapon'' @ [CHR 0x0A] @ ''Entity: 1, MeleeWeapon, WeaponId { id: 2 }'' @ [CHR 0x0A] @
        ''Entity: 2, DistanceWeapon'' @ [CHR 0x0A])"
proof -
  obtain s where s: "app_step (Inr std_empty) create_sources app_init s" and r: "app_phase s = Running"
    using startup_entry_step [OF std_empty_compatible] by blast
  let ?t = "s\<lparr>app_stdout := app_stdout s @ update (app_world s)\<rparr>"
  have t: "app_step (Inr std_empty) create_sources s ?t" using r by (rule app_step.update_tick)
  have "console_text \<lparr>fmt_entity = show_nat, fmt_error = \<lambda>_. []\<rparr> (app_stdout ?t) =
        ''Entity: 0, WandWeapon'' @ [CHR 0x0A] @ ''Entity: 1, MeleeWeapon, WeaponId { id: 2 }'' @ [CHR 0x0A] @
        ''Entity: 2, DistanceWeapon'' @ [CHR 0x0A]"
    using scenario_console [OF std_empty_compatible s t, of "\<lparr>fmt_entity = show_nat, fmt_error = \<lambda>_. []\<rparr>"]
    by (simp add: digit_char_def)
  then show ?thesis using std_empty_compatible s t by blast
qed

text \<open>
  C23. The lines of the inspection pass are unambiguous: two lines \<open>update\<close>
  prints with the same text report the same entity, the same marker and, for a
  melee weapon, the same id, provided the \<open>Debug\<close> text of an entity identifies
  it and contains no comma.
\<close>

theorem update_output_unambiguous:
  assumes "inj (fmt_entity f)" and "\<forall>e. CHR '','' \<notin> set (fmt_entity f e)"
    and "l \<in> set (update w)" and "l' \<in> set (update w')" and "print_line f l = print_line f l'"
  shows "l = l'"
proof -
  have key: "e = e' \<and> r = r'" if "fmt_entity f e @ CHR '','' # r = fmt_entity f e' @ CHR '','' # r'" for e e' r r'
    using comma_cancel [OF _ _ that] assms(1,2) by (auto dest: injD)
  have ne: "\<not> (\<exists>err. l = LineError err)" "\<not> (\<exists>err. l' = LineError err)"
    using assms(3,4) update_no_error by auto
  show ?thesis using assms(5) ne
    by (cases l; cases l') (auto dest!: key injD [OF assms(1)])
qed

theorem update_output_unambiguous_witness:
  "inj (fmt_entity \<lparr>fmt_entity = show_nat, fmt_error = \<lambda>_. []\<rparr>) \<and>
   (\<forall>e. CHR '','' \<notin> set (fmt_entity \<lparr>fmt_entity = show_nat, fmt_error = \<lambda>_. []\<rparr> e)) \<and>
   LineWand 0 WandWeapon \<in> set (update ((world_new :: unit world)\<lparr>entity_count := 1,
     storage := (\<lambda>_. Map.empty)(0 := [K_WandWeapon \<mapsto> C_WandWeapon WandWeapon])\<rparr>)) \<and>
   print_line \<lparr>fmt_entity = show_nat, fmt_error = \<lambda>_. []\<rparr> (LineWand 0 WandWeapon) =
     print_line \<lparr>fmt_entity = show_nat, fmt_error = \<lambda>_. []\<rparr> (LineWand 0 WandWeapon) \<and>
   LineWand 0 WandWeapon = LineWand 0 WandWeapon"
proof -
  let ?f = "\<lparr>fmt_entity = show_nat, fmt_error = \<lambda>_. []\<rparr>"
  let ?w = "(world_new :: unit world)\<lparr>entity_count := 1,
     storage := (\<lambda>_. Map.empty)(0 := [K_WandWeapon \<mapsto> C_WandWeapon WandWeapon])\<rparr>"
  have i: "inj (fmt_entity ?f)" using show_nat_inj by simp
  have c: "\<forall>e. CHR '','' \<notin> set (fmt_entity ?f e)" using show_nat_no_comma by simp
  have l: "LineWand 0 WandWeapon \<in> set (update ?w)" by (simp add: update_def query_def world_new_def)
  show ?thesis using update_output_unambiguous [OF i c l l refl] i c l by simp
qed

text \<open>
  C24. When the startup system fails, the program's standard output is, from
  then on and for ever, exactly the one line \<open>Error: \<close> followed by the
  \<open>Debug\<close> text of the error: no inspection tick ever prints a weapon.
\<close>

theorem startup_error_console:
  assumes "startup fuel std srcs (commands_of world_new) = Some (Inl e, cmds, d)"
    and "app_reachable std srcs s" and "app_phase s \<noteq> Starting"
  shows "console_text f (app_stdout s) = ''Error: '' @ fmt_error f e @ [CHR 0x0A]"
proof -
  have "s = app_init \<or> (app_phase s \<noteq> Starting \<and> app_world s = world_new \<and> app_stdout s = [LineError e])"
    using error_run_inv [OF assms(1)] assms(2) unfolding app_reachable_def by blast
  moreover have "s \<noteq> app_init" using assms(3) by (auto simp: app_init_def)
  ultimately have "app_stdout s = [LineError e]" by blast
  then show ?thesis by (simp add: console_text_def)
qed

theorem startup_error_console_witness:
  "startup 1 (Inr std_empty) bad_script (commands_of world_new) =
     Some (Inl (ErrBuild (BuildError 1)), commands_of world_new, [ErrMissingItem [''Weapon'', ''new_staff'']]) \<and>
   app_reachable (Inr std_empty) bad_script
     \<lparr>app_phase = Running, app_world = world_new,
      app_stdout = [LineError (ErrBuild (BuildError 1))],
      app_stderr = [ErrMissingItem [''Weapon'', ''new_staff'']]\<rparr> \<and>
   console_text \<lparr>fmt_entity = show_nat, fmt_error = \<lambda>_. ''BuildError''\<rparr>
     [LineError (ErrBuild (BuildError 1))] = ''Error: BuildError'' @ [CHR 0x0A]"
proof -
  let ?s1 = "\<lparr>app_phase = Running, app_world = world_new :: app_world,
      app_stdout = [LineError (ErrBuild (BuildError 1))],
      app_stderr = [ErrMissingItem [''Weapon'', ''new_staff'']]\<rparr>"
  have st: "startup 1 (Inr std_empty) bad_script (commands_of world_new) =
     Some (Inl (ErrBuild (BuildError 1)), commands_of world_new, [ErrMissingItem [''Weapon'', ''new_staff'']])"
    by (rule bad_startup)
  have r1: "app_step (Inr std_empty) bad_script app_init ?s1" by (rule bad_script_step)
  have r2: "app_step (Inr std_empty) bad_script ?s1 (?s1\<lparr>app_stdout := app_stdout ?s1 @ update (app_world ?s1)\<rparr>)"
    by (rule app_step.update_tick) simp
  have "(app_step (Inr std_empty) bad_script)\<^sup>*\<^sup>* app_init (?s1\<lparr>app_stdout := app_stdout ?s1 @ update (app_world ?s1)\<rparr>)"
    using r1 r2 by (meson rtranclp.rtrancl_into_rtrancl r_into_rtranclp)
  then have "app_reachable (Inr std_empty) bad_script ?s1" by (simp add: app_reachable_def)
  moreover have "app_phase ?s1 \<noteq> Starting" by simp
  ultimately show ?thesis
    using startup_error_console [OF st, of ?s1 "\<lparr>fmt_entity = show_nat, fmt_error = \<lambda>_. ''BuildError''\<rparr>"] st by simp
qed

end
