(* ===== verification/Spec2Isabelle.thy ===== *)
theory Spec2Isabelle
  imports ScriptRuns Console
begin

text \<open>
  \<^bold>\<open>A verification development of weapon-and-rune.\<close>

  The program (\<open>src/src/\<close>) is a bevy application that lets a Rune script
  configure game weapons.  Its parts and how they interact:
  \<^item> \<open>weapons.rs\<close> defines the ECS components (one struct per attribute and one
    marker per weapon kind), the \<open>Weapon\<close> domain object with its constructors
    \<open>new_wand\<close>/\<open>new_distance\<close>/\<open>new_melee\<close> and its chained setters, the Rune
    module \<open>weapons::module\<close> that exposes them to scripts, and
    \<open>Weapon::spawn\<close>/\<open>insert_if_some\<close>, which turn a weapon into one entity
    carrying exactly its configured components;
  \<^item> \<open>rune_context.rs\<close> builds a Rune context with the weapons module
    installed, compiles the script sources (diagnostics to standard error) and
    makes virtual machines over the compiled unit;
  \<^item> \<open>main.rs\<close> builds the app: the \<open>startup\<close> system compiles the script of
    \<open>create_sources\<close>, runs its \<open>main\<close>, decodes the returned \<open>Vec<Weapon>\<close>,
    spawns every weapon and inserts the context as a resource, with its error
    piped into \<open>handle_error\<close>; the \<open>update\<close> system queries the three weapon
    kinds on every tick and prints them.

  \<^bold>\<open>Theories and code correspondence.\<close>
  \<^item> \<open>Prelude\<close>: machine integers (\<open>u32\<close>, \<open>i64\<close> as words), the result type
    \<open>'e + 'a\<close> with \<open>try_res\<close> for Rust's \<open>?\<close>, shared list and option lemmas.
  \<^item> \<open>Components\<close>: the component structs of \<open>weapons.rs\<close> lines 4--34 as records
    over \<open>u32\<close>, the datatype \<open>component\<close> of all of them, \<open>kind_of\<close>.
  \<^item> \<open>Ecs\<close> (bevy, modelled from its documented behaviour): \<open>world\<close> (entity
    allocator, component storage per entity, one resource slot), deferred
    \<open>Commands\<close> (\<open>commands_of\<close>, \<open>spawn\<close>, \<open>ec_insert\<close>, \<open>insert_resource\<close>),
    \<open>apply_command\<close>/\<open>apply_commands\<close> with the panic of inserting on a missing
    entity as an error value, and \<open>query\<close> as a filter over entities.
  \<^item> \<open>Weapons\<close>: \<open>weapon\<close> as the struct of \<open>weapons.rs\<close> lines 53--65,
    \<open>weapon_default\<close>, one definition per constructor and per setter
    (\<open>weapon_new_wand\<close> \<dots> \<open>weapon_break_chance\<close>), and an abstract
    specification \<open>weapon_spec\<close> (a kind and a partial map from attributes to
    values) with the abstraction \<open>abs_weapon\<close>.
  \<^item> \<open>Spawn\<close>: \<open>insert_if_some\<close> and \<open>spawn_weapon\<close> (\<open>weapons.rs\<close> lines
    129--164), \<open>spawn_weapons\<close> (the loop of \<open>main.rs\<close> lines 34--36), and
    \<open>weapon_bundle\<close>, the set of components a weapon should carry, and
    \<open>read_weapon\<close>, reading a weapon back from an entity's components.
  \<^item> \<open>RuneValue\<close>, \<open>RuneModule\<close>, \<open>RuneLang\<close>, \<open>RuneVm\<close> (Rune, modelled from its
    documented behaviour): script values over a heap of shared native objects
    whose \<open>take\<close> moves the object out (\<open>take_any\<close>, \<open>from_value_u32\<close>,
    \<open>from_value_vec\<close>); modules and contexts with conflict detection
    (\<open>module_function_meta\<close>, \<open>context_install\<close>) and the generated wrappers
    (\<open>native_ctor_u32\<close>, \<open>native_method_u32\<close>, \<open>native_method_u32_u32\<close>);
    the language fragment the scripts use, its compiler (\<open>compile_expr\<close>,
    \<open>prepare_build\<close>, with the unused-value warning and unresolved-path
    errors); the stack machine \<open>exec\<close>/\<open>vm_execute\<close>.
  \<^item> \<open>Bridge\<close>: \<open>weapons_module\<close>, the nine registrations of
    \<open>weapons::module\<close> (\<open>weapons.rs\<close> lines 36--51), in the source's order.
  \<^item> \<open>RuneContext\<close>: \<open>rune_context_new_env\<close> and \<open>rune_vm\<close> (\<open>rune_context.rs\<close>
    lines 12--52), \<open>app_error\<close> for \<open>anyhow::Error\<close>; standard error is a
    \<open>stderr_sink\<close> that may fail, and \<open>rune_context_new\<close>, the instance
    \<open>startup\<close> uses, has a writable one.
  \<^item> \<open>RuneEval\<close> (the reference semantics of the script fragment): an evaluator
    \<open>eval_expr\<close> over named locals, calling script functions by name (one
    unit of fuel each) and natives through the runtime; \<open>eval_fn\<close> calls a
    function as \<open>vm.execute\<close> does.
  \<^item> \<open>RuneCorrect\<close>: the simulation of the evaluator by compiled code
    (\<open>scope_rel\<close> relates the compiler's slot list and the machine stack to the
    named locals; \<open>compile_sim\<close> by induction on the compiler, \<open>fns_sim_unit\<close>
    by induction on the fuel) and its consequences for \<open>vm_execute\<close>.
  \<^item> \<open>EngineCorrect\<close>: the same for the program's engine, \<open>rune_context_new\<close> and
    \<open>rune_vm\<close> of \<open>rune_context.rs\<close>.
  \<^item> \<open>App\<close>: the entry script (\<open>entry_main\<close>, \<open>create_sources\<close>), \<open>startup\<close>,
    \<open>handle_error\<close>, \<open>update\<close> with \<open>out_line\<close>, and the app as the inductive
    step relation \<open>app_step\<close> from \<open>app_init\<close> (startup schedule once, then
    update on every tick); console output is the list of lines printed.
  \<^item> \<open>ScriptRuns\<close>: \<open>startup\<close> on families of scripts (\<open>level_script n\<close>, a
    self-calling \<open>loop_main\<close>, \<open>reuse_script a b\<close> that calls a setter twice
    through one handle), the characterisation of the values of \<open>main\<close> that
    decode into weapons.
  \<^item> \<open>Console\<close>: the text standard output receives: \<open>print_line\<close> for the
    \<open>println!\<close> calls of \<open>update\<close> and \<open>handle_error\<close> (\<open>main.rs\<close> lines
    51--67), \<open>console_text\<close> for the stream with a newline per line,
    \<open>debug_component\<close> for the derived \<open>Debug\<close> of the component types
    (\<open>weapons.rs\<close> lines 4--34) over \<open>debug_u32\<close>/\<open>show_nat\<close> (decimal).  The
    \<open>Debug\<close> text of bevy's \<open>Entity\<close> and of \<open>anyhow::Error\<close> is the parameter
    \<open>console_fmt\<close>; \<open>parse_u32\<close> reads a printed \<open>u32\<close> back, which makes
    the printing of ids injective.

  \<^bold>\<open>What the lemmas show.\<close>
  \<open>Weapons\<close>: every setter and constructor refines its abstract operation on
  \<open>weapon_spec\<close>; a built weapon carries exactly the attributes configured last;
  the one-kind invariant \<open>weapon_wf\<close> holds for every constructed weapon and is
  preserved by every setter.  \<open>Ecs\<close>: every command preserves \<open>world_wf\<close> and
  applying a queue that inserts only on
  allocated entities never panics.  \<open>Spawn\<close>: spawning a list of
  weapons never panics, creates one fresh entity per weapon in order, each
  holding exactly \<open>weapon_bundle\<close> of its weapon (sparse materialisation) and
  exactly one kind marker; reading the weapons back from those entities gives
  the spawned list (\<open>spawn_weapons_roundtrip\<close>).  \<open>App\<close>: an error of startup leaves
  the world empty and prints exactly one error line; compile errors stop before
  any machine runs; diagnostics are written on success and failure; a default
  context that already defines \<open>Weapon\<close> or one of its functions makes
  installation fail; the shipped scenario ends with the three weapons of
  \<open>create_sources\<close> in the world; every reachable state satisfies the app
  invariant; the inspection pass reports exactly the entities carrying each
  marker.
  \<open>EngineCorrect\<close>: the machine of a context built by \<open>RuneContext::new\<close> computes
  exactly the source meaning of the script (value, heap, error and
  non-termination alike).  \<open>ScriptRuns\<close>: an integer literal
  reaches a weapon attribute exactly when it fits \<open>u32\<close> (outside \<open>i64\<close> it is a
  compile error, outside \<open>u32\<close> a run-time overflow); a self-calling \<open>main\<close> blocks it in
  its initial state for every fuel; an unwritable standard error aborts
  \<open>RuneContext::new\<close> whenever there is a diagnostic, a warning included;
  startup spawns exactly the weapons of \<open>main\<close>'s value when it is a vector of
  distinct live weapon references and otherwise fails decoding
  (\<open>startup_decode_iff\<close>); a setter called through a handle already passed to
  a setter fails with the moved-access error (\<open>setter_moves_weapon\<close>), the
  setters taking the weapon by value.
  \<open>Console\<close>: the shipped program's first inspection tick prints exactly the
  three lines of its wand, sword (with \<open>WeaponId { id: 2 }\<close>) and spear
  (\<open>scenario_console\<close>); printed inspection lines are unambiguous when
  entity texts are (\<open>update_output_unambiguous\<close>); after a failed startup the
  output is for ever the single \<open>Error:\<close> line (\<open>startup_error_console\<close>, by
  rule induction over the reachable states).

  \<^bold>\<open>Bounds and fuel.\<close>
  Component fields are \<open>u32\<close> words and script integers \<open>i64\<close> words;
  \<open>from_value_u32\<close> checks the range as the generated conversion does.  A
  script function may call itself, so \<open>exec\<close> runs with fuel, one unit per
  entered script function; \<open>None\<close> means no result with this fuel.  Results are
  monotone in the fuel (\<open>exec_fuel_mono\<close>), so every result with some fuel is
  the result with more, and \<open>None\<close> for every fuel is non-termination (the real
  program then blocks the startup schedule).  The entry script calls only
  native functions and needs fuel 1 (\<open>main_scenario\<close>), and
  \<open>recursive_main_blocks\<close> shows the
  fuel bound is not an artefact: a self-calling \<open>main\<close> has no result with
  any.  The default context \<open>rune_modules::default_context()\<close> is the
  parameter \<open>std\<close>; the lemmas assume
  only \<open>std_compatible\<close> (it defines neither \<open>Weapon\<close> nor its functions).

  \<^bold>\<open>Not modelled.\<close>
  Bevy's scheduler, plugins and rendering beyond the order of the two
  schedules; Rune's full language (only the fragment the scripts use), its
  standard library and the text and colours of emitted diagnostics (a failing
  standard error is modelled for \<open>RuneContext::new\<close>; \<open>startup\<close> is modelled
  with a writable one); \<open>Context::runtime()\<close>, whose only failure is an
  allocation failure, is assumed to succeed; the \<open>Debug\<close> text of bevy's
  \<open>Entity\<close> and of \<open>anyhow::Error\<close>, which depends on library versions the
  repository does not pin (it is a parameter of the console model); the
  process exit of \<open>main\<close>.  The map covers every line of the three source
  files except imports, module declarations and closing braces.
\<close>

end
